theory Spec2Isabelle
  imports Main
begin

section \<open>Python strings and builtins used by \<open>varnish/logs.py\<close>\<close>

text \<open>
  The module is Python 2 code working on byte strings. The string methods it calls are
  modelled on \<open>string\<close> (a list of bytes): \<open>str.strip()\<close>, \<open>str.lower()\<close>,
  \<open>str.split(sep)\<close>, \<open>str.split(sep, 1)\<close> and \<open>int(str)\<close>.
\<close>

definition is_space :: "char \<Rightarrow> bool" where
  "is_space c \<longleftrightarrow> c \<in> {CHR '' '', CHR 0x09, CHR 0x0A, CHR 0x0B, CHR 0x0C, CHR 0x0D}"

definition strip :: "string \<Rightarrow> string" where
  "strip s = rev (dropWhile is_space (rev (dropWhile is_space s)))"

definition lower_char :: "char \<Rightarrow> char" where
  "lower_char c =
     (let n = (of_char c :: nat) in if 65 \<le> n \<and> n \<le> 90 then char_of (n + 32) else c)"

definition lower :: "string \<Rightarrow> string" where
  "lower s = map lower_char s"

text \<open>\<open>s.split(sep)\<close> with an explicit one-character separator: every occurrence
  splits, empty pieces are kept, and the empty string gives one empty piece.\<close>

fun split :: "char \<Rightarrow> string \<Rightarrow> string list" where
  "split sep [] = [[]]"
| "split sep (c # cs) =
     (if c = sep then [] # split sep cs
      else (case split sep cs of
              [] \<Rightarrow> [[c]]
            | w # ws \<Rightarrow> (c # w) # ws))"

text \<open>\<open>s.split(sep, 1)\<close>: at most one split, at the first separator.\<close>

definition split1 :: "char \<Rightarrow> string \<Rightarrow> string list" where
  "split1 sep s =
     (case dropWhile (\<lambda>c. c \<noteq> sep) s of
        [] \<Rightarrow> [s]
      | _ # rest \<Rightarrow> [takeWhile (\<lambda>c. c \<noteq> sep) s, rest])"

definition is_digit :: "char \<Rightarrow> bool" where
  "is_digit c \<longleftrightarrow> (let n = (of_char c :: nat) in 48 \<le> n \<and> n \<le> 57)"

definition digits_value :: "string \<Rightarrow> int" where
  "digits_value ds = foldl (\<lambda>acc c. 10 * acc + (int (of_char c) - 48)) 0 ds"

text \<open>\<open>int(s)\<close> in base ten: surrounding whitespace is ignored, one sign is allowed,
  at least one digit is required; anything else is a \<open>ValueError\<close> (here \<open>None\<close>).\<close>

definition py_int :: "string \<Rightarrow> int option" where
  "py_int s =
     (let t = strip s;
          (neg, ds) = (case t of
                         c # r \<Rightarrow> if c = CHR ''-'' then (True, r)
                                  else if c = CHR ''+'' then (False, r)
                                  else (False, t)
                       | [] \<Rightarrow> (False, t))
      in if ds \<noteq> [] \<and> list_all is_digit ds
         then Some (if neg then - digits_value ds else digits_value ds)
         else None)"

text \<open>
  \<open>float(s)\<close> and \<open>datetime.fromtimestamp(x)\<close> produce floating-point values and
  local-time timestamps. Their values are not modelled: both library functions are
  parameters of the model, each of which may fail (\<open>None\<close>: the call raises).
\<close>

record ('f, 't) lib =
  py_float :: "string \<Rightarrow> 'f option"
  fromtimestamp :: "'f \<Rightarrow> 't option"

section \<open>Log chunks and the MultiDict\<close>

text \<open>
  Modelled from the spec: \<open>varnish.api.logs.LogChunk\<close> is not part of the sources at
  hand. A fragment has a descriptor (\<open>fd\<close>), two role flags (\<open>client\<close>, \<open>backend\<close>),
  a tag (read through \<open>chunk.tag.name\<close>; a tag is identified with its name) and a
  payload string (\<open>data\<close>).
\<close>

record chunk =
  c_fd :: int
  c_client :: bool
  c_backend :: bool
  c_tag :: string
  c_data :: string

text \<open>
  Modelled from the spec: \<open>varnish.utils.MultiDict\<close> is not part of the sources at
  hand. The spec describes it as an ordered multi-valued mapping in which insertion
  order is preserved and duplicate keys are retained: an association list to which
  \<open>d[k] = v\<close> appends.
\<close>

type_synonym multidict = "(string \<times> string) list"

definition md_setitem :: "multidict \<Rightarrow> string \<Rightarrow> string \<Rightarrow> multidict" where
  "md_setitem d k v = d @ [(k, v)]"

section \<open>Request log objects\<close>

datatype error =
  ValueError | AssertionError | AttributeError | KeyError | RuntimeError | ConsumerError

datatype cls = ClientRequestLog | BackendRequestLog

type_synonym ref = nat

text \<open>
  One record type holds the attributes of both subclasses; \<open>cls\<close> is the Python class
  of the object. The attributes \<open>client\<close>, \<open>backend\<close> and \<open>_last_vcl\<close> are not
  created by \<open>init\<close>: \<open>None\<close> in the outer option means the attribute does not exist
  (reading it raises \<open>AttributeError\<close>). For the other optional fields \<open>None\<close> is
  Python's \<open>None\<close>.
\<close>

record ('f, 't) request_log =
  cls :: cls
  fd :: int
  chunks :: "chunk list"
  active :: bool
  complete :: bool
  client :: "bool option"
  backend :: "bool option"
  rxheaders :: multidict
  txheaders :: multidict
  rxprotocol :: "string option"
  txprotocol :: "string option"
  method_attr :: "string option"
  url :: "string option"
  status :: "int option"
  response :: "string option"
  length_attr :: "int option"
  id_attr :: "string option"
  vcl_calls :: multidict
  last_vcl :: "string option"
  hash_data :: "string list"
  client_ip :: "string option"
  client_port :: "string option"
  started_at :: "'t option"
  completed_at :: "'t option"
  req_start_delay :: "'f option"
  processing_time :: "'f option"
  deliver_time :: "'f option"
  backend_request :: "ref option"
  backend_name :: "string option"
  director_name :: "string option"

text \<open>\<open>RequestLog.init\<close> followed by the subclass's own \<open>init\<close>. A freshly allocated
  object never has the attribute \<open>fd\<close>, so the early return of \<open>init\<close> is not taken.\<close>

definition init :: "cls \<Rightarrow> int \<Rightarrow> bool \<Rightarrow> ('f, 't) request_log" where
  "init k f act =
     \<lparr> cls = k, fd = f, chunks = [], active = act, complete = False,
       client = None, backend = None,
       rxheaders = [], txheaders = [], rxprotocol = None, txprotocol = None,
       method_attr = None, url = None, status = None, response = None, length_attr = None,
       id_attr = None, vcl_calls = [], last_vcl = None, hash_data = [],
       client_ip = None, client_port = None, started_at = None, completed_at = None,
       req_start_delay = None, processing_time = None, deliver_time = None,
       backend_request = None, backend_name = None, director_name = None \<rparr>"

text \<open>
  \<open>RequestLog.on_append_chunk\<close>. It only touches \<open>self\<close>. The result is the object as
  the method leaves it, also when it raises: the role flags are stored and the chunk is
  appended before the payload is parsed.
\<close>

definition set_header :: "string \<Rightarrow> (string \<times> string) option" where
  "set_header d =
     (case split1 CHR '':'' d of
        [key, value] \<Rightarrow> Some (lower (strip key), strip value)
      | _ \<Rightarrow> None)"

definition on_append_chunk ::
  "chunk \<Rightarrow> ('f, 't) request_log \<Rightarrow> (error + unit) \<times> ('f, 't) request_log" where
  "on_append_chunk chunk self0 =
     (let self = self0\<lparr> client := Some (c_client chunk), backend := Some (c_backend chunk),
                        chunks := chunks self0 @ [chunk] \<rparr>;
          name = c_tag chunk
      in if name = ''rxheader'' then
           (case set_header (c_data chunk) of
              None \<Rightarrow> (Inl ValueError, self)
            | Some (k, v) \<Rightarrow> (Inr (), self\<lparr> rxheaders := md_setitem (rxheaders self) k v \<rparr>))
         else if name = ''txheader'' then
           (case set_header (c_data chunk) of
              None \<Rightarrow> (Inl ValueError, self)
            | Some (k, v) \<Rightarrow> (Inr (), self\<lparr> txheaders := md_setitem (txheaders self) k v \<rparr>))
         else if name = ''rxprotocol'' then (Inr (), self\<lparr> rxprotocol := Some (c_data chunk) \<rparr>)
         else if name = ''txprotocol'' then (Inr (), self\<lparr> txprotocol := Some (c_data chunk) \<rparr>)
         else if name = ''length'' then
           (case py_int (c_data chunk) of
              None \<Rightarrow> (Inl ValueError, self)
            | Some n \<Rightarrow> (Inr (), self\<lparr> length_attr := Some n \<rparr>))
         else (Inr (), self))"

text \<open>\<open>BackendRequestLog.on_append_chunk\<close>: the base method, then the backend tags.\<close>

definition BackendRequestLog_on_append_chunk ::
  "chunk \<Rightarrow> ('f, 't) request_log \<Rightarrow> (error + unit) \<times> ('f, 't) request_log" where
  "BackendRequestLog_on_append_chunk chunk self0 =
     (case on_append_chunk chunk self0 of
        (Inl e, self) \<Rightarrow> (Inl e, self)
      | (Inr _, self) \<Rightarrow>
          (let name = c_tag chunk
           in if name = ''txrequest'' then (Inr (), self\<lparr> method_attr := Some (c_data chunk) \<rparr>)
              else if name = ''txurl'' then (Inr (), self\<lparr> url := Some (c_data chunk) \<rparr>)
              else if name = ''rxstatus'' then
                (case py_int (c_data chunk) of
                   None \<Rightarrow> (Inl ValueError, self)
                 | Some n \<Rightarrow> (Inr (), self\<lparr> status := Some n \<rparr>))
              else if name = ''rxresponse'' then (Inr (), self\<lparr> response := Some (c_data chunk) \<rparr>)
              else if name = ''backendopen'' \<or> name = ''backendreuse'' then
                (Inr (), self\<lparr> backend_name := Some (hd (split CHR '' '' (c_data chunk))) \<rparr>)
              else (Inr (), self)))"

section \<open>The table of request logs\<close>

text \<open>
  Request logs are shared mutable objects: the class attribute \<open>RequestLog._lines\<close>
  maps descriptors to objects, and a client log refers to its backend log through
  \<open>backend_request\<close>. The store keeps the objects in a heap addressed by references;
  a new object gets the next free reference.
\<close>

record ('f, 't) store =
  heap :: "('f, 't) request_log list"
  lines :: "int \<Rightarrow> ref option"

definition empty_store :: "('f, 't) store" where
  "empty_store = \<lparr> heap = [], lines = (\<lambda>_. None) \<rparr>"

definition upd ::
  "ref \<Rightarrow> (('f, 't) request_log \<Rightarrow> ('f, 't) request_log) \<Rightarrow> ('f, 't) store \<Rightarrow> ('f, 't) store" where
  "upd r f st = st\<lparr> heap := (heap st)[r := f (heap st ! r)] \<rparr>"

text \<open>Python truthiness of an optional string: \<open>None\<close> and \<open>""\<close> are false.\<close>

definition truthy :: "string option \<Rightarrow> bool" where
  "truthy v \<longleftrightarrow> (case v of None \<Rightarrow> False | Some s \<Rightarrow> s \<noteq> [])"

text \<open>The last statement of the \<open>backend\<close> branch: the director is propagated to the
  backend log \<open>b\<close> unless that log already has one.\<close>

definition set_director :: "ref \<Rightarrow> string \<Rightarrow> ('f, 't) store \<Rightarrow> ('f, 't) store" where
  "set_director b director st =
     (if \<not> truthy (director_name (heap st ! b))
      then upd b (\<lambda>x. x\<lparr> director_name := Some director \<rparr>) st
      else st)"

text \<open>
  The message of a failing \<open>assert isinstance(...)\<close> is built with \<open>repr\<close> of the
  object found, and Python builds it before it raises \<open>AssertionError\<close>.
  \<open>BackendRequestLog.__repr__\<close> formats attributes only and returns.
  \<open>ClientRequestLog.__repr__\<close> first calls \<open>repr(self.backend_request)\<close>: it returns
  at once for \<open>None\<close> and for a backend log, and for a client log it goes on along
  \<open>backend_request\<close>. When that chain comes back to a log it has visited, the
  recursion never ends and Python stops it with \<open>RuntimeError\<close> (maximum recursion
  depth exceeded). A chain that visits more logs than the heap holds has come back to
  one of them, so \<open>repr_overflows\<close> follows the chain for that many steps. The
  recursion limit is taken to be larger than the number of logs, and \<open>repr\<close> of a
  chunk, whose class is not part of the sources, is taken to return.
\<close>

fun repr_overflows :: "nat \<Rightarrow> ('f, 't) store \<Rightarrow> ref \<Rightarrow> bool" where
  "repr_overflows 0 st r = True"
| "repr_overflows (Suc n) st r =
     (case cls (heap st ! r) of
        BackendRequestLog \<Rightarrow> False
      | ClientRequestLog \<Rightarrow>
          (case backend_request (heap st ! r) of
             None \<Rightarrow> False
           | Some b \<Rightarrow> repr_overflows n st b))"

text \<open>The exception of a failing \<open>assert isinstance(obj, ...)\<close> whose message holds
  \<open>repr(obj)\<close>, for the object \<open>r\<close>.\<close>

definition failed_assert :: "('f, 't) store \<Rightarrow> ref \<Rightarrow> error" where
  "failed_assert st r =
     (if repr_overflows (Suc (length (heap st))) st r then RuntimeError else AssertionError)"

text \<open>The \<open>backend\<close> branch of \<open>ClientRequestLog.on_append_chunk\<close> for the client log
  \<open>r\<close>. In the known-descriptor case \<open>backend_request\<close> is assigned before the
  assertion is checked.\<close>

definition on_backend ::
  "ref \<Rightarrow> string \<Rightarrow> ('f, 't) store \<Rightarrow> (error + unit) \<times> ('f, 't) store" where
  "on_backend r d st =
     (case split CHR '' '' d of
        [backend_fd_s, director, bname] \<Rightarrow>
          (case py_int backend_fd_s of
             None \<Rightarrow> (Inl ValueError, st)
           | Some backend_fd \<Rightarrow>
               (case lines st backend_fd of
                  Some b \<Rightarrow>
                    (let st1 = upd r (\<lambda>x. x\<lparr> backend_request := Some b \<rparr>) st
                     in if cls (heap st1 ! b) \<noteq> BackendRequestLog
                        then (Inl (failed_assert st1 b), st1)
                        else (Inr (), set_director b director st1))
                | None \<Rightarrow>
                    (let b = length (heap st);
                         new = (init BackendRequestLog backend_fd False)\<lparr> backend_name := Some bname \<rparr>;
                         st1 = st\<lparr> heap := heap st @ [new] \<rparr>;
                         st2 = upd r (\<lambda>x. x\<lparr> backend_request := Some b \<rparr>) st1;
                         st3 = st2\<lparr> lines := (lines st2)(backend_fd \<mapsto> b) \<rparr>
                     in (Inr (), set_director b director st3))))
      | _ \<Rightarrow> (Inl ValueError, st))"

text \<open>The \<open>reqend\<close> branch: six tokens, then one assignment after the other; an
  assignment that raises leaves the earlier ones in place.\<close>

definition on_reqend ::
  "('f, 't) lib \<Rightarrow> ref \<Rightarrow> string \<Rightarrow> ('f, 't) store \<Rightarrow> (error + unit) \<times> ('f, 't) store" where
  "on_reqend L r d st =
     (case split CHR '' '' d of
        [xid, started, completed, delay, processing, deliver] \<Rightarrow>
          (case Option.bind (py_float L started) (fromtimestamp L) of
             None \<Rightarrow> (Inl ValueError, st)
           | Some t1 \<Rightarrow>
          (let st1 = upd r (\<lambda>x. x\<lparr> started_at := Some t1 \<rparr>) st in
           case Option.bind (py_float L completed) (fromtimestamp L) of
             None \<Rightarrow> (Inl ValueError, st1)
           | Some t2 \<Rightarrow>
          (let st2 = upd r (\<lambda>x. x\<lparr> completed_at := Some t2 \<rparr>) st1 in
           case py_float L delay of
             None \<Rightarrow> (Inl ValueError, st2)
           | Some x1 \<Rightarrow>
          (let st3 = upd r (\<lambda>x. x\<lparr> req_start_delay := Some x1 \<rparr>) st2 in
           case py_float L processing of
             None \<Rightarrow> (Inl ValueError, st3)
           | Some x2 \<Rightarrow>
          (let st4 = upd r (\<lambda>x. x\<lparr> processing_time := Some x2 \<rparr>) st3 in
           case py_float L deliver of
             None \<Rightarrow> (Inl ValueError, st4)
           | Some x3 \<Rightarrow> (Inr (), upd r (\<lambda>x. x\<lparr> deliver_time := Some x3 \<rparr>) st4))))))
      | _ \<Rightarrow> (Inl ValueError, st))"

text \<open>\<open>ClientRequestLog.on_append_chunk\<close> for the client log \<open>r\<close>: the base method,
  then the client tags.\<close>

definition ClientRequestLog_on_append_chunk ::
  "('f, 't) lib \<Rightarrow> ref \<Rightarrow> chunk \<Rightarrow> ('f, 't) store \<Rightarrow> (error + unit) \<times> ('f, 't) store" where
  "ClientRequestLog_on_append_chunk L r chunk st0 =
     (case on_append_chunk chunk (heap st0 ! r) of
        (Inl e, self) \<Rightarrow> (Inl e, upd r (\<lambda>_. self) st0)
      | (Inr _, self) \<Rightarrow>
          (let st = upd r (\<lambda>_. self) st0; name = c_tag chunk; d = c_data chunk
           in if name = ''vcl_call'' then (Inr (), upd r (\<lambda>x. x\<lparr> last_vcl := Some d \<rparr>) st)
              else if name = ''vcl_return'' then
                (case last_vcl self of
                   None \<Rightarrow> (Inl AttributeError, st)
                 | Some lv \<Rightarrow>
                     (Inr (), upd r (\<lambda>x. x\<lparr> vcl_calls := md_setitem (vcl_calls x) lv d,
                                              last_vcl := None \<rparr>) st))
              else if name = ''hash'' then
                (Inr (), upd r (\<lambda>x. x\<lparr> hash_data := hash_data x @ [d] \<rparr>) st)
              else if name = ''length'' then
                (case py_int d of
                   None \<Rightarrow> (Inl ValueError, st)
                 | Some n \<Rightarrow> (Inr (), upd r (\<lambda>x. x\<lparr> length_attr := Some n \<rparr>) st))
              else if name = ''rxrequest'' then (Inr (), upd r (\<lambda>x. x\<lparr> method_attr := Some d \<rparr>) st)
              else if name = ''rxurl'' then (Inr (), upd r (\<lambda>x. x\<lparr> url := Some d \<rparr>) st)
              else if name = ''reqstart'' then
                (case split CHR '' '' d of
                   [ip, port, xid] \<Rightarrow>
                     (Inr (), upd r (\<lambda>x. x\<lparr> client_ip := Some ip, client_port := Some port,
                                              id_attr := Some xid \<rparr>) st)
                 | _ \<Rightarrow> (Inl ValueError, st))
              else if name = ''txstatus'' then
                (case py_int d of
                   None \<Rightarrow> (Inl ValueError, st)
                 | Some n \<Rightarrow> (Inr (), upd r (\<lambda>x. x\<lparr> status := Some n \<rparr>) st))
              else if name = ''txresponse'' then (Inr (), upd r (\<lambda>x. x\<lparr> response := Some d \<rparr>) st)
              else if name = ''backend'' then on_backend r d st
              else if name = ''reqend'' then on_reqend L r d st
              else (Inr (), st)))"

text \<open>The two tag tests of \<open>add_chunk\<close>.\<close>

definition is_start :: "chunk \<Rightarrow> bool" where
  "is_start chunk \<longleftrightarrow>
     (c_client chunk \<and> c_tag chunk = ''reqstart'') \<or>
     (c_backend chunk \<and> c_tag chunk = ''backendopen'')"

definition is_end :: "chunk \<Rightarrow> bool" where
  "is_end chunk \<longleftrightarrow>
     (c_client chunk \<and> c_tag chunk = ''reqend'') \<or>
     (c_backend chunk \<and> (c_tag chunk = ''backendclose'' \<or> c_tag chunk = ''backendreuse''))"

text \<open>The completion block of \<open>add_chunk\<close>; \<open>del _lines[self.fd]\<close> raises \<open>KeyError\<close>
  when the descriptor is not bound.\<close>

definition mark_complete ::
  "ref \<Rightarrow> chunk \<Rightarrow> ('f, 't) store \<Rightarrow> (error + unit) \<times> ('f, 't) store" where
  "mark_complete r chunk st =
     (let st1 = upd r (\<lambda>x. x\<lparr> complete := True, active := False \<rparr>) st;
          f = fd (heap st ! r)
      in if c_client chunk then
           (case lines st1 f of
              None \<Rightarrow> (Inl KeyError, st1)
            | Some _ \<Rightarrow> (Inr (), st1\<lparr> lines := (lines st1)(f := None) \<rparr>))
         else (Inr (), st1))"

text \<open>The call \<open>self.on_append_chunk(chunk)\<close>: the method of the class of the object \<open>r\<close>.\<close>

definition call_on_append_chunk ::
  "('f, 't) lib \<Rightarrow> ref \<Rightarrow> chunk \<Rightarrow> ('f, 't) store \<Rightarrow> (error + unit) \<times> ('f, 't) store" where
  "call_on_append_chunk L r chunk st =
     (case cls (heap st ! r) of
        ClientRequestLog \<Rightarrow> ClientRequestLog_on_append_chunk L r chunk st
      | BackendRequestLog \<Rightarrow>
          (case BackendRequestLog_on_append_chunk chunk (heap st ! r) of
             (res, self) \<Rightarrow> (res, upd r (\<lambda>_. self) st)))"

text \<open>\<open>RequestLog.add_chunk\<close> on the object \<open>r\<close>.\<close>

definition add_chunk ::
  "('f, 't) lib \<Rightarrow> ref \<Rightarrow> chunk \<Rightarrow> ('f, 't) store \<Rightarrow> (error + bool) \<times> ('f, 't) store" where
  "add_chunk L r chunk st =
     (let self = heap st ! r
      in if fd self = 0 then (Inr False, st)
         else if \<not> active self \<and> \<not> is_start chunk then (Inr False, st)
         else
           (let st1 = (if \<not> active self then upd r (\<lambda>x. x\<lparr> active := True \<rparr>) st else st)
            in case (if is_end chunk then mark_complete r chunk st1 else (Inr (), st1)) of
                 (Inl e, st2) \<Rightarrow> (Inl e, st2)
               | (Inr _, st2) \<Rightarrow>
                   (case call_on_append_chunk L r chunk st2 of
                      (Inl e, st3) \<Rightarrow> (Inl e, st3)
                    | (Inr _, st3) \<Rightarrow> (Inr (complete (heap st3 ! r)), st3))))"

text \<open>\<open>RequestLog.__new__\<close>, the factory: the log bound to the chunk's descriptor, or a
  new one of the class the chunk's role asks for, fed with the chunk. It returns the
  object, or \<open>None\<close> for a chunk of neither role on an unbound descriptor.\<close>

definition RequestLog ::
  "('f, 't) lib \<Rightarrow> chunk \<Rightarrow> bool \<Rightarrow> ('f, 't) store \<Rightarrow> (error + ref option) \<times> ('f, 't) store" where
  "RequestLog L chunk act st =
     (let feed = (\<lambda>r s. case add_chunk L r chunk s of
                          (Inl e, s') \<Rightarrow> (Inl e, s')
                        | (Inr _, s') \<Rightarrow> (Inr (Some r), s'));
          create = (\<lambda>k. let r = length (heap st);
                            s = st\<lparr> heap := heap st @ [init k (c_fd chunk) act],
                                    lines := (lines st)(c_fd chunk \<mapsto> r) \<rparr>
                        in feed r s)
      in case lines st (c_fd chunk) of
           Some r \<Rightarrow>
             if c_client chunk then
               (if cls (heap st ! r) = ClientRequestLog then feed r st
                else (Inl (failed_assert st r), st))
             else if c_backend chunk then
               (if cls (heap st ! r) = BackendRequestLog then feed r st
                else (Inl (failed_assert st r), st))
             else feed r st
         | None \<Rightarrow>
             if c_client chunk then create ClientRequestLog
             else if c_backend chunk then create BackendRequestLog
             else (Inr None, st))"

section \<open>The dispatcher\<close>

text \<open>
  The consumer \<open>callback\<close> and the optional \<open>nonrequest_callback\<close> are parameters. A
  consumer reads the delivered object in the store it is given and returns a value or
  raises; it does not change the store. The dispatcher's state keeps, next to the store,
  the objects handed to the consumer, the chunks handed to the non-request callback, and
  the exceptions caught and printed by \<open>print_exc\<close>, each in order.
\<close>

record ('f, 't) dstate =
  tbl :: "('f, 't) store"
  delivered :: "ref list"
  nonrequest :: "chunk list"
  printed :: "error list"

definition init_dstate :: "('f, 't) dstate" where
  "init_dstate = \<lparr> tbl = empty_store, delivered = [], nonrequest = [], printed = [] \<rparr>"

text \<open>The tags of \<open>_ignored_tags\<close>, by name.\<close>

definition ignored_tags :: "string set" where
  "ignored_tags = {''sessionopen'', ''sessionclose'', ''statsess''}"

text \<open>The call \<open>res = callback(ev)\<close> inside the \<open>try\<close>: \<open>res\<close> is \<open>True\<close> before it and
  stays so when the consumer raises.\<close>

definition deliver ::
  "(('f, 't) store \<Rightarrow> ref \<Rightarrow> error + bool) \<Rightarrow> ref \<Rightarrow> ('f, 't) dstate \<Rightarrow> bool \<times> ('f, 't) dstate" where
  "deliver callback r ds =
     (case callback (tbl ds) r of
        Inl e \<Rightarrow> (True, ds\<lparr> delivered := delivered ds @ [r], printed := printed ds @ [e] \<rparr>)
      | Inr v \<Rightarrow> (v, ds\<lparr> delivered := delivered ds @ [r] \<rparr>))"

text \<open>The closure \<open>cb\<close> of \<open>dispatch_requests\<close>. The bare \<open>except\<close> catches every
  exception of the body, prints it and lets \<open>cb\<close> return the current \<open>res\<close>.\<close>

definition cb ::
  "('f, 't) lib \<Rightarrow> (('f, 't) store \<Rightarrow> ref \<Rightarrow> error + bool) \<Rightarrow> bool \<Rightarrow>
   (chunk \<Rightarrow> error + bool) option \<Rightarrow> chunk \<Rightarrow> ('f, 't) dstate \<Rightarrow> bool \<times> ('f, 't) dstate" where
  "cb L callback aggregate nonrequest_callback chunk ds =
     (if c_fd chunk = 0 then
        (case nonrequest_callback of
           Some f \<Rightarrow>
             (case f chunk of
                Inl e \<Rightarrow> (False, ds\<lparr> nonrequest := nonrequest ds @ [chunk],
                                      printed := printed ds @ [e] \<rparr>)
              | Inr v \<Rightarrow> (v, ds\<lparr> nonrequest := nonrequest ds @ [chunk] \<rparr>))
         | None \<Rightarrow> (True, ds))
      else if c_tag chunk \<in> ignored_tags then (True, ds)
      else
        (case RequestLog L chunk False (tbl ds) of
           (Inl e, st) \<Rightarrow> (False, ds\<lparr> tbl := st, printed := printed ds @ [e] \<rparr>)
         | (Inr ev, st) \<Rightarrow>
             (let ds1 = ds\<lparr> tbl := st \<rparr>
              in case ev of
                   None \<Rightarrow> (True, ds1)
                 | Some r \<Rightarrow>
                     (let self = heap st ! r
                      in if \<not> complete self then (True, ds1)
                         else
                           (case backend self of
                              None \<Rightarrow> (True, ds1\<lparr> printed := printed ds1 @ [AttributeError] \<rparr>)
                            | Some b \<Rightarrow>
                                if b \<and> chunks self = [] then (True, ds1)
                                else if aggregate then
                                  (case client self of
                                     None \<Rightarrow>
                                       (True, ds1\<lparr> printed := printed ds1 @ [AttributeError] \<rparr>)
                                   | Some c \<Rightarrow>
                                       if c then deliver callback r ds1 else (True, ds1))
                                else deliver callback r ds1)))))"

text \<open>
  Modelled from the spec: \<open>varnish.api.logs.dispatch\<close>, the loop that reads the shared
  log, is not part of the sources at hand. By section 4.5 of the spec the handler is
  called for each fragment of the stream in turn, and what it returns does not alter the
  iteration.
\<close>

fun dispatch :: "(chunk \<Rightarrow> 's \<Rightarrow> bool \<times> 's) \<Rightarrow> chunk list \<Rightarrow> 's \<Rightarrow> 's" where
  "dispatch wrapper [] s = s"
| "dispatch wrapper (chunk # rest) s = dispatch wrapper rest (snd (wrapper chunk s))"

text \<open>\<open>dispatch_requests\<close>: \<open>dispatch_chunks\<close> wraps \<open>cb\<close>, which declares one
  parameter, so the wrapper calls \<open>cb(chunk)\<close>.\<close>

definition dispatch_requests ::
  "('f, 't) lib \<Rightarrow> (('f, 't) store \<Rightarrow> ref \<Rightarrow> error + bool) \<Rightarrow> bool \<Rightarrow>
   (chunk \<Rightarrow> error + bool) option \<Rightarrow> chunk list \<Rightarrow> ('f, 't) dstate \<Rightarrow> ('f, 't) dstate" where
  "dispatch_requests L callback aggregate nonrequest_callback stream ds =
     dispatch (cb L callback aggregate nonrequest_callback) stream ds"

text \<open>A name for the store in which \<open>add_chunk\<close> calls \<open>on_append_chunk\<close> when it
  accepts the chunk and \<open>del\<close> does not raise: the log is activated and, for an end tag,
  marked complete and (for a client chunk) unbound.\<close>

definition before_append :: "ref \<Rightarrow> chunk \<Rightarrow> ('f, 't) store \<Rightarrow> ('f, 't) store" where
  "before_append r chunk st =
     (let st1 = (if \<not> active (heap st ! r) then upd r (\<lambda>x. x\<lparr> active := True \<rparr>) st else st)
      in if is_end chunk then snd (mark_complete r chunk st1) else st1)"


text \<open>A name for the store in which the factory feeds the chunk to a newly created log
  of class \<open>k\<close>: the log is allocated, initialised and bound to the chunk's descriptor.\<close>

definition bind_new :: "cls \<Rightarrow> chunk \<Rightarrow> bool \<Rightarrow> ('f, 't) store \<Rightarrow> ('f, 't) store" where
  "bind_new k chunk act st =
     st\<lparr> heap := heap st @ [init k (c_fd chunk) act],
         lines := (lines st)(c_fd chunk \<mapsto> length (heap st)) \<rparr>"

text \<open>The payload of a \<open>reqend\<close> chunk that \<open>ClientRequestLog.on_append_chunk\<close> parses
  without raising: six tokens, of which the second and third are floats that are valid
  timestamps and the last three are floats.\<close>

definition reqend_ok :: "('f, 't) lib \<Rightarrow> string \<Rightarrow> bool" where
  "reqend_ok L d \<longleftrightarrow>
     (case split CHR '' '' d of
        [xid, t_start, t_end, delay, processing, delivery] \<Rightarrow>
          Option.bind (py_float L t_start) (fromtimestamp L) \<noteq> None \<and>
          Option.bind (py_float L t_end) (fromtimestamp L) \<noteq> None \<and>
          py_float L delay \<noteq> None \<and> py_float L processing \<noteq> None \<and>
          py_float L delivery \<noteq> None
      | _ \<Rightarrow> False)"

section \<open>Streams with one client and one backend transaction\<close>

text \<open>The descriptor named by the payload of a client \<open>backend\<close> fragment:
  \<open>backend_fd, director, backend = chunk.data.split(' ')\<close> and \<open>int(backend_fd)\<close> in
  \<open>ClientRequestLog.on_append_chunk\<close>.\<close>

definition backend_ref :: "string \<Rightarrow> int option" where
  "backend_ref d =
     (case split CHR '' '' d of
        [backend_fd_s, director, bname] \<Rightarrow> py_int backend_fd_s
      | _ \<Rightarrow> None)"

text \<open>A transaction on a descriptor has not started, is running, or has ended.\<close>

datatype phase = Idle | Running | Finished

text \<open>
  The streams of the aggregation property are recognised fragment by fragment. The state
  holds the phase of the client transaction on the descriptor \<open>fc\<close>, the phase of the
  backend transaction on the descriptor \<open>fb\<close>, and whether the client transaction has
  named the backend descriptor. Fragments without a descriptor and fragments with an
  administrative tag may occur anywhere. The client transaction is the fragments with the
  client role on \<open>fc\<close>: one \<open>reqstart\<close>, then fragments of which each \<open>backend\<close> one
  names \<open>fb\<close>, then one \<open>reqend\<close> with a well-formed payload, after the reference. The
  backend transaction is the fragments with the backend role on \<open>fb\<close>: one
  \<open>backendopen\<close>, then other fragments, then one \<open>backendclose\<close> or \<open>backendreuse\<close>.
  Any other fragment, and any fragment after the end of its transaction, is not part of
  such a stream.
\<close>

definition pair_step ::
  "('f, 't) lib \<Rightarrow> int \<Rightarrow> int \<Rightarrow> phase \<times> phase \<times> bool \<Rightarrow> chunk \<Rightarrow> (phase \<times> phase \<times> bool) option" where
  "pair_step L fc fb s c =
     (case s of (cp, bp, refd) \<Rightarrow>
        if c_fd c = 0 \<or> c_tag c \<in> ignored_tags then Some s
        else if c_fd c = fc \<and> c_client c \<and> \<not> c_backend c then
          (case cp of
             Idle \<Rightarrow> if c_tag c = ''reqstart'' then Some (Running, bp, refd) else None
           | Running \<Rightarrow>
               if c_tag c = ''reqstart'' then None
               else if c_tag c = ''reqend'' then
                 (if refd \<and> reqend_ok L (c_data c) then Some (Finished, bp, refd) else None)
               else if c_tag c = ''backend'' then
                 (if backend_ref (c_data c) = Some fb then Some (Running, bp, True) else None)
               else Some (Running, bp, refd)
           | Finished \<Rightarrow> None)
        else if c_fd c = fb \<and> c_backend c \<and> \<not> c_client c then
          (case bp of
             Idle \<Rightarrow> if c_tag c = ''backendopen'' then Some (cp, Running, refd) else None
           | Running \<Rightarrow>
               if c_tag c = ''backendopen'' then None
               else if c_tag c = ''backendclose'' \<or> c_tag c = ''backendreuse'' then
                 Some (cp, Finished, refd)
               else Some (cp, Running, refd)
           | Finished \<Rightarrow> None)
        else None)"

fun pair_run ::
  "('f, 't) lib \<Rightarrow> int \<Rightarrow> int \<Rightarrow> phase \<times> phase \<times> bool \<Rightarrow> chunk list \<Rightarrow> (phase \<times> phase \<times> bool) option" where
  "pair_run L fc fb s [] = Some s"
| "pair_run L fc fb s (c # cs) =
     (case pair_step L fc fb s c of
        None \<Rightarrow> None
      | Some s' \<Rightarrow> pair_run L fc fb s' cs)"

text \<open>A stream of exactly one complete client transaction on \<open>fc\<close> that refers to exactly
  one complete backend transaction on \<open>fb\<close>: both transactions run from their start tag
  to their end tag, and the client one has named the backend descriptor.\<close>

definition one_pair_stream :: "('f, 't) lib \<Rightarrow> int \<Rightarrow> int \<Rightarrow> chunk list \<Rightarrow> bool" where
  "one_pair_stream L fc fb cs \<longleftrightarrow>
     fc \<noteq> 0 \<and> fb \<noteq> 0 \<and> fc \<noteq> fb \<and>
     pair_run L fc fb (Idle, Idle, False) cs = Some (Finished, Finished, True)"

text \<open>
  What the dispatcher's state looks like while it reads such a stream. \<open>rc\<close> and \<open>rb\<close>
  are the client log and the backend log of the two transactions, once they exist:
  \<open>client_part\<close> describes the client log and the binding of \<open>fc\<close>, \<open>backend_part\<close> the
  backend log and the binding of \<open>fb\<close>, and \<open>delivered_part\<close> the logs handed to the
  consumer since the list of deliveries was \<open>D0\<close>.
\<close>

definition client_part ::
  "int \<Rightarrow> phase \<Rightarrow> bool \<Rightarrow> ref \<Rightarrow> ref \<Rightarrow> ('f, 't) store \<Rightarrow> bool" where
  "client_part fc cp refd rc rb st \<longleftrightarrow>
     (case cp of
        Idle \<Rightarrow> lines st fc = None \<and> \<not> refd
      | Running \<Rightarrow>
          lines st fc = Some rc \<and> rc < length (heap st) \<and>
          cls (heap st ! rc) = ClientRequestLog \<and> fd (heap st ! rc) = fc \<and>
          active (heap st ! rc) \<and> \<not> complete (heap st ! rc) \<and>
          (refd \<longrightarrow> backend_request (heap st ! rc) = Some rb)
      | Finished \<Rightarrow>
          lines st fc = None \<and> rc < length (heap st) \<and>
          cls (heap st ! rc) = ClientRequestLog \<and> complete (heap st ! rc) \<and>
          refd \<and> backend_request (heap st ! rc) = Some rb)"

definition backend_part :: "int \<Rightarrow> phase \<Rightarrow> bool \<Rightarrow> ref \<Rightarrow> ('f, 't) store \<Rightarrow> bool" where
  "backend_part fb bp refd rb st \<longleftrightarrow>
     (if bp = Idle \<and> \<not> refd then lines st fb = None
      else lines st fb = Some rb \<and> rb < length (heap st) \<and>
           cls (heap st ! rb) = BackendRequestLog \<and> fd (heap st ! rb) = fb \<and>
           active (heap st ! rb) = (bp = Running) \<and>
           complete (heap st ! rb) = (bp = Finished))"

definition delivered_part ::
  "bool \<Rightarrow> phase \<Rightarrow> phase \<Rightarrow> ref \<Rightarrow> ref \<Rightarrow> ref list \<Rightarrow> ref list \<Rightarrow> bool" where
  "delivered_part agg cp bp rc rb D0 D \<longleftrightarrow>
     (if agg then D = D0 @ (if cp = Finished then [rc] else [])
      else if cp = Finished \<and> bp = Finished then D = D0 @ [rc, rb] \<or> D = D0 @ [rb, rc]
      else if cp = Finished then D = D0 @ [rc]
      else if bp = Finished then D = D0 @ [rb]
      else D = D0)"

definition pair_inv ::
  "bool \<Rightarrow> int \<Rightarrow> int \<Rightarrow> phase \<times> phase \<times> bool \<Rightarrow> ref \<Rightarrow> ref \<Rightarrow> ref list \<Rightarrow>
   ('f, 't) dstate \<Rightarrow> bool" where
  "pair_inv agg fc fb s rc rb D0 ds \<longleftrightarrow>
     (case s of (cp, bp, refd) \<Rightarrow>
        client_part fc cp refd rc rb (tbl ds) \<and> backend_part fb bp refd rb (tbl ds) \<and>
        delivered_part agg cp bp rc rb D0 (delivered ds))"

section \<open>Fragments fed in turn, and states named in the statements\<close>

text \<open>The factory called on the fragments of a list one after the other, as \<open>cb\<close> does
  with \<open>ev = RequestLog(chunk)\<close>; each call starts from the store the call before has
  left, also when that call raised.\<close>

fun ingest :: "('f, 't) lib \<Rightarrow> chunk list \<Rightarrow> ('f, 't) store \<Rightarrow> ('f, 't) store" where
  "ingest L [] st = st"
| "ingest L (c # cs) st = ingest L cs (snd (RequestLog L c False st))"

text \<open>A backend log that is complete and retained: the descriptor \<open>f\<close> is bound to the
  log \<open>r\<close>, a backend log of that descriptor that is complete, holds at least one
  fragment and has the attribute \<open>backend\<close>. This is the state of a backend log after
  its end tag has been processed, and from then on.\<close>

definition retained_complete :: "int \<Rightarrow> ref \<Rightarrow> ('f, 't) store \<Rightarrow> bool" where
  "retained_complete f r st \<longleftrightarrow>
     f \<noteq> 0 \<and> lines st f = Some r \<and> r < length (heap st) \<and>
     cls (heap st ! r) = BackendRequestLog \<and> fd (heap st ! r) = f \<and>
     complete (heap st ! r) \<and> chunks (heap st ! r) \<noteq> [] \<and> backend (heap st ! r) \<noteq> None"

text \<open>A client transaction that is under way: the descriptor \<open>g\<close> is bound to the client
  log \<open>n\<close>, which is active and not complete, holds the fragments \<open>cs\<close>, and has the
  address, port and identifier of its start tag.\<close>

definition open_client ::
  "int \<Rightarrow> ref \<Rightarrow> chunk list \<Rightarrow> string \<Rightarrow> string \<Rightarrow> string \<Rightarrow> ('f, 't) store \<Rightarrow> bool" where
  "open_client g n cs ip port xid st \<longleftrightarrow>
     lines st g = Some n \<and> n < length (heap st) \<and> cls (heap st ! n) = ClientRequestLog \<and>
     fd (heap st ! n) = g \<and> active (heap st ! n) \<and> \<not> complete (heap st ! n) \<and>
     chunks (heap st ! n) = cs \<and> id_attr (heap st ! n) = Some xid \<and>
     client_ip (heap st ! n) = Some ip \<and> client_port (heap st ! n) = Some port"

text \<open>A fragment inside a client transaction on the descriptor \<open>g\<close>: it has the client
  role only, and it neither starts nor ends the transaction nor refers to a backend.\<close>

definition inner_fragment :: "int \<Rightarrow> chunk \<Rightarrow> bool" where
  "inner_fragment g m \<longleftrightarrow>
     c_fd m = g \<and> c_client m \<and> \<not> c_backend m \<and>
     c_tag m \<noteq> ''reqstart'' \<and> c_tag m \<noteq> ''reqend'' \<and> c_tag m \<noteq> ''backend''"

section \<open>Fixtures\<close>

text \<open>
  Concrete inputs for the examples below. \<open>sample_lib\<close> is one instance of the library
  parameters: a float is represented by the text it was read from, which must be a
  non-empty string of digits and dots, and every such value is a valid timestamp.
\<close>

definition sample_lib :: "(string, string) lib" where
  "sample_lib =
     \<lparr> py_float = (\<lambda>s. if s \<noteq> [] \<and> list_all (\<lambda>c. is_digit c \<or> c = CHR ''.'') s
                        then Some s else None),
       fromtimestamp = Some \<rparr>"

definition client_chunk :: "int \<Rightarrow> string \<Rightarrow> string \<Rightarrow> chunk" where
  "client_chunk f t d = \<lparr> c_fd = f, c_client = True, c_backend = False, c_tag = t, c_data = d \<rparr>"

definition backend_chunk :: "int \<Rightarrow> string \<Rightarrow> string \<Rightarrow> chunk" where
  "backend_chunk f t d = \<lparr> c_fd = f, c_client = False, c_backend = True, c_tag = t, c_data = d \<rparr>"

text \<open>The consumer of the examples accepts every record and returns \<open>True\<close>.\<close>

definition accept_all :: "('f, 't) store \<Rightarrow> ref \<Rightarrow> error + bool" where
  "accept_all st r = Inr True"

text \<open>The store after a stale client fragment on the unbound descriptor 5: one inactive
  client log, bound to 5.\<close>

definition stale_store :: "(string, string) store" where
  "stale_store = snd (RequestLog sample_lib (client_chunk 5 ''rxurl'' ''/a'') False empty_store)"

text \<open>The store after the start tag of a backend transaction on descriptor 7.\<close>

definition backend_open_store :: "(string, string) store" where
  "backend_open_store =
     snd (RequestLog sample_lib (backend_chunk 7 ''backendopen'' ''default 10.0.0.1 80'') False
            empty_store)"

text \<open>Descriptor 7 is used by a backend transaction that completes and is then named by a
  client start fragment.\<close>

definition reuse_run :: "(string, string) dstate" where
  "reuse_run = dispatch_requests sample_lib accept_all False None
     [backend_chunk 7 ''backendopen'' ''default 10.0.0.1 80'',
      backend_chunk 7 ''backendclose'' ''default'',
      client_chunk 7 ''reqstart'' ''10.0.0.9 4711 1001''] init_dstate"

text \<open>The store after a client transaction on descriptor 5 has referred to the backend
  descriptor 7, which creates the backend log.\<close>

definition referenced_store :: "(string, string) store" where
  "referenced_store =
     snd (RequestLog sample_lib (client_chunk 5 ''backend'' ''7 dir be1'') False
       (snd (RequestLog sample_lib (client_chunk 5 ''reqstart'' ''10.0.0.9 4711 1001'') False
          empty_store)))"

text \<open>The store after the start tag of a client transaction on descriptor 5.\<close>

definition client_open_store :: "(string, string) store" where
  "client_open_store =
     snd (RequestLog sample_lib (client_chunk 5 ''reqstart'' ''10.0.0.9 4711 1001'') False
            empty_store)"

text \<open>The store after a complete backend transaction on descriptor 7.\<close>

definition backend_done_store :: "(string, string) store" where
  "backend_done_store =
     snd (RequestLog sample_lib (backend_chunk 7 ''backendclose'' ''default'') False
            backend_open_store)"

text \<open>A completed backend transaction on descriptor 7, followed by a backend-role fragment
  with an administrative tag.\<close>

definition admin_run :: "(string, string) dstate" where
  "admin_run = dispatch_requests sample_lib accept_all False None
     [backend_chunk 7 ''backendopen'' ''default 10.0.0.1 80'',
      backend_chunk 7 ''backendclose'' ''default'',
      backend_chunk 7 ''sessionclose'' ''timeout''] init_dstate"

text \<open>The header entry as the spec words it: the key is the part of the payload before the
  first colon, trimmed and lower-cased; the value is the rest after that colon, trimmed.\<close>

definition spec_header :: "string \<Rightarrow> string \<times> string" where
  "spec_header d =
     (lower (strip (takeWhile (\<lambda>x. x \<noteq> CHR '':'') d)),
      strip (tl (dropWhile (\<lambda>x. x \<noteq> CHR '':'') d)))"

text \<open>A request-header fragment of the client transaction on descriptor \<open>f\<close>: a client
  chunk tagged \<open>rxheader\<close> whose payload has a colon.\<close>

definition is_request_header :: "int \<Rightarrow> chunk \<Rightarrow> bool" where
  "is_request_header f c \<longleftrightarrow>
     c_fd c = f \<and> c_client c \<and> c_tag c = ''rxheader'' \<and> CHR '':'' \<in> set (c_data c)"

text \<open>Three request headers, two of them with the same key, fed to the open client
  transaction on descriptor 5.\<close>

definition header_store :: "(string, string) store" where
  "header_store = foldl (\<lambda>s c. snd (RequestLog sample_lib c False s)) client_open_store
     [client_chunk 5 ''rxheader'' ''Host: example.org'',
      client_chunk 5 ''rxheader'' '' X-Forwarded-For : 10.0.0.1 '',
      client_chunk 5 ''rxheader'' ''x-forwarded-for:10.0.0.2'']"

text \<open>The dispatcher after the start tag of a client transaction on descriptor 5.\<close>

definition client_open_dstate :: "(string, string) dstate" where
  "client_open_dstate = dispatch_requests sample_lib accept_all True None
     [client_chunk 5 ''reqstart'' ''10.0.0.9 4711 1001''] init_dstate"

text \<open>A stream with one client transaction on descriptor 12 and the backend transaction
  on descriptor 14 that it refers to, with a fragment without descriptor and an
  administrative fragment in between.\<close>

definition pair_stream :: "chunk list" where
  "pair_stream =
     [client_chunk 12 ''reqstart'' ''10.0.0.7 4712 1002'',
      client_chunk 12 ''rxurl'' ''/index.html'',
      client_chunk 12 ''vcl_call'' ''miss'',
      client_chunk 12 ''backend'' ''14 default default'',
      backend_chunk 14 ''backendopen'' ''default 10.0.0.1 80'',
      \<lparr> c_fd = 0, c_client = False, c_backend = False, c_tag = ''cli'', c_data = ''ping'' \<rparr>,
      backend_chunk 14 ''txurl'' ''/index.html'',
      backend_chunk 14 ''backendclose'' ''default'',
      client_chunk 12 ''sessionclose'' ''timeout'',
      client_chunk 12 ''reqend'' ''1002 1.0 2.0 0.1 0.2 0.3'']"

text \<open>Fragments that arrive after the backend transaction on descriptor 7 is complete:
  none of them is a start tag on that descriptor.\<close>

definition late_fragments :: "chunk list" where
  "late_fragments =
     [backend_chunk 7 ''txurl'' ''/late'',
      client_chunk 5 ''reqstart'' ''10.0.0.9 4711 1001'',
      client_chunk 5 ''rxurl'' ''/other'',
      backend_chunk 7 ''backendclose'' ''default'']"

text \<open>The dispatcher, with \<open>aggregate\<close> false, after the start tag of a backend
  transaction on descriptor 7; after its end tag; and after a second start tag on the
  same descriptor.\<close>

definition backend_open_dstate :: "(string, string) dstate" where
  "backend_open_dstate = dispatch_requests sample_lib accept_all False None
     [backend_chunk 7 ''backendopen'' ''default 10.0.0.1 80''] init_dstate"

definition backend_done_dstate :: "(string, string) dstate" where
  "backend_done_dstate = dispatch_requests sample_lib accept_all False None
     [backend_chunk 7 ''backendopen'' ''default 10.0.0.1 80'',
      backend_chunk 7 ''backendclose'' ''default''] init_dstate"

definition backend_reopened_dstate :: "(string, string) dstate" where
  "backend_reopened_dstate = dispatch_requests sample_lib accept_all False None
     [backend_chunk 7 ''backendopen'' ''default 10.0.0.1 80'',
      backend_chunk 7 ''backendclose'' ''default'',
      backend_chunk 7 ''backendopen'' ''other 10.0.0.2 80''] init_dstate"

text \<open>A consumer of fragments without descriptor, and a consumer of request logs, that
  raise on every call.\<close>

definition failing_nonrequest :: "chunk \<Rightarrow> error + bool" where
  "failing_nonrequest c = Inl ConsumerError"

definition reject_all :: "('f, 't) store \<Rightarrow> ref \<Rightarrow> error + bool" where
  "reject_all st r = Inl ConsumerError"

text \<open>A client transaction on descriptor 6 with two inner fragments and an
  administrative fragment.\<close>

definition later_transaction :: "chunk list" where
  "later_transaction =
     [client_chunk 6 ''reqstart'' ''10.0.0.7 4712 1002'',
      client_chunk 6 ''rxurl'' ''/a'',
      client_chunk 6 ''sessionclose'' ''timeout'',
      client_chunk 6 ''txstatus'' ''200'',
      client_chunk 6 ''reqend'' ''1002 1.0 2.0 0.1 0.2 0.3'']"

section \<open>Basic facts about the store\<close>

lemma heap_upd:
  "heap (upd r f st) ! i = (if i = r \<and> r < length (heap st) then f (heap st ! r) else heap st ! i)"
  by (cases "r < length (heap st)") (auto simp: upd_def list_update_beyond)

lemma length_heap_upd: "length (heap (upd r f st)) = length (heap st)"
  by (simp add: upd_def)

lemma lines_upd: "lines (upd r f st) = lines st"
  by (simp add: upd_def)

section \<open>What the methods leave unchanged\<close>

lemma mark_complete_frame:
  "length (heap (snd (mark_complete r chunk st))) = length (heap st)"
  "lines (snd (mark_complete r chunk st)) =
     (if c_client chunk then (lines st)(fd (heap st ! r) := None) else lines st)"
  "heap (snd (mark_complete r chunk st)) ! i =
     (if i = r \<and> r < length (heap st) then (heap st ! r)\<lparr> complete := True, active := False \<rparr>
      else heap st ! i)"
  by (auto simp add: mark_complete_def Let_def heap_upd length_heap_upd lines_upd
      split: option.split)

lemma on_append_chunk_frame:
  "cls (snd (on_append_chunk chunk self)) = cls self"
  "fd (snd (on_append_chunk chunk self)) = fd self"
  "active (snd (on_append_chunk chunk self)) = active self"
  "complete (snd (on_append_chunk chunk self)) = complete self"
  "backend_name (snd (on_append_chunk chunk self)) = backend_name self"
  "director_name (snd (on_append_chunk chunk self)) = director_name self"
  "backend_request (snd (on_append_chunk chunk self)) = backend_request self"
  "last_vcl (snd (on_append_chunk chunk self)) = last_vcl self"
  "vcl_calls (snd (on_append_chunk chunk self)) = vcl_calls self"
  "client (snd (on_append_chunk chunk self)) = Some (c_client chunk)"
  "backend (snd (on_append_chunk chunk self)) = Some (c_backend chunk)"
  "chunks (snd (on_append_chunk chunk self)) = chunks self @ [chunk]"
  by (simp_all add: on_append_chunk_def Let_def split: option.split)

lemma Backend_on_append_chunk_frame:
  "cls (snd (BackendRequestLog_on_append_chunk chunk self)) = cls self"
  "fd (snd (BackendRequestLog_on_append_chunk chunk self)) = fd self"
  "active (snd (BackendRequestLog_on_append_chunk chunk self)) = active self"
  "complete (snd (BackendRequestLog_on_append_chunk chunk self)) = complete self"
  "director_name (snd (BackendRequestLog_on_append_chunk chunk self)) = director_name self"
  "backend_request (snd (BackendRequestLog_on_append_chunk chunk self)) = backend_request self"
  "client (snd (BackendRequestLog_on_append_chunk chunk self)) = Some (c_client chunk)"
  "backend (snd (BackendRequestLog_on_append_chunk chunk self)) = Some (c_backend chunk)"
  "chunks (snd (BackendRequestLog_on_append_chunk chunk self)) = chunks self @ [chunk]"
proof -
  obtain res self' where eq: "on_append_chunk chunk self = (res, self')"
    by (cases "on_append_chunk chunk self")
  note fr = on_append_chunk_frame[of chunk self, unfolded eq snd_conv]
  show "cls (snd (BackendRequestLog_on_append_chunk chunk self)) = cls self"
    "fd (snd (BackendRequestLog_on_append_chunk chunk self)) = fd self"
    "active (snd (BackendRequestLog_on_append_chunk chunk self)) = active self"
    "complete (snd (BackendRequestLog_on_append_chunk chunk self)) = complete self"
    "director_name (snd (BackendRequestLog_on_append_chunk chunk self)) = director_name self"
    "backend_request (snd (BackendRequestLog_on_append_chunk chunk self)) = backend_request self"
    "client (snd (BackendRequestLog_on_append_chunk chunk self)) = Some (c_client chunk)"
    "backend (snd (BackendRequestLog_on_append_chunk chunk self)) = Some (c_backend chunk)"
    "chunks (snd (BackendRequestLog_on_append_chunk chunk self)) = chunks self @ [chunk]"
    by (simp_all add: BackendRequestLog_on_append_chunk_def eq Let_def fr split: sum.split option.split)
qed

lemma on_backend_frame:
  assumes "i < length (heap st)"
  shows "cls (heap (snd (on_backend r d st)) ! i) = cls (heap st ! i)"
    "fd (heap (snd (on_backend r d st)) ! i) = fd (heap st ! i)"
    "active (heap (snd (on_backend r d st)) ! i) = active (heap st ! i)"
    "complete (heap (snd (on_backend r d st)) ! i) = complete (heap st ! i)"
    "chunks (heap (snd (on_backend r d st)) ! i) = chunks (heap st ! i)"
    "client (heap (snd (on_backend r d st)) ! i) = client (heap st ! i)"
    "backend (heap (snd (on_backend r d st)) ! i) = backend (heap st ! i)"
    "backend_name (heap (snd (on_backend r d st)) ! i) = backend_name (heap st ! i)"
  using assms
  by (simp_all add: on_backend_def set_director_def Let_def heap_upd length_heap_upd nth_append
      split: list.split option.split)

lemma on_backend_director:
  assumes "i < length (heap st)" "truthy (director_name (heap st ! i))"
  shows "director_name (heap (snd (on_backend r d st)) ! i) = director_name (heap st ! i)"
  using assms
  by (auto simp add: on_backend_def set_director_def Let_def heap_upd length_heap_upd nth_append
      split: list.split option.split)

lemma on_backend_length: "length (heap st) \<le> length (heap (snd (on_backend r d st)))"
  by (simp add: on_backend_def set_director_def Let_def length_heap_upd split: list.split option.split)

lemma on_backend_lines:
  "lines st f = Some x \<Longrightarrow> lines (snd (on_backend r d st)) f = Some x"
  by (simp add: on_backend_def set_director_def Let_def lines_upd split: list.split option.split)

lemma on_reqend_frame:
  "cls (heap (snd (on_reqend L r d st)) ! i) = cls (heap st ! i)"
  "fd (heap (snd (on_reqend L r d st)) ! i) = fd (heap st ! i)"
  "active (heap (snd (on_reqend L r d st)) ! i) = active (heap st ! i)"
  "complete (heap (snd (on_reqend L r d st)) ! i) = complete (heap st ! i)"
  "chunks (heap (snd (on_reqend L r d st)) ! i) = chunks (heap st ! i)"
  "client (heap (snd (on_reqend L r d st)) ! i) = client (heap st ! i)"
  "backend (heap (snd (on_reqend L r d st)) ! i) = backend (heap st ! i)"
  "backend_name (heap (snd (on_reqend L r d st)) ! i) = backend_name (heap st ! i)"
  "director_name (heap (snd (on_reqend L r d st)) ! i) = director_name (heap st ! i)"
  "length (heap (snd (on_reqend L r d st))) = length (heap st)"
  "lines (snd (on_reqend L r d st)) = lines st"
  by (simp_all add: on_reqend_def Let_def heap_upd length_heap_upd lines_upd
      split: list.split option.split)

lemma client_tag_cases:
  obtains "c_tag chunk = ''vcl_call''" | "c_tag chunk = ''vcl_return''" | "c_tag chunk = ''hash''"
    | "c_tag chunk = ''length''" | "c_tag chunk = ''rxrequest''" | "c_tag chunk = ''rxurl''"
    | "c_tag chunk = ''reqstart''" | "c_tag chunk = ''txstatus''" | "c_tag chunk = ''txresponse''"
    | "c_tag chunk = ''backend''" | "c_tag chunk = ''reqend''"
    | "c_tag chunk \<notin> {''vcl_call'', ''vcl_return'', ''hash'', ''length'', ''rxrequest'', ''rxurl'',
         ''reqstart'', ''txstatus'', ''txresponse'', ''backend'', ''reqend''}"
  by blast

lemma Client_on_append_chunk_frame:
  assumes "i < length (heap st)"
  shows "cls (heap (snd (ClientRequestLog_on_append_chunk L r chunk st)) ! i) = cls (heap st ! i) \<and>
    fd (heap (snd (ClientRequestLog_on_append_chunk L r chunk st)) ! i) = fd (heap st ! i) \<and>
    active (heap (snd (ClientRequestLog_on_append_chunk L r chunk st)) ! i) = active (heap st ! i) \<and>
    complete (heap (snd (ClientRequestLog_on_append_chunk L r chunk st)) ! i) = complete (heap st ! i) \<and>
    backend_name (heap (snd (ClientRequestLog_on_append_chunk L r chunk st)) ! i) = backend_name (heap st ! i)"
proof -
  obtain res self' where eq: "on_append_chunk chunk (heap st ! r) = (res, self')"
    by (cases "on_append_chunk chunk (heap st ! r)")
  note fr = on_append_chunk_frame[of chunk "heap st ! r", unfolded eq snd_conv]
  note bf = on_backend_frame on_reqend_frame length_heap_upd
  show ?thesis
    using assms
    by (cases rule: client_tag_cases[of chunk])
       (simp_all add: ClientRequestLog_on_append_chunk_def Let_def eq heap_upd fr bf
          split: sum.split option.split list.split)
qed

lemma Client_on_append_chunk_flags:
  assumes "i < length (heap st)"
  shows "chunks (heap (snd (ClientRequestLog_on_append_chunk L r chunk st)) ! i) =
       (if i = r then chunks (heap st ! i) @ [chunk] else chunks (heap st ! i)) \<and>
    client (heap (snd (ClientRequestLog_on_append_chunk L r chunk st)) ! i) =
       (if i = r then Some (c_client chunk) else client (heap st ! i)) \<and>
    backend (heap (snd (ClientRequestLog_on_append_chunk L r chunk st)) ! i) =
       (if i = r then Some (c_backend chunk) else backend (heap st ! i))"
proof -
  obtain res self' where eq: "on_append_chunk chunk (heap st ! r) = (res, self')"
    by (cases "on_append_chunk chunk (heap st ! r)")
  note fr = on_append_chunk_frame[of chunk "heap st ! r", unfolded eq snd_conv]
  note bf = on_backend_frame on_reqend_frame length_heap_upd
  show ?thesis
    using assms
    by (cases rule: client_tag_cases[of chunk])
       (simp_all add: ClientRequestLog_on_append_chunk_def Let_def eq heap_upd fr bf
          split: sum.split option.split list.split)
qed

lemma Client_on_append_chunk_director:
  assumes "i < length (heap st)" "truthy (director_name (heap st ! i))"
  shows "director_name (heap (snd (ClientRequestLog_on_append_chunk L r chunk st)) ! i)
         = director_name (heap st ! i)"
proof -
  obtain res self' where eq: "on_append_chunk chunk (heap st ! r) = (res, self')"
    by (cases "on_append_chunk chunk (heap st ! r)")
  note fr = on_append_chunk_frame[of chunk "heap st ! r", unfolded eq snd_conv]
  have t: "truthy (director_name (heap (upd r (\<lambda>_. self') st) ! i))"
    using assms by (auto simp: heap_upd fr)
  have d: "director_name (heap (snd (on_backend r d (upd r (\<lambda>_. self') st))) ! i)
           = director_name (heap st ! i)" for d
    using on_backend_director[of i "upd r (\<lambda>_. self') st" r d] t assms
    by (auto simp: length_heap_upd heap_upd fr)
  show ?thesis
    using assms
    by (cases rule: client_tag_cases[of chunk])
       (simp_all add: ClientRequestLog_on_append_chunk_def Let_def eq heap_upd fr d on_reqend_frame
          split: sum.split option.split list.split)
qed

lemma Client_on_append_chunk_store:
  "length (heap st) \<le> length (heap (snd (ClientRequestLog_on_append_chunk L r chunk st))) \<and>
   (lines st f = Some x \<longrightarrow> lines (snd (ClientRequestLog_on_append_chunk L r chunk st)) f = Some x) \<and>
   (c_tag chunk \<noteq> ''backend'' \<longrightarrow>
     lines (snd (ClientRequestLog_on_append_chunk L r chunk st)) = lines st \<and>
     length (heap (snd (ClientRequestLog_on_append_chunk L r chunk st))) = length (heap st))"
proof -
  obtain res self' where eq: "on_append_chunk chunk (heap st ! r) = (res, self')"
    by (cases "on_append_chunk chunk (heap st ! r)")
  have l: "length (heap st) \<le> length (heap (snd (on_backend r d (upd r (\<lambda>_. self') st))))" for d
    using on_backend_length[of "upd r (\<lambda>_. self') st" r d] by (simp add: length_heap_upd)
  have m: "lines st f = Some x \<Longrightarrow> lines (snd (on_backend r d (upd r (\<lambda>_. self') st))) f = Some x" for d
    using on_backend_lines[of "upd r (\<lambda>_. self') st" f x r d] by (simp add: lines_upd)
  show ?thesis
    by (cases rule: client_tag_cases[of chunk])
       (simp_all add: ClientRequestLog_on_append_chunk_def Let_def eq length_heap_upd lines_upd
          l m on_reqend_frame split: sum.split option.split list.split)
qed


lemma call_store:
  "snd (call_on_append_chunk L r chunk st) =
     (case cls (heap st ! r) of
        ClientRequestLog \<Rightarrow> snd (ClientRequestLog_on_append_chunk L r chunk st)
      | BackendRequestLog \<Rightarrow>
          upd r (\<lambda>_. snd (BackendRequestLog_on_append_chunk chunk (heap st ! r))) st)"
  by (simp add: call_on_append_chunk_def split: cls.split prod.split)

lemma call_frame:
  assumes "i < length (heap st)"
  shows "cls (heap (snd (call_on_append_chunk L r chunk st)) ! i) = cls (heap st ! i) \<and>
    fd (heap (snd (call_on_append_chunk L r chunk st)) ! i) = fd (heap st ! i) \<and>
    active (heap (snd (call_on_append_chunk L r chunk st)) ! i) = active (heap st ! i) \<and>
    complete (heap (snd (call_on_append_chunk L r chunk st)) ! i) = complete (heap st ! i) \<and>
    (i \<noteq> r \<or> cls (heap st ! r) = ClientRequestLog \<longrightarrow>
       backend_name (heap (snd (call_on_append_chunk L r chunk st)) ! i) = backend_name (heap st ! i)) \<and>
    chunks (heap (snd (call_on_append_chunk L r chunk st)) ! i) =
       (if i = r then chunks (heap st ! i) @ [chunk] else chunks (heap st ! i)) \<and>
    client (heap (snd (call_on_append_chunk L r chunk st)) ! i) =
       (if i = r then Some (c_client chunk) else client (heap st ! i)) \<and>
    backend (heap (snd (call_on_append_chunk L r chunk st)) ! i) =
       (if i = r then Some (c_backend chunk) else backend (heap st ! i))"
  using assms Client_on_append_chunk_frame[OF assms, of L r chunk]
    Client_on_append_chunk_flags[OF assms, of L r chunk]
  by (cases "cls (heap st ! r)") (auto simp add: call_store heap_upd Backend_on_append_chunk_frame)

lemma call_director:
  assumes "i < length (heap st)" "truthy (director_name (heap st ! i))"
  shows "director_name (heap (snd (call_on_append_chunk L r chunk st)) ! i)
         = director_name (heap st ! i)"
  using assms Client_on_append_chunk_director[OF assms, of L r chunk]
  by (cases "cls (heap st ! r)") (auto simp add: call_store heap_upd Backend_on_append_chunk_frame)

lemma call_store_frame:
  "length (heap st) \<le> length (heap (snd (call_on_append_chunk L r chunk st))) \<and>
   (lines st f = Some x \<longrightarrow> lines (snd (call_on_append_chunk L r chunk st)) f = Some x) \<and>
   (c_tag chunk \<noteq> ''backend'' \<or> cls (heap st ! r) = BackendRequestLog \<longrightarrow>
     lines (snd (call_on_append_chunk L r chunk st)) = lines st \<and>
     length (heap (snd (call_on_append_chunk L r chunk st))) = length (heap st))"
  using Client_on_append_chunk_store[of st L r chunk f x]
  by (cases "cls (heap st ! r)") (auto simp add: call_store length_heap_upd lines_upd)


lemma add_chunk_skip:
  assumes "fd (heap st ! r) = 0 \<or> (\<not> active (heap st ! r) \<and> \<not> is_start chunk)"
  shows "add_chunk L r chunk st = (Inr False, st)"
  using assms by (auto simp add: add_chunk_def Let_def)

lemma before_append_store:
  "length (heap (before_append r chunk st)) = length (heap st)"
  "lines (before_append r chunk st) =
     (if c_client chunk \<and> is_end chunk then (lines st)(fd (heap st ! r) := None) else lines st)"
  by (simp_all add: before_append_def Let_def mark_complete_frame length_heap_upd lines_upd heap_upd)

lemma before_append_heap:
  assumes "active (heap st ! r) \<or> is_start chunk"
  shows "heap (before_append r chunk st) ! i =
       (if i = r \<and> r < length (heap st)
        then (heap st ! r)\<lparr> active := \<not> is_end chunk,
                              complete := complete (heap st ! r) \<or> is_end chunk \<rparr>
        else heap st ! i)"
  by (simp add: before_append_def Let_def mark_complete_frame length_heap_upd heap_upd)

lemma add_chunk_run:
  assumes "fd (heap st ! r) \<noteq> 0" "active (heap st ! r) \<or> is_start chunk"
  shows "add_chunk L r chunk st =
     (if c_client chunk \<and> is_end chunk \<and> lines st (fd (heap st ! r)) = None
      then (Inl KeyError, before_append r chunk st)
      else case call_on_append_chunk L r chunk (before_append r chunk st) of
             (Inl e, st3) \<Rightarrow> (Inl e, st3)
           | (Inr _, st3) \<Rightarrow> (Inr (complete (heap st3 ! r)), st3))"
  using assms
  by (auto simp add: add_chunk_def before_append_def Let_def mark_complete_def lines_upd heap_upd
      split: option.split)

lemma snd_case_result:
  "snd (case p of (Inl e, s) \<Rightarrow> (Inl e, s) | (Inr u, s) \<Rightarrow> (Inr (g s), s)) = snd p"
  by (simp split: prod.split sum.split)

lemma add_chunk_snd:
  "snd (add_chunk L r chunk st) =
     (if fd (heap st ! r) = 0 \<or> (\<not> active (heap st ! r) \<and> \<not> is_start chunk) then st
      else if c_client chunk \<and> is_end chunk \<and> lines st (fd (heap st ! r)) = None
      then before_append r chunk st
      else snd (call_on_append_chunk L r chunk (before_append r chunk st)))"
  by (auto simp add: add_chunk_skip add_chunk_run snd_case_result)


lemma add_chunk_frame:
  assumes "i < length (heap st)"
  shows "cls (heap (snd (add_chunk L r chunk st)) ! i) = cls (heap st ! i) \<and>
    fd (heap (snd (add_chunk L r chunk st)) ! i) = fd (heap st ! i) \<and>
    (i \<noteq> r \<longrightarrow>
       active (heap (snd (add_chunk L r chunk st)) ! i) = active (heap st ! i) \<and>
       complete (heap (snd (add_chunk L r chunk st)) ! i) = complete (heap st ! i) \<and>
       chunks (heap (snd (add_chunk L r chunk st)) ! i) = chunks (heap st ! i) \<and>
       client (heap (snd (add_chunk L r chunk st)) ! i) = client (heap st ! i) \<and>
       backend (heap (snd (add_chunk L r chunk st)) ! i) = backend (heap st ! i)) \<and>
    (i \<noteq> r \<or> cls (heap st ! r) = ClientRequestLog \<longrightarrow>
       backend_name (heap (snd (add_chunk L r chunk st)) ! i) = backend_name (heap st ! i))"
proof (cases "fd (heap st ! r) = 0 \<or> (\<not> active (heap st ! r) \<and> \<not> is_start chunk)")
  case True
  then show ?thesis by (simp add: add_chunk_skip)
next
  case False
  then have acc: "active (heap st ! r) \<or> is_start chunk" by auto
  have i2: "i < length (heap (before_append r chunk st))"
    using assms by (simp add: before_append_store)
  show ?thesis
    using False assms call_frame[OF i2, of L r chunk]
    by (auto simp add: add_chunk_snd before_append_heap[OF acc])
qed

lemma add_chunk_director:
  assumes "i < length (heap st)" "truthy (director_name (heap st ! i))"
  shows "director_name (heap (snd (add_chunk L r chunk st)) ! i) = director_name (heap st ! i)"
proof (cases "fd (heap st ! r) = 0 \<or> (\<not> active (heap st ! r) \<and> \<not> is_start chunk)")
  case True
  then show ?thesis by (simp add: add_chunk_skip)
next
  case False
  then have acc: "active (heap st ! r) \<or> is_start chunk" by auto
  have i2: "i < length (heap (before_append r chunk st))"
    using assms by (simp add: before_append_store)
  have t2: "truthy (director_name (heap (before_append r chunk st) ! i))"
    using assms by (auto simp add: before_append_heap[OF acc])
  show ?thesis
    using False assms call_director[OF i2 t2, of L r chunk]
    by (auto simp add: add_chunk_snd before_append_heap[OF acc])
qed

lemma fst_case_result:
  "fst (case p of (Inl e, s) \<Rightarrow> (Inl e, s) | (Inr u, s) \<Rightarrow> (Inr (g s), s)) =
     (case fst p of Inl e \<Rightarrow> Inl e | Inr u \<Rightarrow> Inr (g (snd p)))"
  by (simp split: prod.split sum.split)

lemma add_chunk_accepted:
  assumes "r < length (heap st)" "fd (heap st ! r) \<noteq> 0" "active (heap st ! r) \<or> is_start chunk"
  shows "active (heap (snd (add_chunk L r chunk st)) ! r) = (\<not> is_end chunk) \<and>
    complete (heap (snd (add_chunk L r chunk st)) ! r) = (complete (heap st ! r) \<or> is_end chunk) \<and>
    (\<forall>b. fst (add_chunk L r chunk st) = Inr b \<longrightarrow>
       b = (complete (heap st ! r) \<or> is_end chunk) \<and>
       chunks (heap (snd (add_chunk L r chunk st)) ! r) = chunks (heap st ! r) @ [chunk] \<and>
       client (heap (snd (add_chunk L r chunk st)) ! r) = Some (c_client chunk) \<and>
       backend (heap (snd (add_chunk L r chunk st)) ! r) = Some (c_backend chunk))"
proof -
  have i2: "r < length (heap (before_append r chunk st))"
    using assms by (simp add: before_append_store)
  note cf = call_frame[OF i2, of L r chunk, unfolded before_append_heap[OF assms(3)], simplified]
  show ?thesis
  proof (cases "c_client chunk \<and> is_end chunk \<and> lines st (fd (heap st ! r)) = None")
    case True
    then show ?thesis
      using assms by (simp add: add_chunk_run before_append_heap[OF assms(3)])
  next
    case False
    then show ?thesis
      using assms cf
      by (cases "fst (call_on_append_chunk L r chunk (before_append r chunk st))")
         (auto simp add: add_chunk_run snd_case_result fst_case_result)
  qed
qed

lemma add_chunk_store_frame:
  "length (heap st) \<le> length (heap (snd (add_chunk L r chunk st))) \<and>
   (lines st f = Some x \<and> \<not> (c_client chunk \<and> is_end chunk \<and> f = fd (heap st ! r)) \<longrightarrow>
      lines (snd (add_chunk L r chunk st)) f = Some x) \<and>
   (cls (heap st ! r) = BackendRequestLog \<and> \<not> c_client chunk \<longrightarrow>
      lines (snd (add_chunk L r chunk st)) = lines st \<and>
      length (heap (snd (add_chunk L r chunk st))) = length (heap st)) \<and>
   (fd (heap st ! r) \<noteq> 0 \<and> (active (heap st ! r) \<or> is_start chunk) \<and>
    c_client chunk \<and> is_end chunk \<longrightarrow>
      lines (snd (add_chunk L r chunk st)) = (lines st)(fd (heap st ! r) := None) \<and>
      length (heap (snd (add_chunk L r chunk st))) = length (heap st))"
proof (cases "fd (heap st ! r) = 0 \<or> (\<not> active (heap st ! r) \<and> \<not> is_start chunk)")
  case True
  then show ?thesis by (auto simp add: add_chunk_skip)
next
  case False
  then have acc: "active (heap st ! r) \<or> is_start chunk" by auto
  have c2: "cls (heap (before_append r chunk st) ! r) = cls (heap st ! r)"
    by (simp add: before_append_heap[OF acc])
  have e: "is_end chunk \<Longrightarrow> c_tag chunk \<noteq> ''backend''" by (auto simp: is_end_def)
  show ?thesis
    using False call_store_frame[of "before_append r chunk st" L r chunk f x] e
    by (auto simp add: add_chunk_snd before_append_store c2)
qed

lemma failed_assert_backend:
  "cls (heap st ! r) = BackendRequestLog \<Longrightarrow> failed_assert st r = AssertionError"
  by (simp add: failed_assert_def)

lemma repr_overflows_self:
  assumes "cls (heap st ! r) = ClientRequestLog" and "backend_request (heap st ! r) = Some r"
  shows "repr_overflows n st r"
  using assms by (induction n) simp_all

lemma failed_assert_self:
  assumes "cls (heap st ! r) = ClientRequestLog" and "backend_request (heap st ! r) = Some r"
  shows "failed_assert st r = RuntimeError"
  using repr_overflows_self[OF assms] by (simp add: failed_assert_def)

lemma self_reference_error:
  "fst (RequestLog sample_lib (client_chunk 5 ''backend'' ''5 dir be1'') False client_open_store)
     = Inl RuntimeError"
  "fst (RequestLog sample_lib (client_chunk 6 ''backend'' ''5 dir be1'') False
     (snd (RequestLog sample_lib (client_chunk 6 ''reqstart'' ''10.0.0.9 4711 1002'') False
        client_open_store)))
     = Inl AssertionError"
  by code_simp+

lemma RequestLog_bound:
  assumes "lines st (c_fd chunk) = Some r"
  shows "RequestLog L chunk act st =
     (if (c_client chunk \<and> cls (heap st ! r) \<noteq> ClientRequestLog) \<or>
         (\<not> c_client chunk \<and> c_backend chunk \<and> cls (heap st ! r) \<noteq> BackendRequestLog)
      then (Inl (failed_assert st r), st)
      else case add_chunk L r chunk st of
             (Inl e, s') \<Rightarrow> (Inl e, s')
           | (Inr _, s') \<Rightarrow> (Inr (Some r), s'))"
  using assms by (simp add: RequestLog_def Let_def)

lemma RequestLog_unbound:
  assumes "lines st (c_fd chunk) = None"
  shows "RequestLog L chunk act st =
     (if c_client chunk \<or> c_backend chunk
      then case add_chunk L (length (heap st)) chunk
                  (bind_new (if c_client chunk then ClientRequestLog else BackendRequestLog)
                     chunk act st) of
             (Inl e, s') \<Rightarrow> (Inl e, s')
           | (Inr _, s') \<Rightarrow> (Inr (Some (length (heap st))), s')
      else (Inr None, st))"
  using assms by (simp add: RequestLog_def Let_def bind_new_def)

lemma snd_case_some:
  "snd (case p of (Inl e, s) \<Rightarrow> (Inl e, s) | (Inr u, s) \<Rightarrow> (Inr v, s)) = snd p"
  by (simp split: prod.split sum.split)

lemma fst_case_some:
  "fst (case p of (Inl e, s) \<Rightarrow> (Inl e, s) | (Inr u, s) \<Rightarrow> (Inr v, s)) =
     (case fst p of Inl e \<Rightarrow> Inl e | Inr u \<Rightarrow> Inr v)"
  by (simp split: prod.split sum.split)

lemma bind_new_store:
  "length (heap (bind_new k chunk act st)) = Suc (length (heap st))"
  "lines (bind_new k chunk act st) = (lines st)(c_fd chunk \<mapsto> length (heap st))"
  "i < length (heap st) \<Longrightarrow> heap (bind_new k chunk act st) ! i = heap st ! i"
  "heap (bind_new k chunk act st) ! length (heap st) = init k (c_fd chunk) act"
  by (simp_all add: bind_new_def nth_append)

lemma RequestLog_frame:
  assumes "i < length (heap st)"
  shows "cls (heap (snd (RequestLog L chunk act st)) ! i) = cls (heap st ! i) \<and>
    fd (heap (snd (RequestLog L chunk act st)) ! i) = fd (heap st ! i) \<and>
    (c_client chunk \<longrightarrow>
       backend_name (heap (snd (RequestLog L chunk act st)) ! i) = backend_name (heap st ! i)) \<and>
    (truthy (director_name (heap st ! i)) \<longrightarrow>
       director_name (heap (snd (RequestLog L chunk act st)) ! i) = director_name (heap st ! i))"
proof (cases "lines st (c_fd chunk)")
  case None
  let ?k = "if c_client chunk then ClientRequestLog else BackendRequestLog"
  let ?s = "bind_new ?k chunk act st"
  have i2: "i < length (heap ?s)" using assms by (simp add: bind_new_store)
  have ne: "i \<noteq> length (heap st)" using assms by simp
  have c: "c_client chunk \<Longrightarrow> cls (heap ?s ! length (heap st)) = ClientRequestLog"
    by (simp add: bind_new_store init_def)
  show ?thesis
    using assms add_chunk_frame[OF i2, of L "length (heap st)" chunk]
      add_chunk_director[OF i2, of L "length (heap st)" chunk] ne c
    by (auto simp add: RequestLog_unbound[OF None] snd_case_some bind_new_store)
next
  case (Some r)
  show ?thesis
    using assms add_chunk_frame[OF assms, of L r chunk] add_chunk_director[OF assms, of L r chunk]
    by (auto simp add: RequestLog_bound[OF Some] snd_case_some)
qed


lemma start_not_end: "is_start chunk \<Longrightarrow> \<not> is_end chunk"
  by (auto simp: is_start_def is_end_def)

lemma deliver_effect:
  "delivered (snd (deliver callback r ds)) = delivered ds @ [r] \<and>
   tbl (snd (deliver callback r ds)) = tbl ds"
  by (cases "callback (tbl ds) r") (simp_all add: deliver_def)

lemma cb_ingest:
  assumes "c_fd chunk \<noteq> 0" and "c_tag chunk \<notin> ignored_tags"
    and "fst (RequestLog L chunk False (tbl ds)) = Inr (Some r)"
    and "complete (heap (snd (RequestLog L chunk False (tbl ds))) ! r)"
    and "backend (heap (snd (RequestLog L chunk False (tbl ds))) ! r) = Some b"
    and "chunks (heap (snd (RequestLog L chunk False (tbl ds))) ! r) \<noteq> []"
  shows "cb L callback False nrc chunk ds =
           deliver callback r (ds\<lparr> tbl := snd (RequestLog L chunk False (tbl ds)) \<rparr>)"
proof -
  obtain res st where eq: "RequestLog L chunk False (tbl ds) = (res, st)"
    by (cases "RequestLog L chunk False (tbl ds)")
  show ?thesis
    using assms by (simp add: cb_def eq Let_def)
qed

lemma backend_end_no_fault:
  assumes "c_tag e = ''backendclose'' \<or> c_tag e = ''backendreuse''"
  shows "fst (BackendRequestLog_on_append_chunk e self) = Inr ()"
  using assms
  by (auto simp add: BackendRequestLog_on_append_chunk_def on_append_chunk_def Let_def)

lemma set_header_spec:
  assumes "CHR '':'' \<in> set d"
  shows "set_header d = Some (spec_header d)"
proof -
  have "dropWhile (\<lambda>x. x \<noteq> CHR '':'') d \<noteq> []"
    using assms by (simp add: dropWhile_eq_Nil_conv) 
  then obtain y ys where "dropWhile (\<lambda>x. x \<noteq> CHR '':'') d = y # ys"
    by (cases "dropWhile (\<lambda>x. x \<noteq> CHR '':'') d") auto
  then show ?thesis
    by (simp add: set_header_def split1_def spec_header_def)
qed

lemma Client_rxheader:
  assumes "c_tag c = ''rxheader''" and "CHR '':'' \<in> set (c_data c)"
  shows "ClientRequestLog_on_append_chunk L r c st =
     (Inr (), upd r (\<lambda>_. (heap st ! r)\<lparr> client := Some (c_client c), backend := Some (c_backend c),
        chunks := chunks (heap st ! r) @ [c],
        rxheaders := rxheaders (heap st ! r) @ [spec_header (c_data c)] \<rparr>) st)"
  using assms
  by (simp add: ClientRequestLog_on_append_chunk_def on_append_chunk_def Let_def
      set_header_spec md_setitem_def split: prod.split)

lemma RequestLog_rxheader:
  assumes "lines st f = Some r" "r < length (heap st)" "cls (heap st ! r) = ClientRequestLog"
    "fd (heap st ! r) = f" "f \<noteq> 0" "active (heap st ! r)" "is_request_header f c"
  shows "RequestLog L c False st =
     (Inr (Some r), upd r (\<lambda>_. (heap st ! r)\<lparr> client := Some (c_client c), backend := Some (c_backend c),
        chunks := chunks (heap st ! r) @ [c],
        rxheaders := rxheaders (heap st ! r) @ [spec_header (c_data c)] \<rparr>) st)"
proof -
  have c: "c_fd c = f" "c_client c" "c_tag c = ''rxheader''" "CHR '':'' \<in> set (c_data c)"
    using assms(7) by (simp_all add: is_request_header_def)
  have ne: "\<not> is_end c" using c by (simp add: is_end_def)
  have l: "lines st (c_fd c) = Some r" using assms c by simp
  have f0: "fd (heap st ! r) \<noteq> 0" using assms by simp
  have ba: "before_append r c st = st"
    using assms ne by (simp add: before_append_def)
  have ca: "call_on_append_chunk L r c st = ClientRequestLog_on_append_chunk L r c st"
    using assms by (simp add: call_on_append_chunk_def)
  show ?thesis
    using assms c ne
    by (simp add: RequestLog_bound[OF l] add_chunk_run[OF f0] ba ca Client_rxheader)
qed

lemma cb_effect:
  assumes "c_fd chunk \<noteq> 0" and "c_tag chunk \<notin> ignored_tags"
  shows "tbl (snd (cb L callback agg nrc chunk ds)) = snd (RequestLog L chunk False (tbl ds)) \<and>
    delivered (snd (cb L callback agg nrc chunk ds)) =
      delivered ds @
        (case fst (RequestLog L chunk False (tbl ds)) of
           Inl e \<Rightarrow> []
         | Inr None \<Rightarrow> []
         | Inr (Some r) \<Rightarrow>
             if complete (heap (snd (RequestLog L chunk False (tbl ds))) ! r) \<and>
                (case backend (heap (snd (RequestLog L chunk False (tbl ds))) ! r) of
                   None \<Rightarrow> False
                 | Some b \<Rightarrow>
                     \<not> (b \<and> chunks (heap (snd (RequestLog L chunk False (tbl ds))) ! r) = []) \<and>
                     (agg \<longrightarrow> client (heap (snd (RequestLog L chunk False (tbl ds))) ! r)
                                = Some True))
             then [r] else [])"
proof -
  obtain res st where eq: "RequestLog L chunk False (tbl ds) = (res, st)"
    by (cases "RequestLog L chunk False (tbl ds)")
  show ?thesis
  proof (cases res)
    case (Inl e)
    then show ?thesis using assms by (simp add: cb_def eq)
  next
    case (Inr ev)
    show ?thesis
    proof (cases ev)
      case None
      then show ?thesis using assms Inr by (simp add: cb_def eq)
    next
      case (Some r)
      show ?thesis
        using assms Inr Some deliver_effect[of callback r "ds\<lparr> tbl := st \<rparr>"]
        by (auto simp add: cb_def eq Let_def split: option.split)
    qed
  qed
qed

lemma cb_fault:
  assumes "c_fd chunk \<noteq> 0" and "c_tag chunk \<notin> ignored_tags"
    and "fst (RequestLog L chunk False (tbl ds)) = Inl e"
  shows "cb L callback agg nrc chunk ds =
           (False, ds\<lparr> tbl := snd (RequestLog L chunk False (tbl ds)),
                        printed := printed ds @ [e] \<rparr>)"
proof -
  obtain res st where eq: "RequestLog L chunk False (tbl ds) = (res, st)"
    by (cases "RequestLog L chunk False (tbl ds)")
  show ?thesis using assms by (simp add: cb_def eq)
qed

lemma cb_printed_prefix:
  "\<exists>ys. printed (snd (cb L callback agg nrc chunk ds)) = printed ds @ ys"
proof -
  obtain res st where eq: "RequestLog L chunk False (tbl ds) = (res, st)"
    by (cases "RequestLog L chunk False (tbl ds)")
  show ?thesis
    by (auto simp add: cb_def eq Let_def deliver_def split: option.split sum.split)
qed

lemma dispatch_printed_prefix:
  "\<exists>ys. printed (dispatch_requests L callback agg nrc s ds) = printed ds @ ys"
proof (induction s arbitrary: ds)
  case Nil
  then show ?case by (simp add: dispatch_requests_def)
next
  case (Cons c s)
  obtain ys where a: "printed (snd (cb L callback agg nrc c ds)) = printed ds @ ys"
    using cb_printed_prefix by blast
  obtain zs where b: "printed (dispatch_requests L callback agg nrc s (snd (cb L callback agg nrc c ds)))
      = printed (snd (cb L callback agg nrc c ds)) @ zs"
    using Cons.IH by blast
  show ?case using a b by (simp add: dispatch_requests_def)
qed


lemma on_append_chunk_ids:
  "id_attr (snd (on_append_chunk chunk self)) = id_attr self \<and>
   client_ip (snd (on_append_chunk chunk self)) = client_ip self \<and>
   client_port (snd (on_append_chunk chunk self)) = client_port self"
  by (simp add: on_append_chunk_def Let_def split: option.split)

lemma on_append_chunk_no_parse:
  assumes "c_tag chunk \<notin> {''rxheader'', ''txheader'', ''length''}"
  shows "fst (on_append_chunk chunk self) = Inr ()"
  using assms by (simp add: on_append_chunk_def Let_def)

lemma on_reqend_others:
  "i \<noteq> r \<Longrightarrow> heap (snd (on_reqend L r d st)) ! i = heap st ! i"
  "backend_request (heap (snd (on_reqend L r d st)) ! i) = backend_request (heap st ! i)"
  "id_attr (heap (snd (on_reqend L r d st)) ! i) = id_attr (heap st ! i)"
  "client_ip (heap (snd (on_reqend L r d st)) ! i) = client_ip (heap st ! i)"
  "client_port (heap (snd (on_reqend L r d st)) ! i) = client_port (heap st ! i)"
  by (simp_all add: on_reqend_def Let_def heap_upd split: list.split option.split)

lemma on_reqend_ok:
  assumes "reqend_ok L d"
  shows "fst (on_reqend L r d st) = Inr ()"
  using assms
  by (auto simp add: reqend_ok_def on_reqend_def Let_def split: list.splits option.splits)

lemma Client_on_append_chunk_others:
  assumes "c_tag chunk \<noteq> ''backend''"
  shows "(i \<noteq> r \<longrightarrow> heap (snd (ClientRequestLog_on_append_chunk L r chunk st)) ! i = heap st ! i) \<and>
    backend_request (heap (snd (ClientRequestLog_on_append_chunk L r chunk st)) ! i)
      = backend_request (heap st ! i)"
proof -
  obtain res self' where eq: "on_append_chunk chunk (heap st ! r) = (res, self')"
    by (cases "on_append_chunk chunk (heap st ! r)")
  note fr = on_append_chunk_frame[of chunk "heap st ! r", unfolded eq snd_conv]
  show ?thesis
    using assms
    by (cases rule: client_tag_cases[of chunk])
       (simp_all add: ClientRequestLog_on_append_chunk_def Let_def eq heap_upd fr on_reqend_others
          split: sum.split option.split list.split)
qed

lemma Client_reqend_ok:
  assumes "c_tag chunk = ''reqend''" and "reqend_ok L (c_data chunk)"
  shows "fst (ClientRequestLog_on_append_chunk L r chunk st) = Inr () \<and>
    id_attr (heap (snd (ClientRequestLog_on_append_chunk L r chunk st)) ! i) = id_attr (heap st ! i) \<and>
    client_ip (heap (snd (ClientRequestLog_on_append_chunk L r chunk st)) ! i)
      = client_ip (heap st ! i) \<and>
    client_port (heap (snd (ClientRequestLog_on_append_chunk L r chunk st)) ! i)
      = client_port (heap st ! i)"
proof -
  obtain res self' where eq: "on_append_chunk chunk (heap st ! r) = (res, self')"
    by (cases "on_append_chunk chunk (heap st ! r)")
  have res: "res = Inr ()"
    using on_append_chunk_no_parse[of chunk "heap st ! r"] assms(1) by (simp add: eq)
  note ids = on_append_chunk_ids[of chunk "heap st ! r", unfolded eq snd_conv]
  show ?thesis
    using assms
    by (simp add: ClientRequestLog_on_append_chunk_def Let_def eq res on_reqend_ok
        on_reqend_others heap_upd ids)
qed

lemma Client_reqstart_ok:
  assumes "c_tag chunk = ''reqstart''" and "split CHR '' '' (c_data chunk) = [ip, port, xid]"
    and "r < length (heap st)"
  shows "fst (ClientRequestLog_on_append_chunk L r chunk st) = Inr () \<and>
    id_attr (heap (snd (ClientRequestLog_on_append_chunk L r chunk st)) ! r) = Some xid \<and>
    client_ip (heap (snd (ClientRequestLog_on_append_chunk L r chunk st)) ! r) = Some ip \<and>
    client_port (heap (snd (ClientRequestLog_on_append_chunk L r chunk st)) ! r) = Some port"
proof -
  obtain res self' where eq: "on_append_chunk chunk (heap st ! r) = (res, self')"
    by (cases "on_append_chunk chunk (heap st ! r)")
  have res: "res = Inr ()"
    using on_append_chunk_no_parse[of chunk "heap st ! r"] assms(1) by (simp add: eq)
  show ?thesis
    using assms
    by (simp add: ClientRequestLog_on_append_chunk_def Let_def eq res heap_upd length_heap_upd)
qed

lemma call_others:
  assumes "cls (heap st ! r) = BackendRequestLog \<or> c_tag chunk \<noteq> ''backend''"
  shows "(i \<noteq> r \<longrightarrow> heap (snd (call_on_append_chunk L r chunk st)) ! i = heap st ! i) \<and>
    backend_request (heap (snd (call_on_append_chunk L r chunk st)) ! i)
      = backend_request (heap st ! i)"
  using assms Client_on_append_chunk_others[of chunk i r L st]
  by (cases "cls (heap st ! r)")
     (auto simp add: call_store heap_upd Backend_on_append_chunk_frame)

lemma add_chunk_others:
  assumes "cls (heap st ! r) = BackendRequestLog \<or> c_tag chunk \<noteq> ''backend''"
  shows "length (heap (snd (add_chunk L r chunk st))) = length (heap st) \<and>
    lines (snd (add_chunk L r chunk st)) =
      (if fd (heap st ! r) \<noteq> 0 \<and> (active (heap st ! r) \<or> is_start chunk) \<and>
          c_client chunk \<and> is_end chunk
       then (lines st)(fd (heap st ! r) := None) else lines st) \<and>
    (i \<noteq> r \<longrightarrow> heap (snd (add_chunk L r chunk st)) ! i = heap st ! i) \<and>
    backend_request (heap (snd (add_chunk L r chunk st)) ! i) = backend_request (heap st ! i)"
proof (cases "fd (heap st ! r) = 0 \<or> (\<not> active (heap st ! r) \<and> \<not> is_start chunk)")
  case True
  then show ?thesis by (auto simp add: add_chunk_skip)
next
  case False
  then have acc: "active (heap st ! r) \<or> is_start chunk" and f0: "fd (heap st ! r) \<noteq> 0"
    by auto
  let ?s = "before_append r chunk st"
  let ?t = "snd (call_on_append_chunk L r chunk ?s)"
  have c2: "cls (heap ?s ! r) = cls (heap st ! r)"
    by (simp add: before_append_heap[OF acc])
  have a2: "cls (heap ?s ! r) = BackendRequestLog \<or> c_tag chunk \<noteq> ''backend''"
    using assms c2 by simp
  have bl: "length (heap ?s) = length (heap st)"
    and bn: "lines ?s = (if c_client chunk \<and> is_end chunk
                           then (lines st)(fd (heap st ! r) := None) else lines st)"
    by (simp_all add: before_append_store)
  have bo: "i \<noteq> r \<longrightarrow> heap ?s ! i = heap st ! i"
    and bb: "backend_request (heap ?s ! i) = backend_request (heap st ! i)"
    by (simp_all add: before_append_heap[OF acc])
  have tl: "length (heap ?t) = length (heap ?s)" and tn: "lines ?t = lines ?s"
    using call_store_frame[of ?s L r chunk] a2 by auto
  have to: "i \<noteq> r \<longrightarrow> heap ?t ! i = heap ?s ! i"
    and tb: "backend_request (heap ?t ! i) = backend_request (heap ?s ! i)"
    using call_others[OF a2, of i L] by simp_all
  show ?thesis
  proof (cases "c_client chunk \<and> is_end chunk \<and> lines st (fd (heap st ! r)) = None")
    case True
    then have "snd (add_chunk L r chunk st) = ?s"
      using acc f0 by (auto simp add: add_chunk_snd)
    then show ?thesis using True acc f0 bl bn bo bb by simp
  next
    case k: False
    then have "snd (add_chunk L r chunk st) = ?t"
      using acc f0 by (auto simp add: add_chunk_snd)
    then show ?thesis using acc f0 bl bn bo bb tl tn to tb by simp
  qed
qed


lemma call_client:
  assumes "cls (heap st ! r) = ClientRequestLog"
  shows "call_on_append_chunk L r chunk st = ClientRequestLog_on_append_chunk L r chunk st"
  using assms by (simp add: call_on_append_chunk_def)

lemma RequestLog_reqstart_new:
  assumes "lines st g = None" and "g \<noteq> 0"
    and "c_fd c = g" and "c_client c" and "c_tag c = ''reqstart''"
    and "split CHR '' '' (c_data c) = [ip, port, xid]"
  shows "fst (RequestLog L c False st) = Inr (Some (length (heap st))) \<and>
    length (heap (snd (RequestLog L c False st))) = Suc (length (heap st)) \<and>
    lines (snd (RequestLog L c False st)) = (lines st)(g \<mapsto> length (heap st)) \<and>
    cls (heap (snd (RequestLog L c False st)) ! length (heap st)) = ClientRequestLog \<and>
    fd (heap (snd (RequestLog L c False st)) ! length (heap st)) = g \<and>
    active (heap (snd (RequestLog L c False st)) ! length (heap st)) \<and>
    \<not> complete (heap (snd (RequestLog L c False st)) ! length (heap st)) \<and>
    chunks (heap (snd (RequestLog L c False st)) ! length (heap st)) = [c] \<and>
    id_attr (heap (snd (RequestLog L c False st)) ! length (heap st)) = Some xid \<and>
    client_ip (heap (snd (RequestLog L c False st)) ! length (heap st)) = Some ip \<and>
    client_port (heap (snd (RequestLog L c False st)) ! length (heap st)) = Some port \<and>
    (\<forall>i < length (heap st). heap (snd (RequestLog L c False st)) ! i = heap st ! i)"
proof -
  let ?n = "length (heap st)"
  let ?s = "bind_new ClientRequestLog c False st"
  let ?b = "before_append ?n c ?s"
  let ?st = "snd (RequestLog L c False st)"
  have l: "lines st (c_fd c) = None" using assms by simp
  have rl: "RequestLog L c False st =
      (case add_chunk L ?n c ?s of (Inl e, s') \<Rightarrow> (Inl e, s') | (Inr _, s') \<Rightarrow> (Inr (Some ?n), s'))"
    using assms(4) by (simp add: RequestLog_unbound[OF l])
  have o: "heap ?s ! ?n = init ClientRequestLog g False"
    using assms(3) by (simp add: bind_new_store)
  have n: "?n < length (heap ?s)" by (simp add: bind_new_store)
  have f0: "fd (heap ?s ! ?n) \<noteq> 0" using assms(2) by (simp add: o init_def)
  have st: "is_start c" using assms by (simp add: is_start_def)
  have acc: "active (heap ?s ! ?n) \<or> is_start c" using st by simp
  have ne: "\<not> is_end c" using st by (rule start_not_end)
  have run: "add_chunk L ?n c ?s =
      (case call_on_append_chunk L ?n c ?b of
         (Inl e, st3) \<Rightarrow> (Inl e, st3)
       | (Inr _, st3) \<Rightarrow> (Inr (complete (heap st3 ! ?n)), st3))"
    using ne by (simp add: add_chunk_run[OF f0 acc])
  have cb: "cls (heap ?b ! ?n) = ClientRequestLog"
    by (simp add: before_append_heap[OF acc] o init_def)
  have nb: "?n < length (heap ?b)" by (simp add: before_append_store bind_new_store)
  note ok = Client_reqstart_ok[OF assms(5,6) nb, of L]
  have fa: "fst (add_chunk L ?n c ?s) = Inr (complete (heap (snd (add_chunk L ?n c ?s)) ! ?n))"
    using ok by (simp add: run call_client[OF cb] fst_case_result snd_case_result)
  have s1: "?st = snd (add_chunk L ?n c ?s)" by (simp add: rl snd_case_some)
  have s2: "?st = snd (ClientRequestLog_on_append_chunk L ?n c ?b)"
    by (simp add: s1 run call_client[OF cb] snd_case_result)
  have f1: "fst (RequestLog L c False st) = Inr (Some ?n)"
    using fa by (simp add: rl fst_case_some)
  note a = add_chunk_accepted[OF n f0 acc, of L]
  have tg: "cls (heap ?s ! ?n) = BackendRequestLog \<or> c_tag c \<noteq> ''backend''"
    using assms(5) by simp
  note ot = add_chunk_others[OF tg, of L]
  have fr: "cls (heap ?st ! ?n) = ClientRequestLog" "fd (heap ?st ! ?n) = g"
    using add_chunk_frame[OF n, of L ?n c] by (simp_all add: s1 o init_def)
  have p: "active (heap ?st ! ?n)" "\<not> complete (heap ?st ! ?n)" "chunks (heap ?st ! ?n) = [c]"
    using a fa ne by (simp_all add: s1 o init_def)
  have ids: "id_attr (heap ?st ! ?n) = Some xid" "client_ip (heap ?st ! ?n) = Some ip"
    "client_port (heap ?st ! ?n) = Some port"
    using ok by (simp_all add: s2)
  have len: "length (heap ?st) = Suc ?n"
    using ot[of 0] by (simp add: s1 bind_new_store)
  have ln: "lines ?st = (lines st)(g \<mapsto> ?n)"
    using ot[of 0] ne assms(3) by (simp add: s1 bind_new_store)
  have oth: "heap ?st ! i = heap st ! i" if "i < ?n" for i
    using ot[of i] that by (simp add: s1 bind_new_store)
  from f1 len ln fr p ids oth show ?thesis by simp
qed

lemma RequestLog_reqend_bound:
  assumes "lines st g = Some n" and "n < length (heap st)"
    and "cls (heap st ! n) = ClientRequestLog" and "fd (heap st ! n) = g" and "g \<noteq> 0"
    and "active (heap st ! n)"
    and "c_fd c = g" and "c_client c" and "c_tag c = ''reqend''" and "reqend_ok L (c_data c)"
  shows "fst (RequestLog L c False st) = Inr (Some n) \<and>
    length (heap (snd (RequestLog L c False st))) = length (heap st) \<and>
    lines (snd (RequestLog L c False st)) = (lines st)(g := None) \<and>
    cls (heap (snd (RequestLog L c False st)) ! n) = ClientRequestLog \<and>
    complete (heap (snd (RequestLog L c False st)) ! n) \<and>
    \<not> active (heap (snd (RequestLog L c False st)) ! n) \<and>
    client (heap (snd (RequestLog L c False st)) ! n) = Some True \<and>
    backend (heap (snd (RequestLog L c False st)) ! n) = Some (c_backend c) \<and>
    chunks (heap (snd (RequestLog L c False st)) ! n) = chunks (heap st ! n) @ [c] \<and>
    id_attr (heap (snd (RequestLog L c False st)) ! n) = id_attr (heap st ! n) \<and>
    client_ip (heap (snd (RequestLog L c False st)) ! n) = client_ip (heap st ! n) \<and>
    client_port (heap (snd (RequestLog L c False st)) ! n) = client_port (heap st ! n) \<and>
    backend_request (heap (snd (RequestLog L c False st)) ! n) = backend_request (heap st ! n) \<and>
    (\<forall>i. i \<noteq> n \<longrightarrow> heap (snd (RequestLog L c False st)) ! i = heap st ! i)"
proof -
  let ?b = "before_append n c st"
  let ?st = "snd (RequestLog L c False st)"
  have l: "lines st (c_fd c) = Some n" using assms by simp
  have rl: "RequestLog L c False st =
      (case add_chunk L n c st of (Inl e, s') \<Rightarrow> (Inl e, s') | (Inr _, s') \<Rightarrow> (Inr (Some n), s'))"
    using assms(3,8) by (simp add: RequestLog_bound[OF l])
  have f0: "fd (heap st ! n) \<noteq> 0" using assms by simp
  have acc: "active (heap st ! n) \<or> is_start c" using assms by simp
  have ie: "is_end c" using assms by (simp add: is_end_def)
  have run: "add_chunk L n c st =
      (case call_on_append_chunk L n c ?b of
         (Inl e, st3) \<Rightarrow> (Inl e, st3)
       | (Inr _, st3) \<Rightarrow> (Inr (complete (heap st3 ! n)), st3))"
    using assms(1,4) by (simp add: add_chunk_run[OF f0 acc])
  have cb: "cls (heap ?b ! n) = ClientRequestLog"
    using assms(3) by (simp add: before_append_heap[OF acc])
  note ok = Client_reqend_ok[OF assms(9,10), of n ?b n]
  have fa: "fst (add_chunk L n c st) = Inr (complete (heap (snd (add_chunk L n c st)) ! n))"
    using ok by (simp add: run call_client[OF cb] fst_case_result snd_case_result)
  have s1: "?st = snd (add_chunk L n c st)" by (simp add: rl snd_case_some)
  have s2: "?st = snd (ClientRequestLog_on_append_chunk L n c ?b)"
    by (simp add: s1 run call_client[OF cb] snd_case_result)
  have f1: "fst (RequestLog L c False st) = Inr (Some n)"
    using fa by (simp add: rl fst_case_some)
  note a = add_chunk_accepted[OF assms(2) f0 acc, of L]
  have tg: "cls (heap st ! n) = BackendRequestLog \<or> c_tag c \<noteq> ''backend''"
    using assms(9) by simp
  note ot = add_chunk_others[OF tg, of L]
  have fr: "cls (heap ?st ! n) = ClientRequestLog"
    using add_chunk_frame[OF assms(2), of L n c] assms(3) by (simp add: s1)
  have p: "complete (heap ?st ! n)" "\<not> active (heap ?st ! n)"
    "client (heap ?st ! n) = Some True" "backend (heap ?st ! n) = Some (c_backend c)"
    "chunks (heap ?st ! n) = chunks (heap st ! n) @ [c]"
    using a fa ie assms(8) by (simp_all add: s1)
  have ids: "id_attr (heap ?st ! n) = id_attr (heap st ! n)"
    "client_ip (heap ?st ! n) = client_ip (heap st ! n)"
    "client_port (heap ?st ! n) = client_port (heap st ! n)"
    using ok assms(2) by (simp_all add: s2 before_append_heap[OF acc])
  have len: "length (heap ?st) = length (heap st)"
    and br: "backend_request (heap ?st ! n) = backend_request (heap st ! n)"
    using ot[of n] by (simp_all add: s1)
  have ln: "lines ?st = (lines st)(g := None)"
    using ot[of n] ie f0 acc assms(4,8) by (simp add: s1)
  have oth: "heap ?st ! i = heap st ! i" if "i \<noteq> n" for i
    using ot[of i] that by (simp add: s1)
  from f1 len ln fr p ids br oth show ?thesis by simp
qed


lemma dispatch_requests_Cons:
  "dispatch_requests L callback agg nrc (c # rest) ds =
     dispatch_requests L callback agg nrc rest (snd (cb L callback agg nrc c ds))"
  by (simp add: dispatch_requests_def)

lemma dispatch_requests_Nil: "dispatch_requests L callback agg nrc [] ds = ds"
  by (simp add: dispatch_requests_def)

lemma reqstart_not_ignored: "c_tag c = ''reqstart'' \<Longrightarrow> c_tag c \<notin> ignored_tags"
  by (simp add: ignored_tags_def)

lemma reqend_not_ignored: "c_tag c = ''reqend'' \<Longrightarrow> c_tag c \<notin> ignored_tags"
  by (simp add: ignored_tags_def)

section \<open>The dispatcher on a stream of one client and one backend transaction\<close>

lemma RequestLog_fst_bound:
  assumes "lines st (c_fd c) = Some r" and "fst (RequestLog L c act st) = Inr ev"
  shows "ev = Some r"
  using assms
  by (cases "fst (add_chunk L r c st)")
     (auto simp add: RequestLog_bound fst_case_some split: if_splits)

lemma RequestLog_fst_unbound:
  assumes "lines st (c_fd c) = None" and "c_client c \<or> c_backend c"
    and "fst (RequestLog L c act st) = Inr ev"
  shows "ev = Some (length (heap st))"
  using assms
  by (cases "fst (add_chunk L (length (heap st)) c
        (bind_new (if c_client c then ClientRequestLog else BackendRequestLog) c act st))")
     (auto simp add: RequestLog_unbound fst_case_some split: if_splits)

lemma is_start_tag: "is_start c \<Longrightarrow> c_tag c \<noteq> ''backend''"
  by (auto simp add: is_start_def)

lemma RequestLog_new_start:
  assumes "lines st (c_fd c) = None" and "c_fd c \<noteq> 0" and "is_start c"
  shows "length (heap (snd (RequestLog L c False st))) = Suc (length (heap st)) \<and>
    lines (snd (RequestLog L c False st)) = (lines st)(c_fd c \<mapsto> length (heap st)) \<and>
    cls (heap (snd (RequestLog L c False st)) ! length (heap st))
      = (if c_client c then ClientRequestLog else BackendRequestLog) \<and>
    fd (heap (snd (RequestLog L c False st)) ! length (heap st)) = c_fd c \<and>
    active (heap (snd (RequestLog L c False st)) ! length (heap st)) \<and>
    \<not> complete (heap (snd (RequestLog L c False st)) ! length (heap st)) \<and>
    (\<forall>i < length (heap st). heap (snd (RequestLog L c False st)) ! i = heap st ! i)"
proof -
  let ?n = "length (heap st)"
  let ?k = "if c_client c then ClientRequestLog else BackendRequestLog"
  let ?s = "bind_new ?k c False st"
  let ?st = "snd (RequestLog L c False st)"
  have role: "c_client c \<or> c_backend c" using assms(3) by (auto simp add: is_start_def)
  have s1: "?st = snd (add_chunk L ?n c ?s)"
    using role by (simp add: RequestLog_unbound[OF assms(1)] snd_case_some)
  have o: "heap ?s ! ?n = init ?k (c_fd c) False" by (simp add: bind_new_store)
  have n: "?n < length (heap ?s)" by (simp add: bind_new_store)
  have f0: "fd (heap ?s ! ?n) \<noteq> 0" using assms(2) by (simp add: o init_def)
  have acc: "active (heap ?s ! ?n) \<or> is_start c" using assms(3) by simp
  have ne: "\<not> is_end c" using assms(3) by (rule start_not_end)
  note a = add_chunk_accepted[OF n f0 acc, of L]
  have tg: "cls (heap ?s ! ?n) = BackendRequestLog \<or> c_tag c \<noteq> ''backend''"
    using is_start_tag[OF assms(3)] by simp
  note ot = add_chunk_others[OF tg, of L]
  have fr: "cls (heap ?st ! ?n) = ?k" "fd (heap ?st ! ?n) = c_fd c"
    using add_chunk_frame[OF n, of L ?n c] by (simp_all add: s1 o init_def)
  have p: "active (heap ?st ! ?n)" "\<not> complete (heap ?st ! ?n)"
    using a ne by (simp_all add: s1 o init_def)
  have len: "length (heap ?st) = Suc ?n"
    using ot[of 0] by (simp add: s1 bind_new_store)
  have ln: "lines ?st = (lines st)(c_fd c \<mapsto> ?n)"
    using ot[of 0] ne by (simp add: s1 bind_new_store)
  have oth: "heap ?st ! i = heap st ! i" if "i < ?n" for i
    using ot[of i] that by (simp add: s1 bind_new_store)
  from len ln fr p oth show ?thesis by simp
qed

lemma RequestLog_bound_step:
  assumes "lines st (c_fd c) = Some r" and "r < length (heap st)"
    and "c_client c \<or> c_backend c"
    and "cls (heap st ! r) = (if c_client c then ClientRequestLog else BackendRequestLog)"
    and "fd (heap st ! r) = c_fd c" and "c_fd c \<noteq> 0"
    and "active (heap st ! r) \<or> is_start c"
    and "\<not> c_client c \<or> c_tag c \<noteq> ''backend''"
  shows "length (heap (snd (RequestLog L c False st))) = length (heap st) \<and>
    lines (snd (RequestLog L c False st)) =
      (if c_client c \<and> is_end c then (lines st)(c_fd c := None) else lines st) \<and>
    (\<forall>i. i \<noteq> r \<longrightarrow> heap (snd (RequestLog L c False st)) ! i = heap st ! i) \<and>
    cls (heap (snd (RequestLog L c False st)) ! r) = cls (heap st ! r) \<and>
    fd (heap (snd (RequestLog L c False st)) ! r) = fd (heap st ! r) \<and>
    active (heap (snd (RequestLog L c False st)) ! r) = (\<not> is_end c) \<and>
    complete (heap (snd (RequestLog L c False st)) ! r) = (complete (heap st ! r) \<or> is_end c) \<and>
    backend_request (heap (snd (RequestLog L c False st)) ! r) = backend_request (heap st ! r) \<and>
    (\<forall>ev. fst (RequestLog L c False st) = Inr ev \<longrightarrow>
       chunks (heap (snd (RequestLog L c False st)) ! r) = chunks (heap st ! r) @ [c] \<and>
       client (heap (snd (RequestLog L c False st)) ! r) = Some (c_client c) \<and>
       backend (heap (snd (RequestLog L c False st)) ! r) = Some (c_backend c))"
proof -
  let ?st = "snd (RequestLog L c False st)"
  have rl: "RequestLog L c False st =
      (case add_chunk L r c st of (Inl e, s') \<Rightarrow> (Inl e, s') | (Inr _, s') \<Rightarrow> (Inr (Some r), s'))"
    using assms(3,4) by (auto simp add: RequestLog_bound[OF assms(1)])
  have s1: "?st = snd (add_chunk L r c st)" by (simp add: rl snd_case_some)
  have f0: "fd (heap st ! r) \<noteq> 0" using assms by simp
  note a = add_chunk_accepted[OF assms(2) f0 assms(7), of L]
  have tg: "cls (heap st ! r) = BackendRequestLog \<or> c_tag c \<noteq> ''backend''"
    using assms(4,8) by auto
  note ot = add_chunk_others[OF tg, of L]
  have fr: "cls (heap ?st ! r) = cls (heap st ! r)" "fd (heap ?st ! r) = fd (heap st ! r)"
    using add_chunk_frame[OF assms(2), of L r c] by (simp_all add: s1)
  have p: "active (heap ?st ! r) = (\<not> is_end c)"
    "complete (heap ?st ! r) = (complete (heap st ! r) \<or> is_end c)"
    using a by (simp_all add: s1)
  have q: "chunks (heap ?st ! r) = chunks (heap st ! r) @ [c] \<and>
       client (heap ?st ! r) = Some (c_client c) \<and> backend (heap ?st ! r) = Some (c_backend c)"
    if h: "fst (RequestLog L c False st) = Inr ev" for ev
  proof -
    have "\<exists>b. fst (add_chunk L r c st) = Inr b"
      using h by (cases "fst (add_chunk L r c st)") (auto simp add: rl fst_case_some)
    then show ?thesis using a by (auto simp add: s1)
  qed
  have len: "length (heap ?st) = length (heap st)"
    and br: "backend_request (heap ?st ! r) = backend_request (heap st ! r)"
    using ot[of r] by (simp_all add: s1)
  have ln: "lines ?st = (if c_client c \<and> is_end c then (lines st)(c_fd c := None) else lines st)"
    using ot[of r] f0 assms(5,7) by (simp add: s1)
  have oth: "heap ?st ! i = heap st ! i" if "i \<noteq> r" for i
    using ot[of i] that by (simp add: s1)
  from len ln oth fr p br q show ?thesis by blast
qed


lemma on_backend_ref:
  assumes "backend_ref d = Some fb" and "r < length (heap st)"
  shows "(lines st fb = None \<longrightarrow>
      length (heap (snd (on_backend r d st))) = Suc (length (heap st)) \<and>
      lines (snd (on_backend r d st)) = (lines st)(fb \<mapsto> length (heap st)) \<and>
      backend_request (heap (snd (on_backend r d st)) ! r) = Some (length (heap st)) \<and>
      cls (heap (snd (on_backend r d st)) ! length (heap st)) = BackendRequestLog \<and>
      fd (heap (snd (on_backend r d st)) ! length (heap st)) = fb \<and>
      \<not> active (heap (snd (on_backend r d st)) ! length (heap st)) \<and>
      \<not> complete (heap (snd (on_backend r d st)) ! length (heap st))) \<and>
    (\<forall>b. lines st fb = Some b \<longrightarrow>
      length (heap (snd (on_backend r d st))) = length (heap st) \<and>
      lines (snd (on_backend r d st)) = lines st \<and>
      backend_request (heap (snd (on_backend r d st)) ! r) = Some b)"
proof -
  obtain bs dir bn where sp: "split CHR '' '' d = [bs, dir, bn]" and pi: "py_int bs = Some fb"
    using assms(1) by (auto simp add: backend_ref_def split: list.splits)
  show ?thesis
    using assms(2)
    by (auto simp add: on_backend_def sp pi Let_def set_director_def heap_upd length_heap_upd
        lines_upd nth_append init_def)
qed


lemma client_part_frame:
  assumes "client_part fc cp refd rc rb st" and "lines st' fc = lines st fc"
    and "length (heap st) \<le> length (heap st')"
    and "cp \<noteq> Idle \<longrightarrow> heap st' ! rc = heap st ! rc"
  shows "client_part fc cp refd rc rb st'"
  using assms by (cases cp) (auto simp add: client_part_def)

lemma backend_part_frame:
  assumes "backend_part fb bp refd rb st" and "lines st' fb = lines st fb"
    and "length (heap st) \<le> length (heap st')"
    and "\<not> (bp = Idle \<and> \<not> refd) \<longrightarrow>
           cls (heap st' ! rb) = cls (heap st ! rb) \<and> fd (heap st' ! rb) = fd (heap st ! rb) \<and>
           active (heap st' ! rb) = active (heap st ! rb) \<and>
           complete (heap st' ! rb) = complete (heap st ! rb)"
  shows "backend_part fb bp refd rb st'"
  using assms by (auto simp add: backend_part_def split: if_splits)

lemma cb_ignored:
  assumes "c_fd c \<noteq> 0" and "c_tag c \<in> ignored_tags"
  shows "cb L callback agg nrc c ds = (True, ds)"
  using assms by (simp add: cb_def)

lemma cb_no_delivery:
  assumes "c_fd c \<noteq> 0" and "c_tag c \<notin> ignored_tags"
    and "\<And>r. fst (RequestLog L c False (tbl ds)) = Inr (Some r) \<Longrightarrow>
           \<not> complete (heap (snd (RequestLog L c False (tbl ds))) ! r)"
  shows "tbl (snd (cb L callback agg nrc c ds)) = snd (RequestLog L c False (tbl ds)) \<and>
         delivered (snd (cb L callback agg nrc c ds)) = delivered ds"
  using cb_effect[OF assms(1,2), of L callback agg nrc ds] assms(3)
  by (auto split: sum.splits option.splits)

lemma cb_delivery:
  assumes "c_fd c \<noteq> 0" and "c_tag c \<notin> ignored_tags"
    and "fst (RequestLog L c False (tbl ds)) = Inr (Some r)"
    and "complete (heap (snd (RequestLog L c False (tbl ds))) ! r)"
    and "backend (heap (snd (RequestLog L c False (tbl ds))) ! r) = Some b"
    and "chunks (heap (snd (RequestLog L c False (tbl ds))) ! r) \<noteq> []"
    and "client (heap (snd (RequestLog L c False (tbl ds))) ! r) = Some cl"
  shows "tbl (snd (cb L callback agg nrc c ds)) = snd (RequestLog L c False (tbl ds)) \<and>
         delivered (snd (cb L callback agg nrc c ds))
           = delivered ds @ (if agg \<longrightarrow> cl then [r] else [])"
  using cb_effect[OF assms(1,2), of L callback agg nrc ds] assms(3-7)
  by auto

lemma Client_backend_tag:
  assumes "c_tag c = ''backend''"
  shows "ClientRequestLog_on_append_chunk L r c st =
           on_backend r (c_data c) (upd r (\<lambda>_. snd (on_append_chunk c (heap st ! r))) st)"
proof -
  obtain res self' where eq: "on_append_chunk c (heap st ! r) = (res, self')"
    by (cases "on_append_chunk c (heap st ! r)")
  have res: "res = Inr ()"
    using on_append_chunk_no_parse[of c "heap st ! r"] assms by (simp add: eq)
  show ?thesis
    using assms by (simp add: ClientRequestLog_on_append_chunk_def Let_def eq res)
qed

lemma RequestLog_running_client:
  assumes "lines st (c_fd c) = Some r" and "cls (heap st ! r) = ClientRequestLog"
    and "c_client c" and "fd (heap st ! r) \<noteq> 0" and "active (heap st ! r)"
    and "\<not> is_end c"
  shows "snd (RequestLog L c False st) = snd (ClientRequestLog_on_append_chunk L r c st)"
proof -
  have ba: "before_append r c st = st"
    using assms by (simp add: before_append_def)
  show ?thesis
    using assms
    by (simp add: RequestLog_bound[OF assms(1)] snd_case_some add_chunk_snd ba call_client)
qed

lemma RequestLog_ref_step:
  assumes "lines st (c_fd c) = Some r" and "r < length (heap st)"
    and "cls (heap st ! r) = ClientRequestLog"
    and "c_client c" and "\<not> c_backend c" and "fd (heap st ! r) \<noteq> 0" and "active (heap st ! r)"
    and "c_tag c = ''backend''" and "backend_ref (c_data c) = Some fb"
  shows "(lines st fb = None \<longrightarrow>
      length (heap (snd (RequestLog L c False st))) = Suc (length (heap st)) \<and>
      lines (snd (RequestLog L c False st)) = (lines st)(fb \<mapsto> length (heap st)) \<and>
      backend_request (heap (snd (RequestLog L c False st)) ! r) = Some (length (heap st)) \<and>
      cls (heap (snd (RequestLog L c False st)) ! length (heap st)) = BackendRequestLog \<and>
      fd (heap (snd (RequestLog L c False st)) ! length (heap st)) = fb \<and>
      \<not> active (heap (snd (RequestLog L c False st)) ! length (heap st)) \<and>
      \<not> complete (heap (snd (RequestLog L c False st)) ! length (heap st))) \<and>
    (\<forall>b. lines st fb = Some b \<longrightarrow>
      length (heap (snd (RequestLog L c False st))) = length (heap st) \<and>
      lines (snd (RequestLog L c False st)) = lines st \<and>
      backend_request (heap (snd (RequestLog L c False st)) ! r) = Some b) \<and>
    (\<forall>i < length (heap st).
      cls (heap (snd (RequestLog L c False st)) ! i) = cls (heap st ! i) \<and>
      fd (heap (snd (RequestLog L c False st)) ! i) = fd (heap st ! i) \<and>
      active (heap (snd (RequestLog L c False st)) ! i) = active (heap st ! i) \<and>
      complete (heap (snd (RequestLog L c False st)) ! i) = complete (heap st ! i))"
proof -
  let ?self = "snd (on_append_chunk c (heap st ! r))"
  let ?s1 = "upd r (\<lambda>_. ?self) st"
  have ne: "\<not> is_end c" using assms(5,8) by (simp add: is_end_def)
  have st': "snd (RequestLog L c False st) = snd (on_backend r (c_data c) ?s1)"
    using RequestLog_running_client[OF assms(1,3,4,6,7) ne, of L]
    by (simp add: Client_backend_tag[OF assms(8)])
  have r1: "r < length (heap ?s1)" using assms(2) by (simp add: length_heap_upd)
  note ob = on_backend_ref[OF assms(9) r1, unfolded length_heap_upd lines_upd]
  have fr: "cls (heap (snd (on_backend r (c_data c) ?s1)) ! i) = cls (heap st ! i) \<and>
      fd (heap (snd (on_backend r (c_data c) ?s1)) ! i) = fd (heap st ! i) \<and>
      active (heap (snd (on_backend r (c_data c) ?s1)) ! i) = active (heap st ! i) \<and>
      complete (heap (snd (on_backend r (c_data c) ?s1)) ! i) = complete (heap st ! i)"
    if "i < length (heap st)" for i
  proof -
    have i1: "i < length (heap ?s1)" using that by (simp add: length_heap_upd)
    show ?thesis
      using on_backend_frame[OF i1, of r "c_data c"] that
      by (simp add: heap_upd on_append_chunk_frame)
  qed
  from ob fr show ?thesis by (simp only: st') blast
qed


lemma RequestLog_backend_end:
  assumes "lines st (c_fd c) = Some r" and "r < length (heap st)"
    and "cls (heap st ! r) = BackendRequestLog" and "c_backend c" and "\<not> c_client c"
    and "fd (heap st ! r) \<noteq> 0" and "active (heap st ! r)"
    and "c_tag c = ''backendclose'' \<or> c_tag c = ''backendreuse''"
  shows "fst (RequestLog L c False st) = Inr (Some r)"
proof -
  have acc: "active (heap st ! r) \<or> is_start c" using assms by simp
  have k: "cls (heap (before_append r c st) ! r) = BackendRequestLog"
    using assms by (simp add: before_append_heap[OF acc])
  have f: "fst (call_on_append_chunk L r c (before_append r c st)) = Inr ()"
    using backend_end_no_fault[OF assms(8), of "heap (before_append r c st) ! r"]
    by (auto simp add: call_on_append_chunk_def k split: prod.split)
  show ?thesis
    using assms(3,4,5)
    by (simp add: RequestLog_bound[OF assms(1)] add_chunk_run[OF assms(6) acc]
        fst_case_some fst_case_result f)
qed

lemma cb_nonrequest:
  assumes "c_fd c = 0"
  shows "tbl (snd (cb L callback agg nrc c ds)) = tbl ds \<and>
         delivered (snd (cb L callback agg nrc c ds)) = delivered ds"
  using assms by (simp add: cb_def split: option.split sum.split)

lemma step_skip:
  assumes "pair_inv agg fc fb s rc rb D0 ds" and "c_fd c = 0 \<or> c_tag c \<in> ignored_tags"
  shows "pair_inv agg fc fb s rc rb D0 (snd (cb L callback agg nrc c ds))"
proof (cases "c_fd c = 0")
  case True
  then show ?thesis using assms(1) cb_nonrequest[OF True, of L callback agg nrc ds]
    by (simp add: pair_inv_def)
next
  case False
  then show ?thesis using assms by (simp add: cb_ignored)
qed

lemma step_client_start:
  assumes fds: "fc \<noteq> 0" "fc \<noteq> fb"
    and I: "pair_inv agg fc fb (Idle, bp, refd) rc rb D0 ds"
    and c: "c_fd c = fc" "c_client c" "c_tag c = ''reqstart''"
  shows "pair_inv agg fc fb (Running, bp, refd) (length (heap (tbl ds))) rb D0
           (snd (cb L callback agg nrc c ds))"
proof -
  let ?R = "RequestLog L c False (tbl ds)"
  let ?ds = "snd (cb L callback agg nrc c ds)"
  from I have C: "client_part fc Idle refd rc rb (tbl ds)"
    and B: "backend_part fb bp refd rb (tbl ds)"
    and D: "delivered_part agg Idle bp rc rb D0 (delivered ds)"
    by (simp_all add: pair_inv_def)
  have un: "lines (tbl ds) (c_fd c) = None" and nr: "\<not> refd"
    using C c by (simp_all add: client_part_def)
  have f0: "c_fd c \<noteq> 0" using fds c by simp
  have st: "is_start c" using c by (simp add: is_start_def)
  note ns = RequestLog_new_start[OF un f0 st, of L]
  have nd: "tbl ?ds = snd ?R \<and> delivered ?ds = delivered ds"
  proof (rule cb_no_delivery[OF f0 reqstart_not_ignored[OF c(3)]])
    fix r assume "fst ?R = Inr (Some r)"
    then have "Some r = Some (length (heap (tbl ds)))"
      using RequestLog_fst_unbound[OF un, of L False "Some r"] c by simp
    then show "\<not> complete (heap (snd ?R) ! r)" using ns by simp
  qed
  have C': "client_part fc Running refd (length (heap (tbl ds))) rb (tbl ?ds)"
    using ns c nr by (simp add: client_part_def nd)
  have B': "backend_part fb bp refd rb (tbl ?ds)"
  proof (rule backend_part_frame[OF B])
    show "lines (tbl ?ds) fb = lines (tbl ds) fb" using ns c fds by (simp add: nd)
    show "length (heap (tbl ds)) \<le> length (heap (tbl ?ds))" using ns by (simp add: nd)
    show "\<not> (bp = Idle \<and> \<not> refd) \<longrightarrow>
           cls (heap (tbl ?ds) ! rb) = cls (heap (tbl ds) ! rb) \<and>
           fd (heap (tbl ?ds) ! rb) = fd (heap (tbl ds) ! rb) \<and>
           active (heap (tbl ?ds) ! rb) = active (heap (tbl ds) ! rb) \<and>
           complete (heap (tbl ?ds) ! rb) = complete (heap (tbl ds) ! rb)"
      using B ns by (auto simp add: backend_part_def nd)
  qed
  have D': "delivered_part agg Running bp (length (heap (tbl ds))) rb D0 (delivered ?ds)"
    using D by (simp add: delivered_part_def nd)
  show ?thesis using C' B' D' by (simp add: pair_inv_def)
qed


lemma step_client_mid:
  assumes fds: "fc \<noteq> 0" "fc \<noteq> fb"
    and I: "pair_inv agg fc fb (Running, bp, refd) rc rb D0 ds"
    and c: "c_fd c = fc" "c_client c" "\<not> c_backend c" "c_tag c \<notin> ignored_tags"
      "c_tag c \<noteq> ''reqend''" "c_tag c \<noteq> ''backend''"
  shows "pair_inv agg fc fb (Running, bp, refd) rc rb D0 (snd (cb L callback agg nrc c ds))"
proof -
  let ?R = "RequestLog L c False (tbl ds)"
  let ?ds = "snd (cb L callback agg nrc c ds)"
  from I have C: "client_part fc Running refd rc rb (tbl ds)"
    and B: "backend_part fb bp refd rb (tbl ds)"
    and D: "delivered_part agg Running bp rc rb D0 (delivered ds)"
    by (simp_all add: pair_inv_def)
  have bd: "lines (tbl ds) (c_fd c) = Some rc" and lt: "rc < length (heap (tbl ds))"
    and k: "cls (heap (tbl ds) ! rc) = (if c_client c then ClientRequestLog else BackendRequestLog)"
    and f: "fd (heap (tbl ds) ! rc) = c_fd c" and a: "active (heap (tbl ds) ! rc)"
    and nc: "\<not> complete (heap (tbl ds) ! rc)"
    using C c by (simp_all add: client_part_def)
  have f0: "c_fd c \<noteq> 0" using fds c by simp
  have ne: "\<not> is_end c" using c by (simp add: is_end_def)
  have role: "c_client c \<or> c_backend c" using c by simp
  have acc: "active (heap (tbl ds) ! rc) \<or> is_start c" using a by simp
  have tg: "\<not> c_client c \<or> c_tag c \<noteq> ''backend''" using c by simp
  note bs = RequestLog_bound_step[OF bd lt role k f f0 acc tg, of L]
  have nd: "tbl ?ds = snd ?R \<and> delivered ?ds = delivered ds"
  proof (rule cb_no_delivery[OF f0 c(4)])
    fix r assume "fst ?R = Inr (Some r)"
    then have "Some r = Some rc" by (rule RequestLog_fst_bound[OF bd])
    then show "\<not> complete (heap (snd ?R) ! r)" using bs nc ne by simp
  qed
  have C': "client_part fc Running refd rc rb (tbl ?ds)"
    using bs C c ne by (simp add: client_part_def nd)
  have B': "backend_part fb bp refd rb (tbl ?ds)"
  proof (rule backend_part_frame[OF B])
    show "lines (tbl ?ds) fb = lines (tbl ds) fb" using bs ne by (simp add: nd)
    show "length (heap (tbl ds)) \<le> length (heap (tbl ?ds))" using bs by (simp add: nd)
    show "\<not> (bp = Idle \<and> \<not> refd) \<longrightarrow>
           cls (heap (tbl ?ds) ! rb) = cls (heap (tbl ds) ! rb) \<and>
           fd (heap (tbl ?ds) ! rb) = fd (heap (tbl ds) ! rb) \<and>
           active (heap (tbl ?ds) ! rb) = active (heap (tbl ds) ! rb) \<and>
           complete (heap (tbl ?ds) ! rb) = complete (heap (tbl ds) ! rb)"
    proof
      assume "\<not> (bp = Idle \<and> \<not> refd)"
      then have "cls (heap (tbl ds) ! rb) = BackendRequestLog"
        using B by (auto simp add: backend_part_def)
      then have "rb \<noteq> rc" using k c by auto
      then have "heap (tbl ?ds) ! rb = heap (tbl ds) ! rb" using bs by (simp add: nd)
      then show "cls (heap (tbl ?ds) ! rb) = cls (heap (tbl ds) ! rb) \<and>
           fd (heap (tbl ?ds) ! rb) = fd (heap (tbl ds) ! rb) \<and>
           active (heap (tbl ?ds) ! rb) = active (heap (tbl ds) ! rb) \<and>
           complete (heap (tbl ?ds) ! rb) = complete (heap (tbl ds) ! rb)" by simp
    qed
  qed
  have D': "delivered_part agg Running bp rc rb D0 (delivered ?ds)"
    using D by (simp add: delivered_part_def nd)
  show ?thesis using C' B' D' by (simp add: pair_inv_def)
qed

lemma backend_not_ignored: "c_tag c = ''backend'' \<Longrightarrow> c_tag c \<notin> ignored_tags"
  by (simp add: ignored_tags_def)

lemma step_client_ref:
  assumes fds: "fc \<noteq> 0" "fc \<noteq> fb"
    and I: "pair_inv agg fc fb (Running, bp, refd) rc rb D0 ds"
    and c: "c_fd c = fc" "c_client c" "\<not> c_backend c" "c_tag c = ''backend''"
      "backend_ref (c_data c) = Some fb"
  shows "pair_inv agg fc fb (Running, bp, True) rc
           (if bp = Idle \<and> \<not> refd then length (heap (tbl ds)) else rb) D0
           (snd (cb L callback agg nrc c ds))"
proof -
  let ?R = "RequestLog L c False (tbl ds)"
  let ?ds = "snd (cb L callback agg nrc c ds)"
  let ?rb = "if bp = Idle \<and> \<not> refd then length (heap (tbl ds)) else rb"
  from I have C: "client_part fc Running refd rc rb (tbl ds)"
    and B: "backend_part fb bp refd rb (tbl ds)"
    and D: "delivered_part agg Running bp rc rb D0 (delivered ds)"
    by (simp_all add: pair_inv_def)
  have bd: "lines (tbl ds) (c_fd c) = Some rc" and lt: "rc < length (heap (tbl ds))"
    and k: "cls (heap (tbl ds) ! rc) = ClientRequestLog"
    and f: "fd (heap (tbl ds) ! rc) \<noteq> 0" and a: "active (heap (tbl ds) ! rc)"
    and nc: "\<not> complete (heap (tbl ds) ! rc)"
    using C c fds by (simp_all add: client_part_def)
  have f0: "c_fd c \<noteq> 0" using fds c by simp
  note rs = RequestLog_ref_step[OF bd lt k c(2,3) f a c(4,5), of L]
  have nd: "tbl ?ds = snd ?R \<and> delivered ?ds = delivered ds"
  proof (rule cb_no_delivery[OF f0 backend_not_ignored[OF c(4)]])
    fix r assume "fst ?R = Inr (Some r)"
    then have "Some r = Some rc" by (rule RequestLog_fst_bound[OF bd])
    then show "\<not> complete (heap (snd ?R) ! r)" using rs nc lt by simp
  qed
  have D': "delivered_part agg Running bp rc ?rb D0 (delivered ?ds)"
    using D by (simp add: delivered_part_def nd)
  show ?thesis
  proof (cases "bp = Idle \<and> \<not> refd")
    case True
    then have un: "lines (tbl ds) fb = None" using B by (simp add: backend_part_def)
    have C': "client_part fc Running True rc ?rb (tbl ?ds)"
      using rs un C True lt c fds by (simp add: client_part_def nd)
    have B': "backend_part fb bp True ?rb (tbl ?ds)"
      using rs un True by (simp add: backend_part_def nd)
    show ?thesis using C' B' D' by (simp add: pair_inv_def)
  next
    case False
    then have bb: "lines (tbl ds) fb = Some rb" and lb: "rb < length (heap (tbl ds))"
      using B by (simp_all add: backend_part_def)
    have C': "client_part fc Running True rc ?rb (tbl ?ds)"
      using rs bb C False lt c by (auto simp add: client_part_def nd)
    have B': "backend_part fb bp True ?rb (tbl ?ds)"
      using rs bb lb B False by (auto simp add: backend_part_def nd)
    show ?thesis using C' B' D' by (simp add: pair_inv_def)
  qed
qed

lemma step_client_end:
  assumes fds: "fc \<noteq> 0" "fc \<noteq> fb"
    and I: "pair_inv agg fc fb (Running, bp, True) rc rb D0 ds"
    and c: "c_fd c = fc" "c_client c" "\<not> c_backend c" "c_tag c = ''reqend''"
      "reqend_ok L (c_data c)"
  shows "pair_inv agg fc fb (Finished, bp, True) rc rb D0 (snd (cb L callback agg nrc c ds))"
proof -
  let ?R = "RequestLog L c False (tbl ds)"
  let ?ds = "snd (cb L callback agg nrc c ds)"
  from I have C: "client_part fc Running True rc rb (tbl ds)"
    and B: "backend_part fb bp True rb (tbl ds)"
    and D: "delivered_part agg Running bp rc rb D0 (delivered ds)"
    by (simp_all add: pair_inv_def)
  have bd: "lines (tbl ds) fc = Some rc" and lt: "rc < length (heap (tbl ds))"
    and k: "cls (heap (tbl ds) ! rc) = ClientRequestLog"
    and f: "fd (heap (tbl ds) ! rc) = fc" and a: "active (heap (tbl ds) ! rc)"
    and br: "backend_request (heap (tbl ds) ! rc) = Some rb"
    using C by (simp_all add: client_part_def)
  have f0: "c_fd c \<noteq> 0" using fds c by simp
  note re = RequestLog_reqend_bound[OF bd lt k f fds(1) a c(1,2,4,5)]
  have ch: "chunks (heap (snd ?R) ! rc) \<noteq> []" using re by simp
  have nd: "tbl ?ds = snd ?R \<and> delivered ?ds = delivered ds @ (if agg \<longrightarrow> True then [rc] else [])"
    using re ch by (intro cb_delivery[OF f0 reqend_not_ignored[OF c(4)], where b = "c_backend c"]) simp_all
  have C': "client_part fc Finished True rc rb (tbl ?ds)"
    using re lt br by (simp add: client_part_def nd)
  have B': "backend_part fb bp True rb (tbl ?ds)"
  proof -
    have "cls (heap (tbl ds) ! rb) = BackendRequestLog"
      using B by (auto simp add: backend_part_def)
    then have "rb \<noteq> rc" using k by auto
    then have "heap (tbl ?ds) ! rb = heap (tbl ds) ! rb" using re by (simp add: nd)
    then show ?thesis using B re fds by (simp add: backend_part_def nd)
  qed
  have D': "delivered_part agg Finished bp rc rb D0 (delivered ?ds)"
    using D by (auto simp add: delivered_part_def nd)
  show ?thesis using C' B' D' by (simp add: pair_inv_def)
qed


lemma backendopen_not_ignored: "c_tag c = ''backendopen'' \<Longrightarrow> c_tag c \<notin> ignored_tags"
  by (simp add: ignored_tags_def)

lemma step_backend_start:
  assumes fds: "fb \<noteq> 0" "fc \<noteq> fb"
    and I: "pair_inv agg fc fb (cp, Idle, refd) rc rb D0 ds"
    and c: "c_fd c = fb" "c_backend c" "\<not> c_client c" "c_tag c = ''backendopen''"
  shows "pair_inv agg fc fb (cp, Running, refd) rc
           (if refd then rb else length (heap (tbl ds))) D0
           (snd (cb L callback agg nrc c ds))"
proof -
  let ?R = "RequestLog L c False (tbl ds)"
  let ?ds = "snd (cb L callback agg nrc c ds)"
  let ?rb = "if refd then rb else length (heap (tbl ds))"
  from I have C: "client_part fc cp refd rc rb (tbl ds)"
    and B: "backend_part fb Idle refd rb (tbl ds)"
    and D: "delivered_part agg cp Idle rc rb D0 (delivered ds)"
    by (simp_all add: pair_inv_def)
  have f0: "c_fd c \<noteq> 0" using fds c by simp
  have st: "is_start c" using c by (simp add: is_start_def)
  have ne: "\<not> is_end c" using st by (rule start_not_end)
  have ni: "c_tag c \<notin> ignored_tags" by (rule backendopen_not_ignored[OF c(4)])
  have D': "delivered_part agg cp Running rc ?rb D0 (delivered ds)"
    using D by (simp add: delivered_part_def)
  show ?thesis
  proof (cases refd)
    case False
    then have un: "lines (tbl ds) (c_fd c) = None" using B c by (simp add: backend_part_def)
    have role: "c_client c \<or> c_backend c" using c by simp
    note ns = RequestLog_new_start[OF un f0 st, of L]
    have nd: "tbl ?ds = snd ?R \<and> delivered ?ds = delivered ds"
    proof (rule cb_no_delivery[OF f0 ni])
      fix r assume "fst ?R = Inr (Some r)"
      then have "Some r = Some (length (heap (tbl ds)))"
        by (rule RequestLog_fst_unbound[OF un role])
      then show "\<not> complete (heap (snd ?R) ! r)" using ns by simp
    qed
    have C': "client_part fc cp refd rc ?rb (tbl ?ds)"
    proof -
      have "client_part fc cp refd rc rb (tbl ?ds)"
      proof (rule client_part_frame[OF C])
        show "lines (tbl ?ds) fc = lines (tbl ds) fc" using ns c fds by (simp add: nd)
        show "length (heap (tbl ds)) \<le> length (heap (tbl ?ds))" using ns by (simp add: nd)
        show "cp \<noteq> Idle \<longrightarrow> heap (tbl ?ds) ! rc = heap (tbl ds) ! rc"
          using C ns by (cases cp) (auto simp add: client_part_def nd)
      qed
      then show ?thesis using False by (cases cp) (auto simp add: client_part_def)
    qed
    have B': "backend_part fb Running refd ?rb (tbl ?ds)"
      using ns c False by (simp add: backend_part_def nd)
    show ?thesis using C' B' D' False by (simp add: pair_inv_def nd)
  next
    case True
    then have bd: "lines (tbl ds) (c_fd c) = Some rb" and lt: "rb < length (heap (tbl ds))"
      and k: "cls (heap (tbl ds) ! rb) = (if c_client c then ClientRequestLog else BackendRequestLog)"
      and f: "fd (heap (tbl ds) ! rb) = c_fd c"
      and nc: "\<not> complete (heap (tbl ds) ! rb)"
      using B c by (simp_all add: backend_part_def)
    have role: "c_client c \<or> c_backend c" using c by simp
    have acc: "active (heap (tbl ds) ! rb) \<or> is_start c" using st by simp
    have tg: "\<not> c_client c \<or> c_tag c \<noteq> ''backend''" using c by simp
    note bs = RequestLog_bound_step[OF bd lt role k f f0 acc tg, of L]
    have nd: "tbl ?ds = snd ?R \<and> delivered ?ds = delivered ds"
    proof (rule cb_no_delivery[OF f0 ni])
      fix r assume "fst ?R = Inr (Some r)"
      then have "Some r = Some rb" by (rule RequestLog_fst_bound[OF bd])
      then show "\<not> complete (heap (snd ?R) ! r)" using bs nc ne by simp
    qed
    have C': "client_part fc cp refd rc ?rb (tbl ?ds)"
    proof -
      have "client_part fc cp refd rc rb (tbl ?ds)"
      proof (rule client_part_frame[OF C])
        show "lines (tbl ?ds) fc = lines (tbl ds) fc" using bs c by (simp add: nd)
        show "length (heap (tbl ds)) \<le> length (heap (tbl ?ds))" using bs by (simp add: nd)
        show "cp \<noteq> Idle \<longrightarrow> heap (tbl ?ds) ! rc = heap (tbl ds) ! rc"
        proof
          assume "cp \<noteq> Idle"
          then have "cls (heap (tbl ds) ! rc) = ClientRequestLog"
            using C by (cases cp) (auto simp add: client_part_def)
          then have "rc \<noteq> rb" using k c by auto
          then show "heap (tbl ?ds) ! rc = heap (tbl ds) ! rc" using bs by (simp add: nd)
        qed
      qed
      then show ?thesis using True by simp
    qed
    have B': "backend_part fb Running refd ?rb (tbl ?ds)"
      using bs bd lt k f c True ne nc by (simp add: backend_part_def nd)
    show ?thesis using C' B' D' True by (simp add: pair_inv_def nd)
  qed
qed

lemma step_backend_bound:
  assumes fds: "fb \<noteq> 0" "fc \<noteq> fb"
    and I: "pair_inv agg fc fb (cp, Running, refd) rc rb D0 ds"
    and c: "c_fd c = fb" "c_backend c" "\<not> c_client c" "c_tag c \<notin> ignored_tags"
  shows "pair_inv agg fc fb (cp, if is_end c then Finished else Running, refd) rc rb D0
           (snd (cb L callback agg nrc c ds))"
proof -
  let ?R = "RequestLog L c False (tbl ds)"
  let ?ds = "snd (cb L callback agg nrc c ds)"
  let ?bp = "if is_end c then Finished else Running"
  from I have C: "client_part fc cp refd rc rb (tbl ds)"
    and B: "backend_part fb Running refd rb (tbl ds)"
    and D: "delivered_part agg cp Running rc rb D0 (delivered ds)"
    by (simp_all add: pair_inv_def)
  have f0: "c_fd c \<noteq> 0" using fds c by simp
  have bd: "lines (tbl ds) (c_fd c) = Some rb" and lt: "rb < length (heap (tbl ds))"
    and k: "cls (heap (tbl ds) ! rb) = (if c_client c then ClientRequestLog else BackendRequestLog)"
    and f: "fd (heap (tbl ds) ! rb) = c_fd c"
    and a: "active (heap (tbl ds) ! rb)"
    and nc: "\<not> complete (heap (tbl ds) ! rb)"
    using B c by (simp_all add: backend_part_def)
  have role: "c_client c \<or> c_backend c" using c by simp
  have acc: "active (heap (tbl ds) ! rb) \<or> is_start c" using a by simp
  have tg: "\<not> c_client c \<or> c_tag c \<noteq> ''backend''" using c by simp
  note bs = RequestLog_bound_step[OF bd lt role k f f0 acc tg, of L]
  have nd: "tbl ?ds = snd ?R \<and>
      delivered ?ds = delivered ds @ (if is_end c \<and> \<not> agg then [rb] else [])"
  proof (cases "is_end c")
    case False
    have "tbl ?ds = snd ?R \<and> delivered ?ds = delivered ds"
    proof (rule cb_no_delivery[OF f0 c(4)])
      fix r assume "fst ?R = Inr (Some r)"
      then have "Some r = Some rb" by (rule RequestLog_fst_bound[OF bd])
      then show "\<not> complete (heap (snd ?R) ! r)" using bs nc False by simp
    qed
    then show ?thesis using False by simp
  next
    case True
    then have tag: "c_tag c = ''backendclose'' \<or> c_tag c = ''backendreuse''"
      using c by (simp add: is_end_def)
    have k2: "cls (heap (tbl ds) ! rb) = BackendRequestLog" using k c by simp
    have f2: "fd (heap (tbl ds) ! rb) \<noteq> 0" using f f0 by simp
    have fr: "fst ?R = Inr (Some rb)"
      by (rule RequestLog_backend_end[OF bd lt k2 c(2,3) f2 a tag])
    have ch: "chunks (heap (snd ?R) ! rb) \<noteq> []" using bs fr by simp
    have "tbl ?ds = snd ?R \<and>
        delivered ?ds = delivered ds @ (if agg \<longrightarrow> c_client c then [rb] else [])"
      using bs fr ch True
      by (intro cb_delivery[OF f0 c(4) fr, where b = "c_backend c"]) simp_all
    then show ?thesis using True c by simp
  qed
  have C': "client_part fc cp refd rc rb (tbl ?ds)"
  proof (rule client_part_frame[OF C])
    show "lines (tbl ?ds) fc = lines (tbl ds) fc" using bs c by (simp add: nd)
    show "length (heap (tbl ds)) \<le> length (heap (tbl ?ds))" using bs by (simp add: nd)
    show "cp \<noteq> Idle \<longrightarrow> heap (tbl ?ds) ! rc = heap (tbl ds) ! rc"
    proof
      assume "cp \<noteq> Idle"
      then have "cls (heap (tbl ds) ! rc) = ClientRequestLog"
        using C by (cases cp) (auto simp add: client_part_def)
      then have "rc \<noteq> rb" using k c by auto
      then show "heap (tbl ?ds) ! rc = heap (tbl ds) ! rc" using bs by (simp add: nd)
    qed
  qed
  have B': "backend_part fb ?bp refd rb (tbl ?ds)"
    using bs bd lt k f c nc by (simp add: backend_part_def nd)
  have D': "delivered_part agg cp ?bp rc rb D0 (delivered ?ds)"
    using D by (auto simp add: delivered_part_def nd)
  show ?thesis using C' B' D' by (simp add: pair_inv_def)
qed

lemma pair_step_inv:
  assumes fds: "fc \<noteq> 0" "fb \<noteq> 0" "fc \<noteq> fb"
    and I: "pair_inv agg fc fb s rc rb D0 ds"
    and S: "pair_step L fc fb s c = Some s'"
  shows "\<exists>rc' rb'. pair_inv agg fc fb s' rc' rb' D0 (snd (cb L callback agg nrc c ds))"
proof -
  obtain cp bp refd where s: "s = (cp, bp, refd)" by (cases s)
  show ?thesis
  proof (cases "c_fd c = 0 \<or> c_tag c \<in> ignored_tags")
    case True
    then have "s' = s" using S by (simp add: pair_step_def s)
    then show ?thesis using step_skip[OF I True] by blast
  next
    case False
    then have ni: "c_tag c \<notin> ignored_tags" by simp
    show ?thesis
    proof (cases "c_fd c = fc \<and> c_client c \<and> \<not> c_backend c")
      case cl: True
      show ?thesis
      proof (cases cp)
        case Idle
        then have "c_tag c = ''reqstart''" and "s' = (Running, bp, refd)"
          using S False cl by (simp_all add: pair_step_def s split: if_splits)
        then show ?thesis
          using step_client_start[OF fds(1,3) I[unfolded s Idle], of c L callback nrc] cl by blast
      next
        case Running
        consider (e) "c_tag c = ''reqend''" | (b) "c_tag c = ''backend''"
          | (o) "c_tag c \<noteq> ''reqend''" "c_tag c \<noteq> ''backend''" by blast
        then show ?thesis
        proof cases
          case e
          then have rf: "refd" and ok: "reqend_ok L (c_data c)" and s': "s' = (Finished, bp, True)"
            using S False cl Running by (simp_all add: pair_step_def s split: if_splits)
          have I': "pair_inv agg fc fb (Running, bp, True) rc rb D0 ds"
            using I s Running rf by simp
          show ?thesis
            using step_client_end[OF fds(1,3) I' _ _ _ e ok, of callback nrc] cl s' by blast
        next
          case b
          then have "backend_ref (c_data c) = Some fb" and "s' = (Running, bp, True)"
            using S False cl Running by (simp_all add: pair_step_def s split: if_splits)
          then show ?thesis
            using step_client_ref[OF fds(1,3) I[unfolded s Running] _ _ _ b, of L callback nrc]
              cl by blast
        next
          case o
          then have "s' = (Running, bp, refd)"
            using S False cl Running by (simp add: pair_step_def s split: if_splits)
          then show ?thesis
            using step_client_mid[OF fds(1,3) I[unfolded s Running] _ _ _ ni o, of L callback nrc]
              cl by blast
        qed
      next
        case Finished
        then show ?thesis using S False cl by (simp add: pair_step_def s)
      qed
    next
      case ncl: False
      then have bk: "c_fd c = fb" "c_backend c" "\<not> c_client c"
        using S False by (simp_all add: pair_step_def s split: if_splits)
      show ?thesis
      proof (cases bp)
        case Idle
        then have t: "c_tag c = ''backendopen''" and "s' = (cp, Running, refd)"
          using S False ncl bk by (simp_all add: pair_step_def s split: if_splits)
        then show ?thesis
          using step_backend_start[OF fds(2,3) I[unfolded s Idle] bk t, of L callback nrc]
          by blast
      next
        case Running
        have "s' = (cp, if is_end c then Finished else Running, refd)"
          using S False ncl bk Running
          by (auto simp add: pair_step_def s is_end_def split: if_splits)
        then show ?thesis
          using step_backend_bound[OF fds(2,3) I[unfolded s Running] bk ni, of L callback nrc]
          by blast
      next
        case Finished
        then show ?thesis using S False ncl bk by (simp add: pair_step_def s)
      qed
    qed
  qed
qed

lemma pair_run_inv:
  assumes fds: "fc \<noteq> 0" "fb \<noteq> 0" "fc \<noteq> fb"
  shows "pair_inv agg fc fb s rc rb D0 ds \<Longrightarrow> pair_run L fc fb s cs = Some s' \<Longrightarrow>
    \<exists>rc' rb'. pair_inv agg fc fb s' rc' rb' D0 (dispatch_requests L callback agg nrc cs ds)"
proof (induction cs arbitrary: s rc rb ds)
  case Nil
  then show ?case by (auto simp add: dispatch_requests_Nil)
next
  case (Cons c cs)
  from Cons.prems(2) obtain s1 where s1: "pair_step L fc fb s c = Some s1"
    and r: "pair_run L fc fb s1 cs = Some s'"
    by (auto split: option.splits)
  from pair_step_inv[OF fds Cons.prems(1) s1, of callback nrc]
  obtain rc1 rb1 where "pair_inv agg fc fb s1 rc1 rb1 D0 (snd (cb L callback agg nrc c ds))"
    by blast
  from Cons.IH[OF this r] show ?case by (simp add: dispatch_requests_Cons)
qed

section \<open>What a fragment changes on a log\<close>

lemma Backend_on_append_chunk_name:
  "backend_name (snd (BackendRequestLog_on_append_chunk chunk self)) =
     (if c_tag chunk = ''backendopen'' \<or> c_tag chunk = ''backendreuse''
      then Some (hd (split CHR '' '' (c_data chunk))) else backend_name self)"
proof -
  obtain res self' where eq: "on_append_chunk chunk self = (res, self')"
    by (cases "on_append_chunk chunk self")
  note fr = on_append_chunk_frame[of chunk self, unfolded eq snd_conv]
  have np: "c_tag chunk = ''backendopen'' \<or> c_tag chunk = ''backendreuse'' \<Longrightarrow> res = Inr ()"
    using on_append_chunk_no_parse[of chunk self] by (auto simp add: eq)
  show ?thesis
    using np
    by (cases res)
       (auto simp add: BackendRequestLog_on_append_chunk_def eq Let_def fr split: option.split)
qed

lemma add_chunk_backend_name:
  assumes "i < length (heap st)" and "\<not> c_client chunk"
  shows "backend_name (heap (snd (add_chunk L r chunk st)) ! i) =
     (if i = r \<and> cls (heap st ! r) = BackendRequestLog \<and> fd (heap st ! r) \<noteq> 0 \<and>
         (active (heap st ! r) \<or> is_start chunk) \<and>
         (c_tag chunk = ''backendopen'' \<or> c_tag chunk = ''backendreuse'')
      then Some (hd (split CHR '' '' (c_data chunk))) else backend_name (heap st ! i))"
proof (cases "i = r \<and> cls (heap st ! r) = BackendRequestLog \<and> fd (heap st ! r) \<noteq> 0 \<and>
         (active (heap st ! r) \<or> is_start chunk)")
  case False
  show ?thesis
  proof (cases "fd (heap st ! r) = 0 \<or> (\<not> active (heap st ! r) \<and> \<not> is_start chunk)")
    case True
    then show ?thesis by (auto simp add: add_chunk_skip)
  next
    case acc: False
    with False have "i \<noteq> r \<or> cls (heap st ! r) = ClientRequestLog"
      by (cases "cls (heap st ! r)") auto
    then show ?thesis using add_chunk_frame[OF assms(1), of L r chunk] by auto
  qed
next
  case True
  then have ir: "i = r" and k: "cls (heap st ! r) = BackendRequestLog"
    and f0: "fd (heap st ! r) \<noteq> 0" and a: "active (heap st ! r) \<or> is_start chunk"
    by auto
  have i2: "r < length (heap (before_append r chunk st))"
    using assms ir by (simp add: before_append_store)
  have k2: "cls (heap (before_append r chunk st) ! r) = BackendRequestLog"
    using k assms ir by (simp add: before_append_heap[OF a])
  have bn: "backend_name (heap (before_append r chunk st) ! r) = backend_name (heap st ! r)"
    using assms ir by (simp add: before_append_heap[OF a])
  show ?thesis
    using True i2 assms(2) f0 a
    by (auto simp add: add_chunk_snd call_store k2 heap_upd Backend_on_append_chunk_name bn)
qed

lemma RequestLog_backend_name:
  assumes "i < length (heap st)"
  shows "backend_name (heap (snd (RequestLog L chunk act st)) ! i) =
     (if lines st (c_fd chunk) = Some i \<and> \<not> c_client chunk \<and>
         cls (heap st ! i) = BackendRequestLog \<and> fd (heap st ! i) \<noteq> 0 \<and>
         (active (heap st ! i) \<or> is_start chunk) \<and>
         (c_tag chunk = ''backendopen'' \<or> c_tag chunk = ''backendreuse'')
      then Some (hd (split CHR '' '' (c_data chunk))) else backend_name (heap st ! i))"
proof (cases "c_client chunk")
  case True
  then show ?thesis using RequestLog_frame[OF assms, of L chunk act] by simp
next
  case nc: False
  show ?thesis
  proof (cases "lines st (c_fd chunk)")
    case None
    let ?s = "bind_new BackendRequestLog chunk act st"
    have i2: "i < length (heap ?s)" using assms by (simp add: bind_new_store)
    show ?thesis
      using nc None assms add_chunk_backend_name[OF i2 nc, of L "length (heap st)"]
      by (simp add: RequestLog_unbound snd_case_some bind_new_store)
  next
    case (Some r)
    show ?thesis
      using nc Some add_chunk_backend_name[OF assms nc, of L r]
      by (cases "cls (heap st ! r)") (auto simp add: RequestLog_bound snd_case_some)
  qed
qed

lemma on_backend_kept:
  assumes "i \<noteq> r" and "i < length (heap st)"
  shows "heap (snd (on_backend r d st)) ! i =
           (heap st ! i)\<lparr> director_name := director_name (heap (snd (on_backend r d st)) ! i) \<rparr>"
  using assms
  by (simp add: on_backend_def set_director_def Let_def heap_upd length_heap_upd nth_append
      split: list.split option.split)

lemma on_backend_lines_old:
  assumes "lines (snd (on_backend r d st)) f = Some x" and "x < length (heap st)"
  shows "lines st f = Some x"
  using assms
  by (auto simp add: on_backend_def set_director_def Let_def lines_upd
      split: list.splits option.splits if_splits)

lemma Client_on_append_chunk_kept:
  assumes "i \<noteq> r" and "i < length (heap st)"
  shows "heap (snd (ClientRequestLog_on_append_chunk L r chunk st)) ! i =
           (heap st ! i)\<lparr> director_name :=
              director_name (heap (snd (ClientRequestLog_on_append_chunk L r chunk st)) ! i) \<rparr>"
proof (cases "c_tag chunk = ''backend''")
  case True
  let ?s = "upd r (\<lambda>_. snd (on_append_chunk chunk (heap st ! r))) st"
  have i2: "i < length (heap ?s)" using assms by (simp add: length_heap_upd)
  show ?thesis
    using on_backend_kept[OF assms(1) i2, of "c_data chunk"] assms(1)
    by (simp add: Client_backend_tag[OF True] heap_upd)
next
  case False
  then show ?thesis using Client_on_append_chunk_others[OF False, of i r L st] assms by simp
qed

lemma Client_on_append_chunk_lines_old:
  assumes "lines (snd (ClientRequestLog_on_append_chunk L r chunk st)) f = Some x"
    and "x < length (heap st)"
  shows "lines st f = Some x"
proof (cases "c_tag chunk = ''backend''")
  case True
  let ?s = "upd r (\<lambda>_. snd (on_append_chunk chunk (heap st ! r))) st"
  have x2: "x < length (heap ?s)" using assms by (simp add: length_heap_upd)
  show ?thesis
    using on_backend_lines_old[OF _ x2, of r "c_data chunk" f] assms(1)
    by (simp add: Client_backend_tag[OF True] lines_upd)
next
  case False
  then show ?thesis using Client_on_append_chunk_store[of st L r chunk f x] assms by simp
qed

lemma add_chunk_kept:
  assumes "i \<noteq> r" and "i < length (heap st)"
  shows "heap (snd (add_chunk L r chunk st)) ! i =
           (heap st ! i)\<lparr> director_name := director_name (heap (snd (add_chunk L r chunk st)) ! i) \<rparr>"
proof (cases "cls (heap st ! r) = BackendRequestLog \<or> c_tag chunk \<noteq> ''backend''")
  case True
  then show ?thesis using add_chunk_others[OF True, of L i] assms by simp
next
  case False
  then have k: "cls (heap st ! r) = ClientRequestLog" and t: "c_tag chunk = ''backend''"
    by (cases "cls (heap st ! r)"; simp)+
  show ?thesis
  proof (cases "fd (heap st ! r) = 0 \<or> (\<not> active (heap st ! r) \<and> \<not> is_start chunk)")
    case True
    then show ?thesis by (auto simp add: add_chunk_skip)
  next
    case acc: False
    then have a: "active (heap st ! r) \<or> is_start chunk" and f0: "fd (heap st ! r) \<noteq> 0"
      by auto
    let ?s = "before_append r chunk st"
    have ne: "\<not> is_end chunk" using t by (simp add: is_end_def)
    have k2: "cls (heap ?s ! r) = ClientRequestLog" using k by (simp add: before_append_heap[OF a])
    have i2: "i < length (heap ?s)" using assms by (simp add: before_append_store)
    have o: "heap ?s ! i = heap st ! i" using assms by (simp add: before_append_heap[OF a])
    have s: "snd (add_chunk L r chunk st) = snd (ClientRequestLog_on_append_chunk L r chunk ?s)"
      using a f0 ne by (auto simp add: add_chunk_snd call_client[OF k2])
    show ?thesis
      using Client_on_append_chunk_kept[OF assms(1) i2, of L chunk] by (simp add: s o)
  qed
qed

lemma add_chunk_lines_old:
  assumes "lines (snd (add_chunk L r chunk st)) f = Some x" and "x < length (heap st)"
  shows "lines st f = Some x"
proof (cases "cls (heap st ! r) = BackendRequestLog \<or> c_tag chunk \<noteq> ''backend''")
  case True
  then show ?thesis
    using add_chunk_others[OF True, of L x] assms by (auto split: if_splits)
next
  case False
  then have k: "cls (heap st ! r) = ClientRequestLog" and t: "c_tag chunk = ''backend''"
    by (cases "cls (heap st ! r)"; simp)+
  show ?thesis
  proof (cases "fd (heap st ! r) = 0 \<or> (\<not> active (heap st ! r) \<and> \<not> is_start chunk)")
    case True
    then show ?thesis using assms by (auto simp add: add_chunk_skip)
  next
    case acc: False
    then have a: "active (heap st ! r) \<or> is_start chunk" and f0: "fd (heap st ! r) \<noteq> 0"
      by auto
    let ?s = "before_append r chunk st"
    have ne: "\<not> is_end chunk" using t by (simp add: is_end_def)
    have k2: "cls (heap ?s ! r) = ClientRequestLog" using k by (simp add: before_append_heap[OF a])
    have x2: "x < length (heap ?s)" using assms by (simp add: before_append_store)
    have l: "lines ?s = lines st" using ne by (simp add: before_append_store)
    have s: "snd (add_chunk L r chunk st) = snd (ClientRequestLog_on_append_chunk L r chunk ?s)"
      using a f0 ne by (auto simp add: add_chunk_snd call_client[OF k2])
    show ?thesis
      using Client_on_append_chunk_lines_old[OF _ x2, of L r chunk f] assms(1) by (simp add: s l)
  qed
qed

lemma RequestLog_lines_old:
  assumes "lines (snd (RequestLog L chunk act st)) f = Some x" and "x < length (heap st)"
  shows "lines st f = Some x"
proof (cases "lines st (c_fd chunk)")
  case None
  show ?thesis
  proof (cases "c_client chunk \<or> c_backend chunk")
    case True
    let ?s = "bind_new (if c_client chunk then ClientRequestLog else BackendRequestLog) chunk act st"
    have x2: "x < length (heap ?s)" using assms by (simp add: bind_new_store)
    have "lines ?s f = Some x"
      using add_chunk_lines_old[OF _ x2, of L "length (heap st)" chunk f] assms(1) True
      by (simp add: RequestLog_unbound[OF None] snd_case_some)
    then show ?thesis using assms(2) by (auto simp add: bind_new_store split: if_splits)
  next
    case False
    then show ?thesis using assms by (simp add: RequestLog_unbound[OF None])
  qed
next
  case (Some r)
  show ?thesis
    using add_chunk_lines_old[OF _ assms(2), of L r chunk f] assms(1)
    by (auto simp add: RequestLog_bound[OF Some] snd_case_some split: if_splits)
qed

lemma RequestLog_self_skip:
  assumes "lines st (c_fd chunk) = Some i"
    and "fd (heap st ! i) = 0 \<or> (\<not> active (heap st ! i) \<and> \<not> is_start chunk)"
  shows "snd (RequestLog L chunk act st) = st"
  using assms by (simp add: RequestLog_bound[OF assms(1)] add_chunk_skip)

lemma RequestLog_kept:
  assumes "i < length (heap st)"
    and "\<not> (lines st (c_fd chunk) = Some i \<and> fd (heap st ! i) \<noteq> 0 \<and>
            (active (heap st ! i) \<or> is_start chunk))"
  shows "heap (snd (RequestLog L chunk act st)) ! i =
           (heap st ! i)\<lparr> director_name :=
              director_name (heap (snd (RequestLog L chunk act st)) ! i) \<rparr>"
proof (cases "lines st (c_fd chunk)")
  case None
  show ?thesis
  proof (cases "c_client chunk \<or> c_backend chunk")
    case True
    let ?s = "bind_new (if c_client chunk then ClientRequestLog else BackendRequestLog) chunk act st"
    have i2: "i < length (heap ?s)" and ne: "i \<noteq> length (heap st)"
      and o: "heap ?s ! i = heap st ! i"
      using assms(1) by (simp_all add: bind_new_store)
    show ?thesis
      using add_chunk_kept[OF ne i2, of L chunk] True
      by (simp add: RequestLog_unbound[OF None] snd_case_some o)
  next
    case False
    then show ?thesis by (simp add: RequestLog_unbound[OF None])
  qed
next
  case (Some r)
  show ?thesis
  proof (cases "r = i")
    case True
    then have "snd (RequestLog L chunk act st) = st"
      using assms(2) Some by (intro RequestLog_self_skip[of st chunk i]) auto
    then show ?thesis by simp
  next
    case False
    then have ne: "i \<noteq> r" by simp
    show ?thesis
      using add_chunk_kept[OF ne assms(1), of L chunk]
      by (simp add: RequestLog_bound[OF Some] snd_case_some)
  qed
qed

lemma RequestLog_kept_exact:
  assumes "i < length (heap st)"
    and "\<not> (lines st (c_fd chunk) = Some i \<and> fd (heap st ! i) \<noteq> 0 \<and>
            (active (heap st ! i) \<or> is_start chunk))"
    and "truthy (director_name (heap st ! i)) \<or> c_tag chunk \<noteq> ''backend''"
  shows "heap (snd (RequestLog L chunk act st)) ! i = heap st ! i"
proof (cases "truthy (director_name (heap st ! i))")
  case True
  have "director_name (heap (snd (RequestLog L chunk act st)) ! i) = director_name (heap st ! i)"
    using RequestLog_frame[OF assms(1), of L chunk act] True by simp
  then show ?thesis using RequestLog_kept[OF assms(1,2), of L act] by simp
next
  case False
  then have t: "c_tag chunk \<noteq> ''backend''" using assms(3) by simp
  show ?thesis
  proof (cases "lines st (c_fd chunk)")
    case None
    show ?thesis
    proof (cases "c_client chunk \<or> c_backend chunk")
      case True
      let ?s = "bind_new (if c_client chunk then ClientRequestLog else BackendRequestLog) chunk act st"
      have ne: "i \<noteq> length (heap st)" and o: "heap ?s ! i = heap st ! i"
        using assms(1) by (simp_all add: bind_new_store)
      have tg: "cls (heap ?s ! length (heap st)) = BackendRequestLog \<or> c_tag chunk \<noteq> ''backend''"
        using t by simp
      show ?thesis
        using add_chunk_others[OF tg, of L i] True ne
        by (simp add: RequestLog_unbound[OF None] snd_case_some o)
    next
      case False
      then show ?thesis by (simp add: RequestLog_unbound[OF None])
    qed
  next
    case (Some r)
    show ?thesis
    proof (cases "r = i")
      case True
      then have "snd (RequestLog L chunk act st) = st"
        using assms(2) Some by (intro RequestLog_self_skip[of st chunk i]) auto
      then show ?thesis by simp
    next
      case False
      have tg: "cls (heap st ! r) = BackendRequestLog \<or> c_tag chunk \<noteq> ''backend''"
        using t by simp
      show ?thesis
        using add_chunk_others[OF tg, of L i] False
        by (auto simp add: RequestLog_bound[OF Some] snd_case_some)
    qed
  qed
qed


lemma RequestLog_length_mono:
  "length (heap st) \<le> length (heap (snd (RequestLog L chunk act st)))"
proof (cases "lines st (c_fd chunk)")
  case None
  let ?s = "bind_new (if c_client chunk then ClientRequestLog else BackendRequestLog) chunk act st"
  show ?thesis
    using add_chunk_store_frame[of ?s L "length (heap st)" chunk, THEN conjunct1]
    by (simp add: RequestLog_unbound[OF None] snd_case_some bind_new_store)
next
  case (Some r)
  show ?thesis
    using add_chunk_store_frame[of st L r chunk, THEN conjunct1]
    by (simp add: RequestLog_bound[OF Some] snd_case_some)
qed

lemma ingest_kept:
  "i < length (heap st) \<Longrightarrow> \<not> active (heap st ! i) \<Longrightarrow>
   \<forall>c \<in> set cs. is_start c \<longrightarrow> lines st (c_fd c) \<noteq> Some i \<Longrightarrow>
   i < length (heap (ingest L cs st)) \<and>
   heap (ingest L cs st) ! i =
     (heap st ! i)\<lparr> director_name := director_name (heap (ingest L cs st) ! i) \<rparr> \<and>
   (truthy (director_name (heap st ! i)) \<or> (\<forall>c \<in> set cs. c_tag c \<noteq> ''backend'') \<longrightarrow>
      heap (ingest L cs st) ! i = heap st ! i)"
proof (induction cs arbitrary: st)
  case Nil
  then show ?case by simp
next
  case (Cons c cs)
  let ?s = "snd (RequestLog L c False st)"
  have na: "\<not> (lines st (c_fd c) = Some i \<and> fd (heap st ! i) \<noteq> 0 \<and>
            (active (heap st ! i) \<or> is_start c))"
    using Cons.prems(2,3) by auto
  note k = RequestLog_kept[OF Cons.prems(1) na, of L False]
  have i1: "i < length (heap ?s)"
    using Cons.prems(1) RequestLog_length_mono[of st L c False] by simp
  have a1: "\<not> active (heap ?s ! i)"
  proof
    assume "active (heap ?s ! i)"
    then have "active ((heap st ! i)\<lparr> director_name := director_name (heap ?s ! i) \<rparr>)"
      using k by simp
    then show False using Cons.prems(2) by simp
  qed
  have s1: "\<forall>x \<in> set cs. is_start x \<longrightarrow> lines ?s (c_fd x) \<noteq> Some i"
  proof (intro ballI impI notI)
    fix x assume "x \<in> set cs" and "is_start x" and "lines ?s (c_fd x) = Some i"
    then show False
      using RequestLog_lines_old[of L c False st "c_fd x" i] Cons.prems(1,3) by auto
  qed
  note ih = Cons.IH[OF i1 a1 s1]
  have e1: "heap (ingest L cs ?s) ! i =
      (heap ?s ! i)\<lparr> director_name := director_name (heap (ingest L cs ?s) ! i) \<rparr>"
    using ih by blast
  have A: "heap (ingest L (c # cs) st) ! i =
     (heap st ! i)\<lparr> director_name := director_name (heap (ingest L (c # cs) st) ! i) \<rparr>"
  proof -
    have "heap (ingest L cs ?s) ! i =
      ((heap st ! i)\<lparr> director_name := director_name (heap ?s ! i) \<rparr>)
         \<lparr> director_name := director_name (heap (ingest L cs ?s) ! i) \<rparr>"
      using e1 k by simp
    then show ?thesis by simp
  qed
  have B: "heap (ingest L (c # cs) st) ! i = heap st ! i"
    if h: "truthy (director_name (heap st ! i)) \<or> (\<forall>x \<in> set (c # cs). c_tag x \<noteq> ''backend'')"
  proof -
    have h1: "truthy (director_name (heap st ! i)) \<or> c_tag c \<noteq> ''backend''"
      using h by auto
    have x: "heap ?s ! i = heap st ! i"
      by (rule RequestLog_kept_exact[OF Cons.prems(1) na h1])
    have "truthy (director_name (heap ?s ! i)) \<or> (\<forall>x \<in> set cs. c_tag x \<noteq> ''backend'')"
      using h x by auto
    then have "heap (ingest L cs ?s) ! i = heap ?s ! i" using ih by blast
    then show ?thesis using x by simp
  qed
  show ?case using ih A B by simp
qed

lemma add_chunk_appended:
  assumes "r < length (heap st)" and "fd (heap st ! r) \<noteq> 0"
    and "active (heap st ! r) \<or> is_start c"
    and "\<not> (c_client c \<and> is_end c \<and> lines st (fd (heap st ! r)) = None)"
  shows "chunks (heap (snd (add_chunk L r c st)) ! r) = chunks (heap st ! r) @ [c] \<and>
         client (heap (snd (add_chunk L r c st)) ! r) = Some (c_client c) \<and>
         backend (heap (snd (add_chunk L r c st)) ! r) = Some (c_backend c)"
proof -
  have i2: "r < length (heap (before_append r c st))"
    using assms(1) by (simp add: before_append_store)
  show ?thesis
    using call_frame[OF i2, of L r c] assms
    by (auto simp add: add_chunk_snd before_append_heap[OF assms(3)])
qed

lemma retained_complete_step:
  assumes P: "retained_complete f r (tbl ds)"
    and c: "c_fd c = f" "c_backend c" "\<not> c_client c" "c_tag c \<notin> ignored_tags"
  shows "retained_complete f r (tbl (snd (cb L callback False nrc c ds))) \<and>
         (\<not> active (heap (tbl ds) ! r) \<and> c_tag c \<noteq> ''backendopen'' \<longrightarrow>
            delivered (snd (cb L callback False nrc c ds)) = delivered ds @ [r] \<and>
            tbl (snd (cb L callback False nrc c ds)) = tbl ds) \<and>
         (active (heap (tbl ds) ! r) \<or> c_tag c = ''backendopen'' \<longrightarrow>
            chunks (heap (tbl (snd (cb L callback False nrc c ds))) ! r)
              = chunks (heap (tbl ds) ! r) @ [c] \<and>
            active (heap (tbl (snd (cb L callback False nrc c ds))) ! r) = (\<not> is_end c) \<and>
            (case fst (RequestLog L c False (tbl ds)) of
               Inl e \<Rightarrow>
                 delivered (snd (cb L callback False nrc c ds)) = delivered ds \<and>
                 printed (snd (cb L callback False nrc c ds)) = printed ds @ [e]
             | Inr ev \<Rightarrow>
                 delivered (snd (cb L callback False nrc c ds)) = delivered ds @ [r]))"
proof -
  let ?st = "tbl ds"
  let ?R = "RequestLog L c False ?st"
  let ?ds = "snd (cb L callback False nrc c ds)"
  from P have f0: "f \<noteq> 0" and le: "lines ?st (c_fd c) = Some r" and lt: "r < length (heap ?st)"
    and k: "cls (heap ?st ! r) = BackendRequestLog" and fr: "fd (heap ?st ! r) = f"
    and co: "complete (heap ?st ! r)" and ch: "chunks (heap ?st ! r) \<noteq> []"
    and bk: "backend (heap ?st ! r) \<noteq> None"
    using c(1) by (simp_all add: retained_complete_def)
  have n0: "c_fd c \<noteq> 0" using c f0 by simp
  have fr0: "fd (heap ?st ! r) \<noteq> 0" using fr f0 by simp
  have rl: "?R = (case add_chunk L r c ?st of
                    (Inl e, s') \<Rightarrow> (Inl e, s') | (Inr _, s') \<Rightarrow> (Inr (Some r), s'))"
    using k c by (simp add: RequestLog_bound[OF le])
  show ?thesis
  proof (cases "\<not> active (heap ?st ! r) \<and> c_tag c \<noteq> ''backendopen''")
    case True
    then have ns: "\<not> is_start c" using c by (simp add: is_start_def)
    have sk: "add_chunk L r c ?st = (Inr False, ?st)"
      using True ns by (intro add_chunk_skip) simp
    have r2: "?R = (Inr (Some r), ?st)" by (simp add: rl sk)
    obtain b where b: "backend (heap ?st ! r) = Some b" using bk by auto
    have cbe: "cb L callback False nrc c ds = deliver callback r (ds\<lparr> tbl := ?st \<rparr>)"
      using cb_ingest[of c L ds r b callback nrc] n0 c(4) co b ch by (simp add: r2)
    have d: "delivered ?ds = delivered ds @ [r]" "tbl ?ds = ?st"
      using deliver_effect[of callback r "ds\<lparr> tbl := ?st \<rparr>"] by (simp_all add: cbe)
    show ?thesis using True P d by simp
  next
    case False
    then have a: "active (heap ?st ! r) \<or> is_start c" using c by (auto simp add: is_start_def)
    let ?s1 = "snd (add_chunk L r c ?st)"
    have s1: "snd ?R = ?s1" by (simp add: rl snd_case_some)
    have nk: "\<not> (c_client c \<and> is_end c \<and> lines ?st (fd (heap ?st ! r)) = None)"
      using c by simp
    note ap = add_chunk_appended[OF lt fr0 a nk, of L]
    note ac = add_chunk_accepted[OF lt fr0 a, of L]
    have tg: "cls (heap ?st ! r) = BackendRequestLog \<or> c_tag c \<noteq> ''backend''" using k by simp
    note ot = add_chunk_others[OF tg, of L r]
    note af = add_chunk_frame[OF lt, of L r c]
    have P1: "retained_complete f r ?s1"
      using ap ac ot af f0 le lt k fr co c by (simp add: retained_complete_def)
    have T: "tbl ?ds = ?s1 \<and>
        (case fst ?R of
           Inl e \<Rightarrow> delivered ?ds = delivered ds \<and> printed ?ds = printed ds @ [e]
         | Inr ev \<Rightarrow> delivered ?ds = delivered ds @ [r])"
    proof (cases "fst ?R")
      case (Inl e)
      then show ?thesis using cb_fault[OF n0 c(4) Inl, of callback False nrc] by (simp add: s1)
    next
      case (Inr ev)
      then have ev: "fst ?R = Inr (Some r)" using RequestLog_fst_bound[OF le Inr] by simp
      have cbe: "cb L callback False nrc c ds = deliver callback r (ds\<lparr> tbl := snd ?R \<rparr>)"
        using ap ac co
        by (intro cb_ingest[OF n0 c(4) ev, where b = "c_backend c"]) (simp_all add: s1)
      show ?thesis
        using deliver_effect[of callback r "ds\<lparr> tbl := snd ?R \<rparr>"] Inr by (simp add: cbe s1)
    qed
    have A: "retained_complete f r (tbl ?ds)" using P1 T by simp
    have C: "chunks (heap (tbl ?ds) ! r) = chunks (heap ?st ! r) @ [c]"
      "active (heap (tbl ?ds) ! r) = (\<not> is_end c)"
      using ap ac T by simp_all
    have B: "\<not> active (heap (tbl ds) ! r) \<and> c_tag c \<noteq> ''backendopen'' \<longrightarrow>
            delivered ?ds = delivered ds @ [r] \<and> tbl ?ds = tbl ds"
      using False by blast
    have E: "active (heap (tbl ds) ! r) \<or> c_tag c = ''backendopen'' \<longrightarrow>
            chunks (heap (tbl ?ds) ! r) = chunks (heap (tbl ds) ! r) @ [c] \<and>
            active (heap (tbl ?ds) ! r) = (\<not> is_end c) \<and>
            (case fst ?R of
               Inl e \<Rightarrow> delivered ?ds = delivered ds \<and> printed ?ds = printed ds @ [e]
             | Inr ev \<Rightarrow> delivered ?ds = delivered ds @ [r])"
      using C T by blast
    show ?thesis by (intro conjI A B E)
  qed
qed


lemma backend_end_delivered:
  assumes b: "f \<noteq> 0" "lines (tbl ds) f = Some r" "r < length (heap (tbl ds))"
      "cls (heap (tbl ds) ! r) = BackendRequestLog" "fd (heap (tbl ds) ! r) = f"
      "active (heap (tbl ds) ! r)"
    and e: "c_fd e = f" "c_backend e" "\<not> c_client e"
      "c_tag e = ''backendclose'' \<or> c_tag e = ''backendreuse''"
  shows "delivered (snd (cb L callback False nrc e ds)) = delivered ds @ [r] \<and>
         retained_complete f r (tbl (snd (cb L callback False nrc e ds))) \<and>
         \<not> active (heap (tbl (snd (cb L callback False nrc e ds))) ! r)"
proof -
  let ?st = "tbl ds"
  let ?R = "RequestLog L e False ?st"
  let ?ds = "snd (cb L callback False nrc e ds)"
  let ?s1 = "snd (add_chunk L r e ?st)"
  have le: "lines ?st (c_fd e) = Some r" using b e by simp
  have n0: "c_fd e \<noteq> 0" using b e by simp
  have fr0: "fd (heap ?st ! r) \<noteq> 0" using b by simp
  have a: "active (heap ?st ! r) \<or> is_start e" using b by simp
  have ie: "is_end e" using e by (simp add: is_end_def)
  have ig: "c_tag e \<notin> ignored_tags" using e(4) by (auto simp add: ignored_tags_def)
  have s1: "snd ?R = ?s1" using b e by (simp add: RequestLog_bound[OF le] snd_case_some)
  have ev: "fst ?R = Inr (Some r)"
    by (rule RequestLog_backend_end[OF le b(3,4) e(2,3) fr0 b(6) e(4)])
  have nk: "\<not> (c_client e \<and> is_end e \<and> lines ?st (fd (heap ?st ! r)) = None)"
    using e by simp
  note ap = add_chunk_appended[OF b(3) fr0 a nk, of L]
  note ac = add_chunk_accepted[OF b(3) fr0 a, of L]
  have tg: "cls (heap ?st ! r) = BackendRequestLog \<or> c_tag e \<noteq> ''backend''" using b by simp
  note ot = add_chunk_others[OF tg, of L r]
  note af = add_chunk_frame[OF b(3), of L r e]
  have P1: "retained_complete f r ?s1" "\<not> active (heap ?s1 ! r)"
    using ap ac ot af b e ie by (simp_all add: retained_complete_def)
  have cbe: "cb L callback False nrc e ds = deliver callback r (ds\<lparr> tbl := snd ?R \<rparr>)"
    using ap ac ie
    by (intro cb_ingest[OF n0 ig ev, where b = "c_backend e"]) (simp_all add: s1)
  have d: "delivered ?ds = delivered ds @ [r]" "tbl ?ds = ?s1"
    using deliver_effect[of callback r "ds\<lparr> tbl := snd ?R \<rparr>"] by (simp_all add: cbe s1)
  show ?thesis using P1 d by simp
qed

lemma on_reqend_fields:
  assumes "split CHR '' '' d = [x, s1, s2, d1, d2, d3]" and "reqend_ok L d"
    and "r < length (heap st)"
  shows "started_at (heap (snd (on_reqend L r d st)) ! r)
           = Option.bind (py_float L s1) (fromtimestamp L) \<and>
         completed_at (heap (snd (on_reqend L r d st)) ! r)
           = Option.bind (py_float L s2) (fromtimestamp L) \<and>
         req_start_delay (heap (snd (on_reqend L r d st)) ! r) = py_float L d1 \<and>
         processing_time (heap (snd (on_reqend L r d st)) ! r) = py_float L d2 \<and>
         deliver_time (heap (snd (on_reqend L r d st)) ! r) = py_float L d3"
proof -
  from assms(1,2) obtain t1 t2 x1 x2 x3 where
    v: "Option.bind (py_float L s1) (fromtimestamp L) = Some t1"
       "Option.bind (py_float L s2) (fromtimestamp L) = Some t2"
       "py_float L d1 = Some x1" "py_float L d2 = Some x2" "py_float L d3 = Some x3"
    by (auto simp add: reqend_ok_def)
  show ?thesis
    using assms(3)
    by (simp add: on_reqend_def assms(1) v Let_def heap_upd length_heap_upd)
qed

lemma Client_reqend_fields:
  assumes "c_tag chunk = ''reqend''"
    and "split CHR '' '' (c_data chunk) = [x, s1, s2, d1, d2, d3]"
    and "reqend_ok L (c_data chunk)" and "r < length (heap st)"
  shows "started_at (heap (snd (ClientRequestLog_on_append_chunk L r chunk st)) ! r)
           = Option.bind (py_float L s1) (fromtimestamp L) \<and>
         completed_at (heap (snd (ClientRequestLog_on_append_chunk L r chunk st)) ! r)
           = Option.bind (py_float L s2) (fromtimestamp L) \<and>
         req_start_delay (heap (snd (ClientRequestLog_on_append_chunk L r chunk st)) ! r)
           = py_float L d1 \<and>
         processing_time (heap (snd (ClientRequestLog_on_append_chunk L r chunk st)) ! r)
           = py_float L d2 \<and>
         deliver_time (heap (snd (ClientRequestLog_on_append_chunk L r chunk st)) ! r)
           = py_float L d3"
proof -
  obtain res self' where eq: "on_append_chunk chunk (heap st ! r) = (res, self')"
    by (cases "on_append_chunk chunk (heap st ! r)")
  have res: "res = Inr ()"
    using on_append_chunk_no_parse[of chunk "heap st ! r"] assms(1) by (simp add: eq)
  let ?s = "upd r (\<lambda>_. self') st"
  have r2: "r < length (heap ?s)" using assms(4) by (simp add: length_heap_upd)
  have "ClientRequestLog_on_append_chunk L r chunk st = on_reqend L r (c_data chunk) ?s"
    using assms(1) by (simp add: ClientRequestLog_on_append_chunk_def Let_def eq res)
  then show ?thesis using on_reqend_fields[OF assms(2,3) r2] by simp
qed

lemma RequestLog_reqend_timing:
  assumes "lines st g = Some n" and "n < length (heap st)"
    and "cls (heap st ! n) = ClientRequestLog" and "fd (heap st ! n) = g" and "g \<noteq> 0"
    and "active (heap st ! n)"
    and "c_fd c = g" and "c_client c" and "c_tag c = ''reqend''" and "reqend_ok L (c_data c)"
    and "split CHR '' '' (c_data c) = [x, s1, s2, d1, d2, d3]"
  shows "started_at (heap (snd (RequestLog L c False st)) ! n)
           = Option.bind (py_float L s1) (fromtimestamp L) \<and>
         completed_at (heap (snd (RequestLog L c False st)) ! n)
           = Option.bind (py_float L s2) (fromtimestamp L) \<and>
         req_start_delay (heap (snd (RequestLog L c False st)) ! n) = py_float L d1 \<and>
         processing_time (heap (snd (RequestLog L c False st)) ! n) = py_float L d2 \<and>
         deliver_time (heap (snd (RequestLog L c False st)) ! n) = py_float L d3"
proof -
  let ?b = "before_append n c st"
  have l: "lines st (c_fd c) = Some n" using assms by simp
  have f0: "fd (heap st ! n) \<noteq> 0" using assms by simp
  have acc: "active (heap st ! n) \<or> is_start c" using assms by simp
  have kb: "cls (heap ?b ! n) = ClientRequestLog"
    using assms(3) by (simp add: before_append_heap[OF acc])
  have nb: "n < length (heap ?b)" using assms(2) by (simp add: before_append_store)
  have s: "snd (RequestLog L c False st) = snd (ClientRequestLog_on_append_chunk L n c ?b)"
    using assms(1,3,4,8) f0 acc
    by (auto simp add: RequestLog_bound[OF l] snd_case_some add_chunk_snd call_client[OF kb])
  show ?thesis using Client_reqend_fields[OF assms(9,11,10) nb] by (simp add: s)
qed

lemma Client_on_append_chunk_ids:
  assumes "c_tag chunk \<noteq> ''reqstart''" and "c_tag chunk \<noteq> ''backend''"
  shows "id_attr (heap (snd (ClientRequestLog_on_append_chunk L r chunk st)) ! i)
           = id_attr (heap st ! i) \<and>
         client_ip (heap (snd (ClientRequestLog_on_append_chunk L r chunk st)) ! i)
           = client_ip (heap st ! i) \<and>
         client_port (heap (snd (ClientRequestLog_on_append_chunk L r chunk st)) ! i)
           = client_port (heap st ! i)"
proof -
  obtain res self' where eq: "on_append_chunk chunk (heap st ! r) = (res, self')"
    by (cases "on_append_chunk chunk (heap st ! r)")
  note ids = on_append_chunk_ids[of chunk "heap st ! r", unfolded eq snd_conv]
  show ?thesis
    using assms
    by (cases rule: client_tag_cases[of chunk])
       (simp_all add: ClientRequestLog_on_append_chunk_def Let_def eq heap_upd ids on_reqend_others
          split: sum.split option.split list.split)
qed

lemma cb_consumer_fault:
  assumes "c_fd c \<noteq> 0" and "c_tag c \<notin> ignored_tags"
    and "fst (RequestLog L c False (tbl ds)) = Inr (Some r)"
    and "complete (heap (snd (RequestLog L c False (tbl ds))) ! r)"
    and "backend (heap (snd (RequestLog L c False (tbl ds))) ! r) = Some b"
    and "\<not> (b \<and> chunks (heap (snd (RequestLog L c False (tbl ds))) ! r) = [])"
    and "agg \<longrightarrow> client (heap (snd (RequestLog L c False (tbl ds))) ! r) = Some True"
    and "callback (snd (RequestLog L c False (tbl ds))) r = Inl e"
  shows "cb L callback agg nrc c ds =
           (True, ds\<lparr> tbl := snd (RequestLog L c False (tbl ds)),
                       delivered := delivered ds @ [r], printed := printed ds @ [e] \<rparr>)"
proof -
  obtain res st where eq: "RequestLog L c False (tbl ds) = (res, st)"
    by (cases "RequestLog L c False (tbl ds)")
  have res: "res = Inr (Some r)" using assms(3) by (simp add: eq)
  show ?thesis
    using assms(1,2,4-8)
    by (auto simp add: cb_def eq res deliver_def Let_def)
qed

lemma cb_nonrequest_fault:
  assumes "c_fd c = 0" and "h c = Inl e"
  shows "cb L callback agg (Some h) c ds =
           (False, ds\<lparr> nonrequest := nonrequest ds @ [c], printed := printed ds @ [e] \<rparr>)"
  using assms by (simp add: cb_def)

lemma dispatch_requests_append:
  "dispatch_requests L callback agg nrc (xs @ ys) ds =
     dispatch_requests L callback agg nrc ys (dispatch_requests L callback agg nrc xs ds)"
  by (induction xs arbitrary: ds) (simp_all add: dispatch_requests_Cons dispatch_requests_Nil)


lemma inner_fragment_kept:
  assumes g: "g \<noteq> 0" and o: "open_client g n cs ip port xid (tbl ds)"
    and m: "inner_fragment g m"
  shows "open_client g n (cs @ (if c_tag m \<in> ignored_tags then [] else [m])) ip port xid
           (tbl (snd (cb L callback agg nrc m ds))) \<and>
         delivered (snd (cb L callback agg nrc m ds)) = delivered ds"
proof (cases "c_tag m \<in> ignored_tags")
  case True
  have "c_fd m \<noteq> 0" using g m by (simp add: inner_fragment_def)
  then show ?thesis using o True by (simp add: cb_ignored)
next
  case False
  let ?st = "tbl ds"
  let ?R = "RequestLog L m False ?st"
  let ?ds = "snd (cb L callback agg nrc m ds)"
  let ?s1 = "snd (ClientRequestLog_on_append_chunk L n m ?st)"
  from m have mf: "c_fd m = g" and mc: "c_client m" and mb: "\<not> c_backend m"
    and t1: "c_tag m \<noteq> ''reqstart''" and t2: "c_tag m \<noteq> ''reqend''"
    and t3: "c_tag m \<noteq> ''backend''"
    by (simp_all add: inner_fragment_def)
  from o have bd: "lines ?st (c_fd m) = Some n" and lt: "n < length (heap ?st)"
    and k: "cls (heap ?st ! n) = ClientRequestLog" and f: "fd (heap ?st ! n) = g"
    and a: "active (heap ?st ! n)" and nc: "\<not> complete (heap ?st ! n)"
    and ch: "chunks (heap ?st ! n) = cs" and ids: "id_attr (heap ?st ! n) = Some xid"
      "client_ip (heap ?st ! n) = Some ip" "client_port (heap ?st ! n) = Some port"
    using mf by (simp_all add: open_client_def)
  have f0: "fd (heap ?st ! n) \<noteq> 0" using f g by simp
  have n0: "c_fd m \<noteq> 0" using mf g by simp
  have ne: "\<not> is_end m" using mb t2 by (simp add: is_end_def)
  have s: "snd ?R = ?s1" by (rule RequestLog_running_client[OF bd k mc f0 a ne])
  note fr = Client_on_append_chunk_frame[OF lt, of L n m]
  note fl = Client_on_append_chunk_flags[OF lt, of L n m]
  note id = Client_on_append_chunk_ids[OF t1 t3, of L n ?st n]
  note sf = Client_on_append_chunk_store[of ?st L n m g n]
  have O: "open_client g n (cs @ [m]) ip port xid ?s1"
    using fr fl id sf t3 bd lt k f a nc ch ids mf by (simp add: open_client_def)
  have nd: "tbl ?ds = snd ?R \<and> delivered ?ds = delivered ds"
  proof (rule cb_no_delivery[OF n0 False])
    fix r assume "fst ?R = Inr (Some r)"
    then have "Some r = Some n" by (rule RequestLog_fst_bound[OF bd])
    then show "\<not> complete (heap (snd ?R) ! r)" using O by (simp add: s open_client_def)
  qed
  show ?thesis using O nd False by (simp add: s)
qed

lemma inner_fragments_kept:
  assumes g: "g \<noteq> 0"
  shows "open_client g n cs ip port xid (tbl ds) \<Longrightarrow> \<forall>m \<in> set ms. inner_fragment g m \<Longrightarrow>
    open_client g n (cs @ filter (\<lambda>m. c_tag m \<notin> ignored_tags) ms) ip port xid
      (tbl (dispatch_requests L callback agg nrc ms ds)) \<and>
    delivered (dispatch_requests L callback agg nrc ms ds) = delivered ds"
proof (induction ms arbitrary: cs ds)
  case Nil
  then show ?case by (simp add: dispatch_requests_Nil)
next
  case (Cons m ms)
  have im: "inner_fragment g m" and rest: "\<forall>x \<in> set ms. inner_fragment g x"
    using Cons.prems(2) by simp_all
  note st = inner_fragment_kept[OF g Cons.prems(1) im, of L callback agg nrc]
  note ih = Cons.IH[OF st[THEN conjunct1] rest]
  show ?case
    using ih st by (cases "c_tag m \<in> ignored_tags") (simp_all add: dispatch_requests_Cons)
qed


lemma client_transaction_delivered:
  assumes g: "g \<noteq> 0" "lines (tbl ds) g = None"
    and c1: "c_fd c1 = g" "c_client c1" "c_tag c1 = ''reqstart''"
      "split CHR '' '' (c_data c1) = [ip, port, xid]"
    and ms: "\<forall>m \<in> set ms. inner_fragment g m"
    and c2: "c_fd c2 = g" "c_client c2" "c_tag c2 = ''reqend''" "reqend_ok L (c_data c2)"
      "split CHR '' '' (c_data c2) = [x, s1, s2, d1, d2, d3]"
  shows "delivered (dispatch_requests L callback agg nrc (c1 # ms @ [c2]) ds)
           = delivered ds @ [length (heap (tbl ds))] \<and>
         lines (tbl (dispatch_requests L callback agg nrc (c1 # ms @ [c2]) ds)) g = None \<and>
         cls (heap (tbl (dispatch_requests L callback agg nrc (c1 # ms @ [c2]) ds)) !
               length (heap (tbl ds))) = ClientRequestLog \<and>
         complete (heap (tbl (dispatch_requests L callback agg nrc (c1 # ms @ [c2]) ds)) !
               length (heap (tbl ds))) \<and>
         \<not> active (heap (tbl (dispatch_requests L callback agg nrc (c1 # ms @ [c2]) ds)) !
               length (heap (tbl ds))) \<and>
         chunks (heap (tbl (dispatch_requests L callback agg nrc (c1 # ms @ [c2]) ds)) !
               length (heap (tbl ds)))
           = c1 # filter (\<lambda>m. c_tag m \<notin> ignored_tags) ms @ [c2] \<and>
         id_attr (heap (tbl (dispatch_requests L callback agg nrc (c1 # ms @ [c2]) ds)) !
               length (heap (tbl ds))) = Some xid \<and>
         client_ip (heap (tbl (dispatch_requests L callback agg nrc (c1 # ms @ [c2]) ds)) !
               length (heap (tbl ds))) = Some ip \<and>
         client_port (heap (tbl (dispatch_requests L callback agg nrc (c1 # ms @ [c2]) ds)) !
               length (heap (tbl ds))) = Some port \<and>
         started_at (heap (tbl (dispatch_requests L callback agg nrc (c1 # ms @ [c2]) ds)) !
               length (heap (tbl ds))) = Option.bind (py_float L s1) (fromtimestamp L) \<and>
         completed_at (heap (tbl (dispatch_requests L callback agg nrc (c1 # ms @ [c2]) ds)) !
               length (heap (tbl ds))) = Option.bind (py_float L s2) (fromtimestamp L) \<and>
         req_start_delay (heap (tbl (dispatch_requests L callback agg nrc (c1 # ms @ [c2]) ds)) !
               length (heap (tbl ds))) = py_float L d1 \<and>
         processing_time (heap (tbl (dispatch_requests L callback agg nrc (c1 # ms @ [c2]) ds)) !
               length (heap (tbl ds))) = py_float L d2 \<and>
         deliver_time (heap (tbl (dispatch_requests L callback agg nrc (c1 # ms @ [c2]) ds)) !
               length (heap (tbl ds))) = py_float L d3"
proof -
  let ?n = "length (heap (tbl ds))"
  let ?d2 = "snd (cb L callback agg nrc c1 ds)"
  let ?d3 = "dispatch_requests L callback agg nrc ms ?d2"
  let ?d4 = "snd (cb L callback agg nrc c2 ?d3)"
  let ?R1 = "RequestLog L c1 False (tbl ds)"
  let ?R2 = "RequestLog L c2 False (tbl ?d3)"
  let ?cs = "c1 # filter (\<lambda>m. c_tag m \<notin> ignored_tags) ms"
  have run: "dispatch_requests L callback agg nrc (c1 # ms @ [c2]) ds = ?d4"
    by (simp add: dispatch_requests_Cons dispatch_requests_append dispatch_requests_Nil)
  have n1: "c_fd c1 \<noteq> 0" and n2: "c_fd c2 \<noteq> 0" using g c1 c2 by simp_all
  note s1 = RequestLog_reqstart_new[OF g(2,1) c1, of L]
  have e1: "tbl ?d2 = snd ?R1 \<and> delivered ?d2 = delivered ds"
  proof (rule cb_no_delivery[OF n1 reqstart_not_ignored[OF c1(3)]])
    fix r assume "fst ?R1 = Inr (Some r)"
    then have "r = ?n" using s1 by simp
    then show "\<not> complete (heap (snd ?R1) ! r)" using s1 by simp
  qed
  have o2: "open_client g ?n [c1] ip port xid (tbl ?d2)"
    using s1 e1 by (simp add: open_client_def)
  note k3 = inner_fragments_kept[OF g(1) o2 ms, of L callback agg nrc]
  have o3: "open_client g ?n ?cs ip port xid (tbl ?d3)" and e3: "delivered ?d3 = delivered ds"
    using k3 e1 by simp_all
  from o3 have bd: "lines (tbl ?d3) g = Some ?n" and lt: "?n < length (heap (tbl ?d3))"
    and k: "cls (heap (tbl ?d3) ! ?n) = ClientRequestLog" and f: "fd (heap (tbl ?d3) ! ?n) = g"
    and a: "active (heap (tbl ?d3) ! ?n)" and ch: "chunks (heap (tbl ?d3) ! ?n) = ?cs"
    and ids: "id_attr (heap (tbl ?d3) ! ?n) = Some xid" "client_ip (heap (tbl ?d3) ! ?n) = Some ip"
      "client_port (heap (tbl ?d3) ! ?n) = Some port"
    by (simp_all add: open_client_def)
  note s2 = RequestLog_reqend_bound[OF bd lt k f g(1) a c2(1,2,3,4)]
  note t2 = RequestLog_reqend_timing[OF bd lt k f g(1) a c2]
  have ne: "chunks (heap (snd ?R2) ! ?n) \<noteq> []" using s2 by simp
  have e4: "tbl ?d4 = snd ?R2 \<and>
      delivered ?d4 = delivered ?d3 @ (if agg \<longrightarrow> True then [?n] else [])"
    using s2 ne
    by (intro cb_delivery[OF n2 reqend_not_ignored[OF c2(3)], where b = "c_backend c2"]) simp_all
  have D: "delivered ?d4 = delivered ds @ [?n]" using e4 e3 by simp
  have T: "tbl ?d4 = snd ?R2" using e4 by simp
  have F: "lines (snd ?R2) g = None" "cls (heap (snd ?R2) ! ?n) = ClientRequestLog"
    "complete (heap (snd ?R2) ! ?n)" "\<not> active (heap (snd ?R2) ! ?n)"
    "chunks (heap (snd ?R2) ! ?n) = ?cs @ [c2]"
    "id_attr (heap (snd ?R2) ! ?n) = Some xid" "client_ip (heap (snd ?R2) ! ?n) = Some ip"
    "client_port (heap (snd ?R2) ! ?n) = Some port"
    using s2 ch ids by simp_all
  show ?thesis
    unfolding run T using D F t2 by simp
qed

section \<open>Activation gating\<close>

text \<open>
  Claim C6. A fragment routed to a request log that is inactive, and that is not itself
  the start tag of its role, is discarded: \<open>add_chunk\<close> returns \<open>False\<close> and the store is
  left exactly as it was, so the fragment is not appended to \<open>chunks\<close> and no field of
  the log (or of any other log) is updated. The same holds for the factory when the
  descriptor is bound to such a log.
\<close>

theorem inactive_fragment_discarded:
  assumes "\<not> active (heap st ! r)" and "\<not> is_start chunk"
  shows "add_chunk L r chunk st = (Inr False, st) \<and>
         (lines st (c_fd chunk) = Some r \<longrightarrow> snd (RequestLog L chunk act st) = st)"
proof -
  have a: "add_chunk L r chunk st = (Inr False, st)"
    using assms by (simp add: add_chunk_def Let_def)
  have "snd (RequestLog L chunk act st) = st" if "lines st (c_fd chunk) = Some r"
    using that a by (simp add: RequestLog_def Let_def)
  with a show ?thesis by simp
qed

lemma stale_store_eval:
  "heap stale_store = [init ClientRequestLog 5 False]" "lines stale_store 5 = Some 0"
  by (simp_all add: stale_store_def RequestLog_def add_chunk_def client_chunk_def empty_store_def
      is_start_def init_def Let_def)

theorem inactive_fragment_discarded_witness:
  "\<not> active (heap stale_store ! 0) \<and> \<not> is_start (client_chunk 5 ''rxheader'' ''Host: a'') \<and>
   add_chunk sample_lib 0 (client_chunk 5 ''rxheader'' ''Host: a'') stale_store
     = (Inr False, stale_store) \<and>
   lines stale_store (c_fd (client_chunk 5 ''rxheader'' ''Host: a'')) = Some 0 \<and>
   snd (RequestLog sample_lib (client_chunk 5 ''rxheader'' ''Host: a'') False stale_store)
     = stale_store \<and>
   chunks (heap stale_store ! 0) = []"
proof -
  have h1: "\<not> active (heap stale_store ! 0)"
    by (simp add: stale_store_eval init_def)
  have h2: "\<not> is_start (client_chunk 5 ''rxheader'' ''Host: a'')"
    by (simp add: is_start_def client_chunk_def)
  have h3: "lines stale_store (c_fd (client_chunk 5 ''rxheader'' ''Host: a'')) = Some 0"
    by (simp add: stale_store_eval client_chunk_def)
  have h4: "chunks (heap stale_store ! 0) = []"
    by (simp add: stale_store_eval init_def)
  from inactive_fragment_discarded [OF h1 h2, of sample_lib False] h1 h2 h3 h4
  show ?thesis by simp
qed

section \<open>Descriptor reuse\<close>

text \<open>
  Claim C1, as stated, fails. Descriptor 7 is used by a backend transaction that
  completes and is then named by a client start fragment: no client log is created. The
  store still holds the backend log alone, and the dispatcher has printed the
  \<open>AssertionError\<close> of the factory.
\<close>

theorem reuse_counterexample:
  "length (heap (tbl reuse_run)) = 1 \<and> cls (heap (tbl reuse_run) ! 0) = BackendRequestLog \<and>
   printed reuse_run = [AssertionError] \<and> delivered reuse_run = [0]"
  by code_simp

text \<open>
  Claim C1, amended. A backend log stays bound to its descriptor when a backend-role
  fragment (the end tag included) is fed to it, and a client-role fragment on that
  descriptor then makes the factory raise \<open>AssertionError\<close>: no client log is created
  and the store, the backend log included, is left unchanged.
\<close>

theorem client_chunk_on_backend_descriptor:
  assumes "lines st (c_fd e) = Some r" and "r < length (heap st)"
    and "cls (heap st ! r) = BackendRequestLog" and "\<not> c_client e"
    and "c_client c" and "c_fd c = c_fd e"
  shows "lines (snd (RequestLog L e act st)) (c_fd e) = Some r \<and>
         cls (heap (snd (RequestLog L e act st)) ! r) = BackendRequestLog \<and>
         RequestLog L c act' (snd (RequestLog L e act st))
           = (Inl AssertionError, snd (RequestLog L e act st))"
proof -
  let ?st = "snd (RequestLog L e act st)"
  have s: "?st = snd (add_chunk L r e st)"
    using assms by (simp add: RequestLog_bound snd_case_some)
  have l: "lines ?st (c_fd e) = Some r"
    using assms add_chunk_store_frame[of st L r e] by (simp add: s)
  have c: "cls (heap ?st ! r) = BackendRequestLog"
    using assms add_chunk_frame[of r st L r e] by (simp add: s)
  have "RequestLog L c act' ?st = (Inl AssertionError, ?st)"
    using l c assms(5,6) by (simp add: RequestLog_bound failed_assert_backend)
  with l c show ?thesis by simp
qed

theorem client_chunk_on_backend_descriptor_witness:
  "lines backend_open_store (c_fd (backend_chunk 7 ''backendclose'' ''default'')) = Some 0 \<and>
   0 < length (heap backend_open_store) \<and>
   cls (heap backend_open_store ! 0) = BackendRequestLog \<and>
   \<not> c_client (backend_chunk 7 ''backendclose'' ''default'') \<and>
   c_client (client_chunk 7 ''reqstart'' ''10.0.0.9 4711 1001'') \<and>
   c_fd (client_chunk 7 ''reqstart'' ''10.0.0.9 4711 1001'')
     = c_fd (backend_chunk 7 ''backendclose'' ''default'') \<and>
   complete (heap (snd (RequestLog sample_lib (backend_chunk 7 ''backendclose'' ''default'') False
       backend_open_store)) ! 0) \<and>
   RequestLog sample_lib (client_chunk 7 ''reqstart'' ''10.0.0.9 4711 1001'') False
       (snd (RequestLog sample_lib (backend_chunk 7 ''backendclose'' ''default'') False
          backend_open_store))
     = (Inl AssertionError,
        snd (RequestLog sample_lib (backend_chunk 7 ''backendclose'' ''default'') False
          backend_open_store))"
proof -
  have h1: "lines backend_open_store (c_fd (backend_chunk 7 ''backendclose'' ''default'')) = Some 0"
    by code_simp
  have h2: "0 < length (heap backend_open_store)" by code_simp
  have h3: "cls (heap backend_open_store ! 0) = BackendRequestLog" by code_simp
  have h4: "\<not> c_client (backend_chunk 7 ''backendclose'' ''default'')" by code_simp
  have h5: "c_client (client_chunk 7 ''reqstart'' ''10.0.0.9 4711 1001'')" by code_simp
  have h6: "c_fd (client_chunk 7 ''reqstart'' ''10.0.0.9 4711 1001'')
     = c_fd (backend_chunk 7 ''backendclose'' ''default'')" by code_simp
  have h7: "complete (heap (snd (RequestLog sample_lib
      (backend_chunk 7 ''backendclose'' ''default'') False backend_open_store)) ! 0)"
    by code_simp
  from client_chunk_on_backend_descriptor [OF h1 h2 h3 h4 h5 h6, of sample_lib False False]
    h1 h2 h3 h4 h5 h6 h7
  show ?thesis by simp
qed

section \<open>Director and backend names\<close>

text \<open>
  Claim C8, as stated, fails for \<open>backend_name\<close>. A client reference creates the backend
  log of descriptor 7 with the name \<open>be1\<close>; the start tag of the backend's own stream
  then assigns the name again, from its payload.
\<close>

theorem backend_name_counterexample:
  "backend_name (heap referenced_store ! 1) = Some ''be1'' \<and>
   cls (heap referenced_store ! 1) = BackendRequestLog \<and>
   backend_name (heap (snd (RequestLog sample_lib
       (backend_chunk 7 ''backendopen'' ''default 10.0.0.1 80'') False referenced_store)) ! 1)
     = Some ''default''"
  by code_simp

text \<open>
  Claim C8, amended. No fragment given to the factory overwrites a \<open>director_name\<close>
  that is set to a non-empty string, on any log of the store; and no client-role
  fragment changes the \<open>backend_name\<close> of a log that exists already (the reference path
  sets it only on the log it creates). A \<open>backendopen\<close> or \<open>backendreuse\<close> fragment
  without the client role assigns \<open>backend_name\<close> the first word of its payload each
  time the backend log bound to its descriptor accepts it, that is, when the log is
  active or the fragment is the start tag; no other fragment changes \<open>backend_name\<close>.
\<close>

theorem director_name_set_once:
  assumes "i < length (heap st)"
  shows "(truthy (director_name (heap st ! i)) \<longrightarrow>
            director_name (heap (snd (RequestLog L chunk act st)) ! i)
              = director_name (heap st ! i)) \<and>
         (c_client chunk \<longrightarrow>
            backend_name (heap (snd (RequestLog L chunk act st)) ! i)
              = backend_name (heap st ! i)) \<and>
         backend_name (heap (snd (RequestLog L chunk act st)) ! i) =
           (if lines st (c_fd chunk) = Some i \<and> \<not> c_client chunk \<and>
               cls (heap st ! i) = BackendRequestLog \<and> fd (heap st ! i) \<noteq> 0 \<and>
               (active (heap st ! i) \<or> is_start chunk) \<and>
               (c_tag chunk = ''backendopen'' \<or> c_tag chunk = ''backendreuse'')
            then Some (hd (split CHR '' '' (c_data chunk)))
            else backend_name (heap st ! i))"
proof -
  note f = RequestLog_frame[OF assms, of L chunk act]
  note n = RequestLog_backend_name[OF assms, of L chunk act]
  show ?thesis
    by (intro conjI f[THEN conjunct2, THEN conjunct2, THEN conjunct2]
        f[THEN conjunct2, THEN conjunct2, THEN conjunct1] n)
qed

theorem director_name_set_once_witness:
  "1 < length (heap referenced_store) \<and>
   truthy (director_name (heap referenced_store ! 1)) \<and>
   c_client (client_chunk 5 ''backend'' ''7 other be2'') \<and>
   director_name (heap referenced_store ! 1) = Some ''dir'' \<and>
   backend_name (heap referenced_store ! 1) = Some ''be1'' \<and>
   director_name (heap (snd (RequestLog sample_lib (client_chunk 5 ''backend'' ''7 other be2'')
       False referenced_store)) ! 1) = Some ''dir'' \<and>
   backend_name (heap (snd (RequestLog sample_lib (client_chunk 5 ''backend'' ''7 other be2'')
       False referenced_store)) ! 1) = Some ''be1'' \<and>
   lines referenced_store (c_fd (backend_chunk 7 ''backendopen'' ''default 10.0.0.1 80'')) = Some 1 \<and>
   is_start (backend_chunk 7 ''backendopen'' ''default 10.0.0.1 80'') \<and>
   backend_name (heap (snd (RequestLog sample_lib
       (backend_chunk 7 ''backendopen'' ''default 10.0.0.1 80'') False referenced_store)) ! 1)
     = Some ''default'' \<and>
   backend_name (heap (snd (RequestLog sample_lib
       (backend_chunk 7 ''txurl'' ''/a'') False referenced_store)) ! 1) = Some ''be1''"
proof -
  let ?c = "client_chunk 5 ''backend'' ''7 other be2''"
  let ?o = "backend_chunk 7 ''backendopen'' ''default 10.0.0.1 80''"
  let ?u = "backend_chunk 7 ''txurl'' ''/a''"
  have h1: "1 < length (heap referenced_store)" by code_simp
  have h2: "truthy (director_name (heap referenced_store ! 1))" by code_simp
  have h3: "c_client ?c" by code_simp
  have h4: "director_name (heap referenced_store ! 1) = Some ''dir''" by code_simp
  have h5: "backend_name (heap referenced_store ! 1) = Some ''be1''" by code_simp
  have o1: "lines referenced_store (c_fd ?o) = Some 1" by code_simp
  have o2: "\<not> c_client ?o" "cls (heap referenced_store ! 1) = BackendRequestLog"
    "fd (heap referenced_store ! 1) \<noteq> 0" "is_start ?o"
    "c_tag ?o = ''backendopen''" by code_simp+
  have o3: "hd (split CHR '' '' (c_data ?o)) = ''default''" by code_simp
  have u1: "c_tag ?u \<noteq> ''backendopen''" "c_tag ?u \<noteq> ''backendreuse''" by code_simp+
  note A = director_name_set_once[OF h1, of sample_lib ?c False]
  note B = director_name_set_once[OF h1, of sample_lib ?o False, THEN conjunct2, THEN conjunct2]
  note C = director_name_set_once[OF h1, of sample_lib ?u False, THEN conjunct2, THEN conjunct2]
  have A': "director_name (heap (snd (RequestLog sample_lib ?c False referenced_store)) ! 1)
              = Some ''dir''"
    "backend_name (heap (snd (RequestLog sample_lib ?c False referenced_store)) ! 1) = Some ''be1''"
    using A[THEN conjunct1] A[THEN conjunct2, THEN conjunct1] h2 h3 h4 h5 by simp_all
  have B': "backend_name (heap (snd (RequestLog sample_lib ?o False referenced_store)) ! 1)
              = Some ''default''"
    using B o1 o2 o3 by simp
  have C': "backend_name (heap (snd (RequestLog sample_lib ?u False referenced_store)) ! 1)
              = Some ''be1''"
    using C u1 h5 by simp
  show ?thesis by (intro conjI h1 h2 h3 h4 h5 A' o1 o2(4) B' C')
qed

section \<open>What the factory returns\<close>

text \<open>
  Claim C3, as stated, fails. The start fragment of a client transaction on an unbound
  descriptor does not complete the log, and yet the factory returns the log, not
  \<open>None\<close>.
\<close>

theorem returns_incomplete_record_counterexample:
  "fst (RequestLog sample_lib (client_chunk 5 ''reqstart'' ''10.0.0.9 4711 1001'') False
          empty_store) = Inr (Some 0) \<and>
   \<not> complete (heap client_open_store ! 0)"
  by code_simp

text \<open>
  Claim C3, amended. For a fragment of role client or backend that the factory
  processes without raising, the factory returns the log bound to the fragment's
  descriptor (the one found in the table, or the one it has just created), whether or
  not the fragment completed it. Completion is read from the log: after the call the
  log is complete if and only if it was complete before or the fragment is an end tag
  accepted by an active log with a nonzero descriptor.
\<close>

theorem RequestLog_returns_record:
  assumes "c_client chunk \<or> c_backend chunk"
    and "fst (RequestLog L chunk act st) = Inr ev"
    and "\<forall>r. lines st (c_fd chunk) = Some r \<longrightarrow> r < length (heap st)"
  shows "(\<forall>r. lines st (c_fd chunk) = Some r \<longrightarrow>
            ev = Some r \<and>
            (complete (heap (snd (RequestLog L chunk act st)) ! r) \<longleftrightarrow>
               complete (heap st ! r) \<or>
               (fd (heap st ! r) \<noteq> 0 \<and> active (heap st ! r) \<and> is_end chunk))) \<and>
         (lines st (c_fd chunk) = None \<longrightarrow>
            ev = Some (length (heap st)) \<and>
            (complete (heap (snd (RequestLog L chunk act st)) ! length (heap st)) \<longleftrightarrow>
               c_fd chunk \<noteq> 0 \<and> act \<and> is_end chunk))"
proof (cases "lines st (c_fd chunk)")
  case None
  let ?k = "if c_client chunk then ClientRequestLog else BackendRequestLog"
  let ?s = "bind_new ?k chunk act st"
  let ?r = "length (heap st)"
  have ev: "ev = Some ?r"
    using assms(1,2)
    by (cases "fst (add_chunk L ?r chunk ?s)")
       (simp_all add: RequestLog_unbound[OF None] fst_case_some)
  have st': "snd (RequestLog L chunk act st) = snd (add_chunk L ?r chunk ?s)"
    using assms(1) by (simp add: RequestLog_unbound[OF None] snd_case_some)
  have r: "?r < length (heap ?s)" by (simp add: bind_new_store)
  have o: "heap ?s ! ?r = init ?k (c_fd chunk) act" by (simp add: bind_new_store)
  have "complete (heap (snd (add_chunk L ?r chunk ?s)) ! ?r) \<longleftrightarrow>
          c_fd chunk \<noteq> 0 \<and> act \<and> is_end chunk"
  proof (cases "c_fd chunk = 0 \<or> (\<not> act \<and> \<not> is_start chunk)")
    case True
    then have "add_chunk L ?r chunk ?s = (Inr False, ?s)"
      by (intro add_chunk_skip) (auto simp add: o init_def)
    then show ?thesis using True by (auto simp add: o init_def)
  next
    case False
    then have "complete (heap (snd (add_chunk L ?r chunk ?s)) ! ?r) =
                 (complete (heap ?s ! ?r) \<or> is_end chunk)"
      using add_chunk_accepted[OF r, of chunk L] by (auto simp add: o init_def)
    then show ?thesis using False start_not_end[of chunk] by (auto simp add: o init_def)
  qed
  with None ev st' show ?thesis by simp
next
  case (Some r)
  have r: "r < length (heap st)" using assms(3) Some by simp
  have na: "\<not> ((c_client chunk \<and> cls (heap st ! r) \<noteq> ClientRequestLog) \<or>
         (\<not> c_client chunk \<and> c_backend chunk \<and> cls (heap st ! r) \<noteq> BackendRequestLog))"
    using assms(2) by (auto simp add: RequestLog_bound[OF Some] split: if_splits)
  have ev: "ev = Some r"
    using assms(2) na
    by (cases "fst (add_chunk L r chunk st)")
       (auto simp add: RequestLog_bound[OF Some] fst_case_some)
  have st': "snd (RequestLog L chunk act st) = snd (add_chunk L r chunk st)"
    using na by (auto simp add: RequestLog_bound[OF Some] snd_case_some)
  have "complete (heap (snd (add_chunk L r chunk st)) ! r) \<longleftrightarrow>
          complete (heap st ! r) \<or> (fd (heap st ! r) \<noteq> 0 \<and> active (heap st ! r) \<and> is_end chunk)"
  proof (cases "fd (heap st ! r) = 0 \<or> (\<not> active (heap st ! r) \<and> \<not> is_start chunk)")
    case True
    then have "add_chunk L r chunk st = (Inr False, st)" by (rule add_chunk_skip)
    then show ?thesis using True by auto
  next
    case False
    then have "complete (heap (snd (add_chunk L r chunk st)) ! r) =
                 (complete (heap st ! r) \<or> is_end chunk)"
      using add_chunk_accepted[OF r, of chunk L] by auto
    then show ?thesis using False start_not_end[of chunk] by auto
  qed
  with Some ev st' show ?thesis by simp
qed

theorem RequestLog_returns_record_witness:
  "(c_client (client_chunk 5 ''reqstart'' ''10.0.0.9 4711 1001'') \<or>
    c_backend (client_chunk 5 ''reqstart'' ''10.0.0.9 4711 1001'')) \<and>
   fst (RequestLog sample_lib (client_chunk 5 ''reqstart'' ''10.0.0.9 4711 1001'') False
          (empty_store :: (string, string) store)) = Inr (Some 0) \<and>
   lines (empty_store :: (string, string) store)
      (c_fd (client_chunk 5 ''reqstart'' ''10.0.0.9 4711 1001'')) = None \<and>
   length (heap (empty_store :: (string, string) store)) = 0 \<and>
   \<not> complete (heap (snd (RequestLog sample_lib
        (client_chunk 5 ''reqstart'' ''10.0.0.9 4711 1001'')
        False (empty_store :: (string, string) store))) ! 0)"
proof -
  have h1: "c_client (client_chunk 5 ''reqstart'' ''10.0.0.9 4711 1001'') \<or>
    c_backend (client_chunk 5 ''reqstart'' ''10.0.0.9 4711 1001'')" by code_simp
  have h2: "fst (RequestLog sample_lib (client_chunk 5 ''reqstart'' ''10.0.0.9 4711 1001'') False
          (empty_store :: (string, string) store)) = Inr (Some 0)" by code_simp
  have h3: "\<forall>r. lines (empty_store :: (string, string) store)
      (c_fd (client_chunk 5 ''reqstart'' ''10.0.0.9 4711 1001'')) = Some r \<longrightarrow>
      r < length (heap (empty_store :: (string, string) store))"
    by (simp add: empty_store_def)
  have h4: "lines (empty_store :: (string, string) store)
      (c_fd (client_chunk 5 ''reqstart'' ''10.0.0.9 4711 1001'')) = None"
    by (simp add: empty_store_def)
  have h5: "length (heap (empty_store :: (string, string) store)) = 0"
    by (simp add: empty_store_def)
  from RequestLog_returns_record [OF h1 h2 h3, unfolded h5] h1 h2 h4 h5
  show ?thesis by simp
qed


section \<open>Completion\<close>

text \<open>
  Claim C2, as stated, fails. A backend log stays bound when it completes, and a later
  start tag on its descriptor activates the completed log again: the fragment is
  appended to it and \<open>backend_name\<close> is assigned again. And a client transaction on
  another descriptor that refers to the descriptor of the completed backend log sets the
  \<open>director_name\<close> of that log.
\<close>

theorem completed_backend_mutated_counterexample:
  "complete (heap backend_done_store ! 0) \<and>
   \<not> active (heap backend_done_store ! 0) \<and>
   length (chunks (heap backend_done_store ! 0)) = 2 \<and>
   backend_name (heap backend_done_store ! 0) = Some ''default'' \<and>
   active (heap (snd (RequestLog sample_lib
       (backend_chunk 7 ''backendopen'' ''other 10.0.0.2 80'') False backend_done_store)) ! 0) \<and>
   length (chunks (heap (snd (RequestLog sample_lib
       (backend_chunk 7 ''backendopen'' ''other 10.0.0.2 80'') False backend_done_store)) ! 0)) = 3 \<and>
   backend_name (heap (snd (RequestLog sample_lib
       (backend_chunk 7 ''backendopen'' ''other 10.0.0.2 80'') False backend_done_store)) ! 0)
     = Some ''other'' \<and>
   director_name (heap backend_done_store ! 0) = None \<and>
   director_name (heap (snd (RequestLog sample_lib (client_chunk 5 ''backend'' ''7 dir be1'') False
       (snd (RequestLog sample_lib (client_chunk 5 ''reqstart'' ''10.0.0.9 4711 1001'') False
          backend_done_store)))) ! 0) = Some ''dir'' \<and>
   complete (heap (snd (RequestLog sample_lib (client_chunk 5 ''backend'' ''7 dir be1'') False
       (snd (RequestLog sample_lib (client_chunk 5 ''reqstart'' ''10.0.0.9 4711 1001'') False
          backend_done_store)))) ! 0)"
  by code_simp

text \<open>
  Claim C2, amended. For a log \<open>i\<close> of the store, of either class:

  \<^item> when the end tag is fed through the factory to the active log bound to its
    descriptor, the log is complete and inactive afterwards, also when parsing the end
    tag raises; the descriptor of a client log is unbound at that moment, and a backend
    log stays bound;

  \<^item> while the log is inactive, whatever fragments the factory is then given, as long as
    none of them is a start tag on a descriptor bound to the log, no field of the log
    changes except \<open>director_name\<close>; and \<open>director_name\<close> does not change either when
    it is set to a non-empty string or when none of the fragments is tagged \<open>backend\<close>
    (a client reference to the descriptor of a backend log sets an empty
    \<open>director_name\<close>);

  \<^item> a fragment on the descriptor of the inactive log that is not a start tag leaves the
    whole store unchanged;

  \<^item> a start tag on the descriptor of the complete, inactive log activates it again: the
    log is active and still complete, and the fragment is appended to it.
\<close>

theorem completion_finality:
  assumes "i < length (heap st)"
  shows "(lines st (c_fd c) = Some i \<and> fd (heap st ! i) = c_fd c \<and> c_fd c \<noteq> 0 \<and>
          active (heap st ! i) \<and> is_end c \<and>
          cls (heap st ! i) = (if c_client c then ClientRequestLog else BackendRequestLog) \<longrightarrow>
            complete (heap (snd (RequestLog L c act st)) ! i) \<and>
            \<not> active (heap (snd (RequestLog L c act st)) ! i) \<and>
            lines (snd (RequestLog L c act st))
              = (if c_client c then (lines st)(c_fd c := None) else lines st)) \<and>
         (\<not> active (heap st ! i) \<and>
          (\<forall>x \<in> set cs. is_start x \<longrightarrow> lines st (c_fd x) \<noteq> Some i) \<longrightarrow>
            heap (ingest L cs st) ! i =
              (heap st ! i)\<lparr> director_name := director_name (heap (ingest L cs st) ! i) \<rparr> \<and>
            (truthy (director_name (heap st ! i)) \<or> (\<forall>x \<in> set cs. c_tag x \<noteq> ''backend'') \<longrightarrow>
               heap (ingest L cs st) ! i = heap st ! i)) \<and>
         (\<not> active (heap st ! i) \<and> lines st (c_fd c) = Some i \<and> \<not> is_start c \<longrightarrow>
            snd (RequestLog L c act st) = st) \<and>
         (\<not> active (heap st ! i) \<and> complete (heap st ! i) \<and> lines st (c_fd c) = Some i \<and>
          fd (heap st ! i) \<noteq> 0 \<and> is_start c \<and>
          cls (heap st ! i) = (if c_client c then ClientRequestLog else BackendRequestLog) \<longrightarrow>
            active (heap (snd (RequestLog L c act st)) ! i) \<and>
            complete (heap (snd (RequestLog L c act st)) ! i) \<and>
            chunks (heap (snd (RequestLog L c act st)) ! i) = chunks (heap st ! i) @ [c])"
proof -
  let ?st = "snd (RequestLog L c act st)"
  have s: "?st = snd (add_chunk L i c st)"
    if "lines st (c_fd c) = Some i"
      and "cls (heap st ! i) = (if c_client c then ClientRequestLog else BackendRequestLog)"
    using that by (auto simp add: RequestLog_bound snd_case_some)
  have A: "complete (heap ?st ! i) \<and> \<not> active (heap ?st ! i) \<and>
      lines ?st = (if c_client c then (lines st)(c_fd c := None) else lines st)"
    if h: "lines st (c_fd c) = Some i \<and> fd (heap st ! i) = c_fd c \<and> c_fd c \<noteq> 0 \<and>
          active (heap st ! i) \<and> is_end c \<and>
          cls (heap st ! i) = (if c_client c then ClientRequestLog else BackendRequestLog)"
  proof -
    have f0: "fd (heap st ! i) \<noteq> 0" and a: "active (heap st ! i) \<or> is_start c"
      using h by simp_all
    have tg: "cls (heap st ! i) = BackendRequestLog \<or> c_tag c \<noteq> ''backend''"
      using h by (auto simp add: is_end_def)
    have l: "lines (snd (add_chunk L i c st)) =
        (if c_client c then (lines st)(c_fd c := None) else lines st)"
      using add_chunk_others[OF tg, of L i] h by simp
    show ?thesis
      using add_chunk_accepted[OF assms f0 a, of L] h l by (simp add: s)
  qed
  have B: "heap (ingest L cs st) ! i =
              (heap st ! i)\<lparr> director_name := director_name (heap (ingest L cs st) ! i) \<rparr> \<and>
            (truthy (director_name (heap st ! i)) \<or> (\<forall>x \<in> set cs. c_tag x \<noteq> ''backend'') \<longrightarrow>
               heap (ingest L cs st) ! i = heap st ! i)"
    if h: "\<not> active (heap st ! i) \<and>
          (\<forall>x \<in> set cs. is_start x \<longrightarrow> lines st (c_fd x) \<noteq> Some i)"
    using ingest_kept[OF assms, of cs L] h by blast
  have C: "?st = st"
    if h: "\<not> active (heap st ! i) \<and> lines st (c_fd c) = Some i \<and> \<not> is_start c"
    using h by (intro RequestLog_self_skip[of st c i]) auto
  have D: "active (heap ?st ! i) \<and> complete (heap ?st ! i) \<and>
      chunks (heap ?st ! i) = chunks (heap st ! i) @ [c]"
    if h: "\<not> active (heap st ! i) \<and> complete (heap st ! i) \<and> lines st (c_fd c) = Some i \<and>
          fd (heap st ! i) \<noteq> 0 \<and> is_start c \<and>
          cls (heap st ! i) = (if c_client c then ClientRequestLog else BackendRequestLog)"
  proof -
    have f0: "fd (heap st ! i) \<noteq> 0" and a: "active (heap st ! i) \<or> is_start c"
      using h by simp_all
    have ne: "\<not> is_end c" using h start_not_end by blast
    have i2: "i < length (heap (before_append i c st))"
      using assms by (simp add: before_append_store)
    have ch: "chunks (heap (snd (add_chunk L i c st)) ! i) = chunks (heap st ! i) @ [c]"
      using call_frame[OF i2, of L i c] a f0 ne assms
      by (auto simp add: add_chunk_snd before_append_heap[OF a])
    show ?thesis
      using add_chunk_accepted[OF assms f0 a, of L] h ne ch by (simp add: s)
  qed
  show ?thesis using A B C D by blast
qed

theorem completion_finality_witness:
  "lines client_open_store (c_fd (client_chunk 5 ''reqend'' ''1001 1.0 2.0 0.1 0.2 0.3'')) = Some 0 \<and>
   active (heap client_open_store ! 0) \<and>
   is_end (client_chunk 5 ''reqend'' ''1001 1.0 2.0 0.1 0.2 0.3'') \<and>
   complete (heap (snd (RequestLog sample_lib
       (client_chunk 5 ''reqend'' ''1001 1.0 2.0 0.1 0.2 0.3'') False client_open_store)) ! 0) \<and>
   lines (snd (RequestLog sample_lib
       (client_chunk 5 ''reqend'' ''1001 1.0 2.0 0.1 0.2 0.3'') False client_open_store)) 5 = None \<and>
   \<not> active (heap backend_done_store ! 0) \<and> complete (heap backend_done_store ! 0) \<and>
   lines backend_done_store 7 = Some 0 \<and>
   heap (ingest sample_lib late_fragments backend_done_store) ! 0 = heap backend_done_store ! 0 \<and>
   snd (RequestLog sample_lib (backend_chunk 7 ''txurl'' ''/late'') False backend_done_store)
     = backend_done_store \<and>
   is_start (backend_chunk 7 ''backendopen'' ''other 10.0.0.2 80'') \<and>
   active (heap (snd (RequestLog sample_lib
       (backend_chunk 7 ''backendopen'' ''other 10.0.0.2 80'') False backend_done_store)) ! 0) \<and>
   complete (heap (snd (RequestLog sample_lib
       (backend_chunk 7 ''backendopen'' ''other 10.0.0.2 80'') False backend_done_store)) ! 0)"
proof -
  let ?e = "client_chunk 5 ''reqend'' ''1001 1.0 2.0 0.1 0.2 0.3''"
  let ?m = "backend_chunk 7 ''txurl'' ''/late''"
  let ?o = "backend_chunk 7 ''backendopen'' ''other 10.0.0.2 80''"
  have a0: "0 < length (heap client_open_store)" by code_simp
  have a1: "lines client_open_store (c_fd ?e) = Some 0" by code_simp
  have a2: "fd (heap client_open_store ! 0) = c_fd ?e" by code_simp
  have a3: "c_fd ?e \<noteq> 0" by code_simp
  have a4: "active (heap client_open_store ! 0)" by code_simp
  have a5: "is_end ?e" by code_simp
  have a6: "cls (heap client_open_store ! 0)
              = (if c_client ?e then ClientRequestLog else BackendRequestLog)" by code_simp
  have a7: "c_client ?e" "c_fd ?e = 5" by code_simp+
  have b0: "0 < length (heap backend_done_store)" by code_simp
  have b1: "\<not> active (heap backend_done_store ! 0)" by code_simp
  have b2: "complete (heap backend_done_store ! 0)" by code_simp
  have b3: "lines backend_done_store 7 = Some 0" by code_simp
  have b4: "\<forall>x \<in> set late_fragments. is_start x \<longrightarrow> lines backend_done_store (c_fd x) \<noteq> Some 0"
    by code_simp
  have b5: "\<forall>x \<in> set late_fragments. c_tag x \<noteq> ''backend''" by code_simp
  have c1: "lines backend_done_store (c_fd ?m) = Some 0" by code_simp
  have c2: "\<not> is_start ?m" by code_simp
  have d1: "lines backend_done_store (c_fd ?o) = Some 0" by code_simp
  have d2: "fd (heap backend_done_store ! 0) \<noteq> 0" by code_simp
  have d3: "is_start ?o" by code_simp
  have d4: "cls (heap backend_done_store ! 0)
              = (if c_client ?o then ClientRequestLog else BackendRequestLog)" by code_simp
  note A = completion_finality[OF a0, where c = ?e and L = sample_lib and act = False and cs = "[]", THEN conjunct1, rule_format]
  note B = completion_finality[OF b0, where c = ?m and L = sample_lib and act = False and cs = late_fragments,
      THEN conjunct2, THEN conjunct1, rule_format]
  note C = completion_finality[OF b0, where c = ?m and L = sample_lib and act = False and cs = late_fragments,
      THEN conjunct2, THEN conjunct2, THEN conjunct1, rule_format]
  note D = completion_finality[OF b0, where c = ?o and L = sample_lib and act = False and cs = "[]",
      THEN conjunct2, THEN conjunct2, THEN conjunct2, rule_format]
  have A': "complete (heap (snd (RequestLog sample_lib ?e False client_open_store)) ! 0)"
    "lines (snd (RequestLog sample_lib ?e False client_open_store)) 5 = None"
    using A[OF conjI[OF a1 conjI[OF a2 conjI[OF a3 conjI[OF a4 conjI[OF a5 a6]]]]]] a7
    by simp_all
  have B': "heap (ingest sample_lib late_fragments backend_done_store) ! 0
              = heap backend_done_store ! 0"
    using B[OF conjI[OF b1 b4]] b5 by blast
  have C': "snd (RequestLog sample_lib ?m False backend_done_store) = backend_done_store"
    using C[OF conjI[OF b1 conjI[OF c1 c2]]] .
  have D': "active (heap (snd (RequestLog sample_lib ?o False backend_done_store)) ! 0)"
    "complete (heap (snd (RequestLog sample_lib ?o False backend_done_store)) ! 0)"
    using D[OF conjI[OF b1 conjI[OF b2 conjI[OF d1 conjI[OF d2 conjI[OF d3 d4]]]]]]
    by simp_all
  show ?thesis by (intro conjI a1 a4 a5 A' b1 b2 b3 B' C' d3 D')
qed

section \<open>Repeated delivery of a completed backend log\<close>

text \<open>
  Claim C10, as stated, fails for the administrative tags. After a completed backend
  transaction on descriptor 7, a backend-role fragment tagged \<open>sessionclose\<close> is
  skipped by the dispatcher before the factory is called: the consumer has been invoked
  once only.
\<close>

theorem admin_tag_counterexample:
  "delivered admin_run = [0] \<and> printed admin_run = [] \<and>
   complete (heap (tbl admin_run) ! 0) \<and> lines (tbl admin_run) 7 = Some 0"
  by code_simp


text \<open>
  Claim C10, amended. With \<open>aggregate\<close> false, the end tag of an active backend log
  makes \<open>cb\<close> hand the log to the consumer, and leaves it complete, inactive and
  retained. For a backend log that is complete and retained, and a later backend-role
  fragment on its descriptor whose tag is not one of the ignored administrative tags:

  \<^item> the log is complete and retained afterwards as well, so that this applies to every
    later fragment;

  \<^item> while the log is inactive and the tag is not the start tag \<open>backendopen\<close>, \<open>cb\<close>
    hands the same log to the consumer once more and the store is unchanged;

  \<^item> when the tag is the start tag, or the log has been activated again by an earlier
    start tag, the fragment is appended to the log; the log is then handed to the
    consumer once more unless processing the fragment raises, in which case the fault is
    printed and the consumer is not called.
\<close>

theorem completed_backend_delivered_again:
  "(f \<noteq> 0 \<and> lines (tbl ds) f = Some r \<and> r < length (heap (tbl ds)) \<and>
    cls (heap (tbl ds) ! r) = BackendRequestLog \<and> fd (heap (tbl ds) ! r) = f \<and>
    active (heap (tbl ds) ! r) \<and> c_fd e = f \<and> c_backend e \<and> \<not> c_client e \<and>
    (c_tag e = ''backendclose'' \<or> c_tag e = ''backendreuse'') \<longrightarrow>
      delivered (snd (cb L callback False nrc e ds)) = delivered ds @ [r] \<and>
      retained_complete f r (tbl (snd (cb L callback False nrc e ds))) \<and>
      \<not> active (heap (tbl (snd (cb L callback False nrc e ds))) ! r)) \<and>
   (retained_complete f r (tbl ds) \<and>
    c_fd c = f \<and> c_backend c \<and> \<not> c_client c \<and> c_tag c \<notin> ignored_tags \<longrightarrow>
      retained_complete f r (tbl (snd (cb L callback False nrc c ds))) \<and>
      (\<not> active (heap (tbl ds) ! r) \<and> c_tag c \<noteq> ''backendopen'' \<longrightarrow>
         delivered (snd (cb L callback False nrc c ds)) = delivered ds @ [r] \<and>
         tbl (snd (cb L callback False nrc c ds)) = tbl ds) \<and>
      (active (heap (tbl ds) ! r) \<or> c_tag c = ''backendopen'' \<longrightarrow>
         chunks (heap (tbl (snd (cb L callback False nrc c ds))) ! r)
           = chunks (heap (tbl ds) ! r) @ [c] \<and>
         active (heap (tbl (snd (cb L callback False nrc c ds))) ! r) = (\<not> is_end c) \<and>
         (case fst (RequestLog L c False (tbl ds)) of
            Inl x \<Rightarrow>
              delivered (snd (cb L callback False nrc c ds)) = delivered ds \<and>
              printed (snd (cb L callback False nrc c ds)) = printed ds @ [x]
          | Inr ev \<Rightarrow>
              delivered (snd (cb L callback False nrc c ds)) = delivered ds @ [r])))"
proof (intro conjI impI)
  assume h: "f \<noteq> 0 \<and> lines (tbl ds) f = Some r \<and> r < length (heap (tbl ds)) \<and>
    cls (heap (tbl ds) ! r) = BackendRequestLog \<and> fd (heap (tbl ds) ! r) = f \<and>
    active (heap (tbl ds) ! r) \<and> c_fd e = f \<and> c_backend e \<and> \<not> c_client e \<and>
    (c_tag e = ''backendclose'' \<or> c_tag e = ''backendreuse'')"
  note r = backend_end_delivered[of f ds r e L callback nrc]
  from h r show "delivered (snd (cb L callback False nrc e ds)) = delivered ds @ [r]" by blast
  from h r show "retained_complete f r (tbl (snd (cb L callback False nrc e ds)))" by blast
  from h r show "\<not> active (heap (tbl (snd (cb L callback False nrc e ds))) ! r)" by blast
next
  assume h: "retained_complete f r (tbl ds) \<and>
    c_fd c = f \<and> c_backend c \<and> \<not> c_client c \<and> c_tag c \<notin> ignored_tags"
  then have P: "retained_complete f r (tbl ds)" and c: "c_fd c = f" "c_backend c" "\<not> c_client c"
    "c_tag c \<notin> ignored_tags" by simp_all
  note r = retained_complete_step[OF P c, of L callback nrc]
  from r show "retained_complete f r (tbl (snd (cb L callback False nrc c ds)))" by blast
  {
    assume "\<not> active (heap (tbl ds) ! r) \<and> c_tag c \<noteq> ''backendopen''"
    with r show "delivered (snd (cb L callback False nrc c ds)) = delivered ds @ [r]" by blast
  }
  {
    assume "\<not> active (heap (tbl ds) ! r) \<and> c_tag c \<noteq> ''backendopen''"
    with r show "tbl (snd (cb L callback False nrc c ds)) = tbl ds" by blast
  }
  {
    assume "active (heap (tbl ds) ! r) \<or> c_tag c = ''backendopen''"
    with r show "chunks (heap (tbl (snd (cb L callback False nrc c ds))) ! r)
           = chunks (heap (tbl ds) ! r) @ [c]" by blast
  }
  {
    assume "active (heap (tbl ds) ! r) \<or> c_tag c = ''backendopen''"
    with r show "active (heap (tbl (snd (cb L callback False nrc c ds))) ! r) = (\<not> is_end c)"
      by blast
  }
  {
    assume "active (heap (tbl ds) ! r) \<or> c_tag c = ''backendopen''"
    with r show "case fst (RequestLog L c False (tbl ds)) of
            Inl x \<Rightarrow>
              delivered (snd (cb L callback False nrc c ds)) = delivered ds \<and>
              printed (snd (cb L callback False nrc c ds)) = printed ds @ [x]
          | Inr ev \<Rightarrow>
              delivered (snd (cb L callback False nrc c ds)) = delivered ds @ [r]" by blast
  }
qed

theorem completed_backend_delivered_again_witness:
  "active (heap (tbl backend_open_dstate) ! 0) \<and> delivered backend_open_dstate = [] \<and>
   delivered (snd (cb sample_lib accept_all False None
      (backend_chunk 7 ''backendclose'' ''default'') backend_open_dstate)) = [0] \<and>
   retained_complete 7 0 (tbl backend_done_dstate) \<and>
   \<not> active (heap (tbl backend_done_dstate) ! 0) \<and> delivered backend_done_dstate = [0] \<and>
   delivered (snd (cb sample_lib accept_all False None
      (backend_chunk 7 ''rxheader'' ''X-Late: 1'') backend_done_dstate)) = [0, 0] \<and>
   tbl (snd (cb sample_lib accept_all False None
      (backend_chunk 7 ''rxheader'' ''X-Late: 1'') backend_done_dstate)) = tbl backend_done_dstate \<and>
   retained_complete 7 0 (tbl backend_reopened_dstate) \<and>
   active (heap (tbl backend_reopened_dstate) ! 0) \<and>
   delivered backend_reopened_dstate = [0, 0] \<and>
   delivered (snd (cb sample_lib accept_all False None
      (backend_chunk 7 ''txurl'' ''/again'') backend_reopened_dstate)) = [0, 0, 0] \<and>
   length (chunks (heap (tbl (snd (cb sample_lib accept_all False None
      (backend_chunk 7 ''txurl'' ''/again'') backend_reopened_dstate))) ! 0)) = 4 \<and>
   delivered (snd (cb sample_lib accept_all False None
      (backend_chunk 7 ''rxstatus'' ''abc'') backend_reopened_dstate)) = [0, 0] \<and>
   printed (snd (cb sample_lib accept_all False None
      (backend_chunk 7 ''rxstatus'' ''abc'') backend_reopened_dstate)) = [ValueError]"
proof -
  let ?e = "backend_chunk 7 ''backendclose'' ''default''"
  let ?c = "backend_chunk 7 ''rxheader'' ''X-Late: 1''"
  let ?m = "backend_chunk 7 ''txurl'' ''/again''"
  let ?x = "backend_chunk 7 ''rxstatus'' ''abc''"
  have a1: "(7::int) \<noteq> 0" by simp
  have a2: "lines (tbl backend_open_dstate) 7 = Some 0" by code_simp
  have a3: "0 < length (heap (tbl backend_open_dstate))" by code_simp
  have a4: "cls (heap (tbl backend_open_dstate) ! 0) = BackendRequestLog" by code_simp
  have a5: "fd (heap (tbl backend_open_dstate) ! 0) = 7" by code_simp
  have a6: "active (heap (tbl backend_open_dstate) ! 0)" by code_simp
  have a7: "c_fd ?e = 7" "c_backend ?e" "\<not> c_client ?e"
    "c_tag ?e = ''backendclose'' \<or> c_tag ?e = ''backendreuse''" by code_simp+
  have a8: "delivered backend_open_dstate = []" by code_simp
  have b1: "retained_complete 7 0 (tbl backend_done_dstate)" by code_simp
  have b2: "\<not> active (heap (tbl backend_done_dstate) ! 0)" by code_simp
  have b3: "delivered backend_done_dstate = [0]" by code_simp
  have b4: "c_fd ?c = 7" "c_backend ?c" "\<not> c_client ?c" "c_tag ?c \<notin> ignored_tags"
    "c_tag ?c \<noteq> ''backendopen''" by code_simp+
  have c1: "retained_complete 7 0 (tbl backend_reopened_dstate)" by code_simp
  have c2: "active (heap (tbl backend_reopened_dstate) ! 0)" by code_simp
  have c3: "delivered backend_reopened_dstate = [0, 0]" by code_simp
  have c4: "length (chunks (heap (tbl backend_reopened_dstate) ! 0)) = 3" by code_simp
  have c5: "printed backend_reopened_dstate = []" by code_simp
  have m1: "c_fd ?m = 7" "c_backend ?m" "\<not> c_client ?m" "c_tag ?m \<notin> ignored_tags"
    by code_simp+
  have m2: "fst (RequestLog sample_lib ?m False (tbl backend_reopened_dstate)) = Inr (Some 0)"
    by code_simp
  have x1: "c_fd ?x = 7" "c_backend ?x" "\<not> c_client ?x" "c_tag ?x \<notin> ignored_tags"
    by code_simp+
  have x2: "fst (RequestLog sample_lib ?x False (tbl backend_reopened_dstate)) = Inl ValueError"
    by code_simp
  note A = completed_backend_delivered_again[where f = 7 and r = 0 and ds = backend_open_dstate
      and e = ?e and L = sample_lib and callback = accept_all and nrc = None,
      THEN conjunct1, rule_format]
  have A': "delivered (snd (cb sample_lib accept_all False None ?e backend_open_dstate)) = [0]"
    using A[OF conjI[OF a1 conjI[OF a2 conjI[OF a3 conjI[OF a4 conjI[OF a5 conjI[OF a6
        conjI[OF a7(1) conjI[OF a7(2) conjI[OF a7(3) a7(4)]]]]]]]]]] a8
    by simp
  note B = completed_backend_delivered_again[where f = 7 and r = 0 and ds = backend_done_dstate
      and c = ?c and L = sample_lib and callback = accept_all and nrc = None,
      THEN conjunct2, rule_format,
      OF conjI[OF b1 conjI[OF b4(1) conjI[OF b4(2) conjI[OF b4(3) b4(4)]]]]]
  have B': "delivered (snd (cb sample_lib accept_all False None ?c backend_done_dstate)) = [0, 0]"
    "tbl (snd (cb sample_lib accept_all False None ?c backend_done_dstate)) = tbl backend_done_dstate"
    using B[THEN conjunct2, THEN conjunct1] b2 b4(5) b3 by simp_all
  note M = completed_backend_delivered_again[where f = 7 and r = 0 and ds = backend_reopened_dstate
      and c = ?m and L = sample_lib and callback = accept_all and nrc = None,
      THEN conjunct2, rule_format,
      OF conjI[OF c1 conjI[OF m1(1) conjI[OF m1(2) conjI[OF m1(3) m1(4)]]]],
      THEN conjunct2, THEN conjunct2]
  have M': "delivered (snd (cb sample_lib accept_all False None ?m backend_reopened_dstate))
              = [0, 0, 0]"
    "length (chunks (heap (tbl (snd (cb sample_lib accept_all False None ?m
        backend_reopened_dstate))) ! 0)) = 4"
    using M c2 c3 c4 by (simp_all add: m2)
  note X = completed_backend_delivered_again[where f = 7 and r = 0 and ds = backend_reopened_dstate
      and c = ?x and L = sample_lib and callback = accept_all and nrc = None,
      THEN conjunct2, rule_format,
      OF conjI[OF c1 conjI[OF x1(1) conjI[OF x1(2) conjI[OF x1(3) x1(4)]]]],
      THEN conjunct2, THEN conjunct2]
  have X': "delivered (snd (cb sample_lib accept_all False None ?x backend_reopened_dstate)) = [0, 0]"
    "printed (snd (cb sample_lib accept_all False None ?x backend_reopened_dstate)) = [ValueError]"
    using X c2 c3 c5 by (simp_all add: x2)
  show ?thesis by (intro conjI a6 a8 A' b1 b2 b3 B' c1 c2 c3 M' X')
qed

section \<open>Header aggregation\<close>

text \<open>
  Claim C7. Feeding \<open>N\<close> request-header fragments, one after the other, through the
  factory to an active client log raises no exception and appends \<open>N\<close> entries to
  \<open>rxheaders\<close>, in the order of arrival: each key is the part of the payload before the
  first colon, trimmed and lower-cased, each value the trimmed rest. Entries with equal
  keys are all kept, in their order of insertion; starting from a log without request
  headers the mapping has \<open>N\<close> entries.
\<close>

theorem request_headers_aggregated:
  assumes "lines st f = Some r" and "r < length (heap st)"
    and "cls (heap st ! r) = ClientRequestLog" and "fd (heap st ! r) = f" and "f \<noteq> 0"
    and "active (heap st ! r)"
    and "list_all (is_request_header f) cs"
  shows "rxheaders (heap (foldl (\<lambda>s c. snd (RequestLog L c False s)) st cs) ! r)
           = rxheaders (heap st ! r) @ map (\<lambda>c. spec_header (c_data c)) cs \<and>
         length (rxheaders (heap (foldl (\<lambda>s c. snd (RequestLog L c False s)) st cs) ! r))
           = length (rxheaders (heap st ! r)) + length cs \<and>
         (\<forall>k < length cs.
            fst (RequestLog L (cs ! k) False
                   (foldl (\<lambda>s c. snd (RequestLog L c False s)) st (take k cs))) = Inr (Some r))"
  using assms
proof (induction cs arbitrary: st)
  case Nil
  then show ?case by simp
next
  case (Cons c cs)
  let ?o = "(heap st ! r)\<lparr> client := Some (c_client c), backend := Some (c_backend c),
        chunks := chunks (heap st ! r) @ [c],
        rxheaders := rxheaders (heap st ! r) @ [spec_header (c_data c)] \<rparr>"
  let ?st = "upd r (\<lambda>_. ?o) st"
  have h: "is_request_header f c" "list_all (is_request_header f) cs"
    using Cons.prems(7) by simp_all
  have step: "RequestLog L c False st = (Inr (Some r), ?st)"
    using Cons.prems(1-6) h(1) by (rule RequestLog_rxheader)
  have o: "heap ?st ! r = ?o" using Cons.prems(2) by (simp add: heap_upd)
  have inv: "lines ?st f = Some r" "r < length (heap ?st)" "cls (heap ?st ! r) = ClientRequestLog"
    "fd (heap ?st ! r) = f" "active (heap ?st ! r)"
    using Cons.prems(1-6) by (simp_all add: o lines_upd length_heap_upd)
  note IH = Cons.IH[OF inv(1-4) Cons.prems(5) inv(5) h(2)]
  have a: "rxheaders (heap (foldl (\<lambda>s c. snd (RequestLog L c False s)) st (c # cs)) ! r)
           = rxheaders (heap st ! r) @ map (\<lambda>c. spec_header (c_data c)) (c # cs)"
    using IH by (simp add: step o)
  have b: "fst (RequestLog L ((c # cs) ! k) False
                   (foldl (\<lambda>s c. snd (RequestLog L c False s)) st (take k (c # cs)))) = Inr (Some r)"
    if "k < length (c # cs)" for k
  proof (cases k)
    case 0
    then show ?thesis by (simp add: step)
  next
    case (Suc j)
    then show ?thesis using that IH by (simp add: step)
  qed
  from a b show ?case by simp
qed

theorem request_headers_aggregated_witness:
  "lines client_open_store 5 = Some 0 \<and> active (heap client_open_store ! 0) \<and>
   cls (heap client_open_store ! 0) = ClientRequestLog \<and>
   list_all (is_request_header 5)
     [client_chunk 5 ''rxheader'' ''Host: example.org'',
      client_chunk 5 ''rxheader'' '' X-Forwarded-For : 10.0.0.1 '',
      client_chunk 5 ''rxheader'' ''x-forwarded-for:10.0.0.2''] \<and>
   rxheaders (heap header_store ! 0)
     = [(''host'', ''example.org''), (''x-forwarded-for'', ''10.0.0.1''),
        (''x-forwarded-for'', ''10.0.0.2'')]"
proof -
  let ?cs = "[client_chunk 5 ''rxheader'' ''Host: example.org'',
      client_chunk 5 ''rxheader'' '' X-Forwarded-For : 10.0.0.1 '',
      client_chunk 5 ''rxheader'' ''x-forwarded-for:10.0.0.2'']"
  have h1: "lines client_open_store 5 = Some 0" by code_simp
  have h2: "0 < length (heap client_open_store)" by code_simp
  have h3: "cls (heap client_open_store ! 0) = ClientRequestLog" by code_simp
  have h4: "fd (heap client_open_store ! 0) = 5" by code_simp
  have h5: "(5::int) \<noteq> 0" by simp
  have h6: "active (heap client_open_store ! 0)" by code_simp
  have h7: "list_all (is_request_header 5) ?cs" by code_simp
  have h8: "rxheaders (heap client_open_store ! 0) = []" by code_simp
  have h9: "map (\<lambda>c. spec_header (c_data c)) ?cs
     = [(''host'', ''example.org''), (''x-forwarded-for'', ''10.0.0.1''),
        (''x-forwarded-for'', ''10.0.0.2'')]" by code_simp
  from request_headers_aggregated [OF h1 h2 h3 h4 h5 h6 h7, of sample_lib]
    h1 h3 h6 h7 h8 h9
  show ?thesis by (simp add: header_store_def)
qed

section \<open>Fault isolation\<close>

text \<open>
  Claim C5. Whatever happens while \<open>cb\<close> processes a fragment, the dispatcher goes on
  with the rest of the stream from the state that \<open>cb\<close> has left. When the factory
  raises, \<open>cb\<close> prints the exception, delivers nothing and keeps the store as the
  exception left it; when the consumer raises on a complete log, \<open>cb\<close> prints the
  exception and the call counts as a delivery; when the consumer of fragments without
  descriptor raises, \<open>cb\<close> prints the exception. A client transaction that follows on
  a descriptor that is free at that point, with its start tag, any inner fragments (which
  may raise themselves) and a well-formed end tag, is then delivered to the consumer
  exactly once, whatever the consumer returns or raises: as a complete client log that is
  unbound from its descriptor and holds the fragments of the transaction that are not
  administrative, the address, port and identifier of its start tag, and the two
  timestamps and three durations of its end tag. And a stream of one client transaction
  that refers to one backend transaction, on descriptors that are free at that point, is
  delivered as it is without the fault before it: the complete client log, whose
  \<open>backend_request\<close> is the complete backend log, once when \<open>aggregate\<close> is true,
  and the two logs, once each, when it is false.
\<close>

theorem fault_isolation:
  assumes g: "g \<noteq> 0" "lines (tbl (snd (cb L callback agg nrc bad ds))) g = None"
    and c1: "c_fd c1 = g" "c_client c1" "c_tag c1 = ''reqstart''"
      "split CHR '' '' (c_data c1) = [ip, port, xid]"
    and ms: "\<forall>m \<in> set ms. inner_fragment g m"
    and c2: "c_fd c2 = g" "c_client c2" "c_tag c2 = ''reqend''" "reqend_ok L (c_data c2)"
      "split CHR '' '' (c_data c2) = [x, s1, s2, d1, d2, d3]"
  shows "(\<forall>rest. dispatch_requests L callback agg nrc (bad # rest) ds =
            dispatch_requests L callback agg nrc rest (snd (cb L callback agg nrc bad ds))) \<and>
         (c_fd bad \<noteq> 0 \<and> c_tag bad \<notin> ignored_tags \<and>
          fst (RequestLog L bad False (tbl ds)) = Inl e \<longrightarrow>
            cb L callback agg nrc bad ds =
              (False, ds\<lparr> tbl := snd (RequestLog L bad False (tbl ds)),
                          printed := printed ds @ [e] \<rparr>)) \<and>
         (c_fd bad \<noteq> 0 \<and> c_tag bad \<notin> ignored_tags \<and>
          fst (RequestLog L bad False (tbl ds)) = Inr (Some r) \<and>
          complete (heap (snd (RequestLog L bad False (tbl ds))) ! r) \<and>
          backend (heap (snd (RequestLog L bad False (tbl ds))) ! r) = Some b \<and>
          \<not> (b \<and> chunks (heap (snd (RequestLog L bad False (tbl ds))) ! r) = []) \<and>
          (agg \<longrightarrow> client (heap (snd (RequestLog L bad False (tbl ds))) ! r) = Some True) \<and>
          callback (snd (RequestLog L bad False (tbl ds))) r = Inl e \<longrightarrow>
            cb L callback agg nrc bad ds =
              (True, ds\<lparr> tbl := snd (RequestLog L bad False (tbl ds)),
                         delivered := delivered ds @ [r], printed := printed ds @ [e] \<rparr>)) \<and>
         (c_fd bad = 0 \<and> nrc = Some h \<and> h bad = Inl e \<longrightarrow>
            cb L callback agg nrc bad ds =
              (False, ds\<lparr> nonrequest := nonrequest ds @ [bad], printed := printed ds @ [e] \<rparr>)) \<and>
         (one_pair_stream L fc fb cs \<and>
          lines (tbl (snd (cb L callback agg nrc bad ds))) fc = None \<and>
          lines (tbl (snd (cb L callback agg nrc bad ds))) fb = None \<longrightarrow>
            (\<exists>rc rb.
               (if agg
                then delivered (dispatch_requests L callback agg nrc (bad # cs) ds)
                       = delivered (snd (cb L callback agg nrc bad ds)) @ [rc]
                else delivered (dispatch_requests L callback agg nrc (bad # cs) ds)
                       = delivered (snd (cb L callback agg nrc bad ds)) @ [rc, rb] \<or>
                     delivered (dispatch_requests L callback agg nrc (bad # cs) ds)
                       = delivered (snd (cb L callback agg nrc bad ds)) @ [rb, rc]) \<and>
               cls (heap (tbl (dispatch_requests L callback agg nrc (bad # cs) ds)) ! rc)
                 = ClientRequestLog \<and>
               complete (heap (tbl (dispatch_requests L callback agg nrc (bad # cs) ds)) ! rc) \<and>
               backend_request (heap (tbl (dispatch_requests L callback agg nrc (bad # cs) ds)) ! rc)
                 = Some rb \<and>
               cls (heap (tbl (dispatch_requests L callback agg nrc (bad # cs) ds)) ! rb)
                 = BackendRequestLog \<and>
               complete (heap (tbl (dispatch_requests L callback agg nrc (bad # cs) ds)) ! rb))) \<and>
         delivered (dispatch_requests L callback agg nrc (bad # c1 # ms @ [c2]) ds)
           = delivered (snd (cb L callback agg nrc bad ds)) @ [length (heap (tbl (snd (cb L callback agg nrc bad ds))))] \<and>
         lines (tbl (dispatch_requests L callback agg nrc (bad # c1 # ms @ [c2]) ds)) g = None \<and>
         complete (heap (tbl (dispatch_requests L callback agg nrc (bad # c1 # ms @ [c2]) ds)) !
               length (heap (tbl (snd (cb L callback agg nrc bad ds))))) \<and>
         chunks (heap (tbl (dispatch_requests L callback agg nrc (bad # c1 # ms @ [c2]) ds)) !
               length (heap (tbl (snd (cb L callback agg nrc bad ds)))))
           = c1 # filter (\<lambda>m. c_tag m \<notin> ignored_tags) ms @ [c2] \<and>
         cls (heap (tbl (dispatch_requests L callback agg nrc (bad # c1 # ms @ [c2]) ds)) !
               length (heap (tbl (snd (cb L callback agg nrc bad ds))))) = ClientRequestLog \<and>
         id_attr (heap (tbl (dispatch_requests L callback agg nrc (bad # c1 # ms @ [c2]) ds)) !
               length (heap (tbl (snd (cb L callback agg nrc bad ds))))) = Some xid \<and>
         client_ip (heap (tbl (dispatch_requests L callback agg nrc (bad # c1 # ms @ [c2]) ds)) !
               length (heap (tbl (snd (cb L callback agg nrc bad ds))))) = Some ip \<and>
         client_port (heap (tbl (dispatch_requests L callback agg nrc (bad # c1 # ms @ [c2]) ds)) !
               length (heap (tbl (snd (cb L callback agg nrc bad ds))))) = Some port \<and>
         started_at (heap (tbl (dispatch_requests L callback agg nrc (bad # c1 # ms @ [c2]) ds)) !
               length (heap (tbl (snd (cb L callback agg nrc bad ds))))) = Option.bind (py_float L s1) (fromtimestamp L) \<and>
         completed_at (heap (tbl (dispatch_requests L callback agg nrc (bad # c1 # ms @ [c2]) ds)) !
               length (heap (tbl (snd (cb L callback agg nrc bad ds))))) = Option.bind (py_float L s2) (fromtimestamp L) \<and>
         req_start_delay (heap (tbl (dispatch_requests L callback agg nrc (bad # c1 # ms @ [c2]) ds)) !
               length (heap (tbl (snd (cb L callback agg nrc bad ds))))) = py_float L d1 \<and>
         processing_time (heap (tbl (dispatch_requests L callback agg nrc (bad # c1 # ms @ [c2]) ds)) !
               length (heap (tbl (snd (cb L callback agg nrc bad ds))))) = py_float L d2 \<and>
         deliver_time (heap (tbl (dispatch_requests L callback agg nrc (bad # c1 # ms @ [c2]) ds)) !
               length (heap (tbl (snd (cb L callback agg nrc bad ds))))) = py_float L d3"
proof -
  let ?ds1 = "snd (cb L callback agg nrc bad ds)"
  have first: "dispatch_requests L callback agg nrc (bad # rest) ds =
            dispatch_requests L callback agg nrc rest ?ds1" for rest
    by (simp add: dispatch_requests_Cons)
  have A: "\<forall>rest. dispatch_requests L callback agg nrc (bad # rest) ds =
            dispatch_requests L callback agg nrc rest ?ds1"
    using first by blast
  have B: "c_fd bad \<noteq> 0 \<and> c_tag bad \<notin> ignored_tags \<and>
          fst (RequestLog L bad False (tbl ds)) = Inl e \<longrightarrow>
            cb L callback agg nrc bad ds =
              (False, ds\<lparr> tbl := snd (RequestLog L bad False (tbl ds)),
                          printed := printed ds @ [e] \<rparr>)"
    using cb_fault[of bad L ds e callback agg nrc] by blast
  have C: "c_fd bad \<noteq> 0 \<and> c_tag bad \<notin> ignored_tags \<and>
          fst (RequestLog L bad False (tbl ds)) = Inr (Some r) \<and>
          complete (heap (snd (RequestLog L bad False (tbl ds))) ! r) \<and>
          backend (heap (snd (RequestLog L bad False (tbl ds))) ! r) = Some b \<and>
          \<not> (b \<and> chunks (heap (snd (RequestLog L bad False (tbl ds))) ! r) = []) \<and>
          (agg \<longrightarrow> client (heap (snd (RequestLog L bad False (tbl ds))) ! r) = Some True) \<and>
          callback (snd (RequestLog L bad False (tbl ds))) r = Inl e \<longrightarrow>
            cb L callback agg nrc bad ds =
              (True, ds\<lparr> tbl := snd (RequestLog L bad False (tbl ds)),
                         delivered := delivered ds @ [r], printed := printed ds @ [e] \<rparr>)"
    using cb_consumer_fault[of bad L ds r b agg callback e nrc] by blast
  have D: "c_fd bad = 0 \<and> nrc = Some h \<and> h bad = Inl e \<longrightarrow>
            cb L callback agg nrc bad ds =
              (False, ds\<lparr> nonrequest := nonrequest ds @ [bad], printed := printed ds @ [e] \<rparr>)"
    using cb_nonrequest_fault[of bad h e L callback agg ds] by blast
  have P: "one_pair_stream L fc fb cs \<and> lines (tbl ?ds1) fc = None \<and>
          lines (tbl ?ds1) fb = None \<longrightarrow>
            (\<exists>rc rb.
               (if agg
                then delivered (dispatch_requests L callback agg nrc (bad # cs) ds) = delivered ?ds1 @ [rc]
                else delivered (dispatch_requests L callback agg nrc (bad # cs) ds) = delivered ?ds1 @ [rc, rb] \<or>
                     delivered (dispatch_requests L callback agg nrc (bad # cs) ds) = delivered ?ds1 @ [rb, rc]) \<and>
               cls (heap (tbl (dispatch_requests L callback agg nrc (bad # cs) ds)) ! rc) = ClientRequestLog \<and>
               complete (heap (tbl (dispatch_requests L callback agg nrc (bad # cs) ds)) ! rc) \<and>
               backend_request (heap (tbl (dispatch_requests L callback agg nrc (bad # cs) ds)) ! rc) = Some rb \<and>
               cls (heap (tbl (dispatch_requests L callback agg nrc (bad # cs) ds)) ! rb) = BackendRequestLog \<and>
               complete (heap (tbl (dispatch_requests L callback agg nrc (bad # cs) ds)) ! rb))"
  proof
    assume h: "one_pair_stream L fc fb cs \<and> lines (tbl ?ds1) fc = None \<and>
          lines (tbl ?ds1) fb = None"
    then have fds: "fc \<noteq> 0" "fb \<noteq> 0" "fc \<noteq> fb"
      and run: "pair_run L fc fb (Idle, Idle, False) cs = Some (Finished, Finished, True)"
      by (simp_all add: one_pair_stream_def)
    have I: "pair_inv agg fc fb (Idle, Idle, False) 0 0 (delivered ?ds1) ?ds1"
      using h by (simp add: pair_inv_def client_part_def backend_part_def delivered_part_def)
    obtain rc rb where F: "pair_inv agg fc fb (Finished, Finished, True) rc rb (delivered ?ds1)
             (dispatch_requests L callback agg nrc cs ?ds1)"
      using pair_run_inv[OF fds I run, of callback nrc] by blast
    show "\<exists>rc rb.
               (if agg
                then delivered (dispatch_requests L callback agg nrc (bad # cs) ds) = delivered ?ds1 @ [rc]
                else delivered (dispatch_requests L callback agg nrc (bad # cs) ds) = delivered ?ds1 @ [rc, rb] \<or>
                     delivered (dispatch_requests L callback agg nrc (bad # cs) ds) = delivered ?ds1 @ [rb, rc]) \<and>
               cls (heap (tbl (dispatch_requests L callback agg nrc (bad # cs) ds)) ! rc) = ClientRequestLog \<and>
               complete (heap (tbl (dispatch_requests L callback agg nrc (bad # cs) ds)) ! rc) \<and>
               backend_request (heap (tbl (dispatch_requests L callback agg nrc (bad # cs) ds)) ! rc) = Some rb \<and>
               cls (heap (tbl (dispatch_requests L callback agg nrc (bad # cs) ds)) ! rb) = BackendRequestLog \<and>
               complete (heap (tbl (dispatch_requests L callback agg nrc (bad # cs) ds)) ! rb)"
    proof (rule exI[of _ rc], rule exI[of _ rb])
      show "(if agg
                then delivered (dispatch_requests L callback agg nrc (bad # cs) ds) = delivered ?ds1 @ [rc]
                else delivered (dispatch_requests L callback agg nrc (bad # cs) ds) = delivered ?ds1 @ [rc, rb] \<or>
                     delivered (dispatch_requests L callback agg nrc (bad # cs) ds) = delivered ?ds1 @ [rb, rc]) \<and>
               cls (heap (tbl (dispatch_requests L callback agg nrc (bad # cs) ds)) ! rc) = ClientRequestLog \<and>
               complete (heap (tbl (dispatch_requests L callback agg nrc (bad # cs) ds)) ! rc) \<and>
               backend_request (heap (tbl (dispatch_requests L callback agg nrc (bad # cs) ds)) ! rc) = Some rb \<and>
               cls (heap (tbl (dispatch_requests L callback agg nrc (bad # cs) ds)) ! rb) = BackendRequestLog \<and>
               complete (heap (tbl (dispatch_requests L callback agg nrc (bad # cs) ds)) ! rb)"
        using F unfolding first
        by (cases agg)
           (simp_all add: pair_inv_def client_part_def backend_part_def delivered_part_def)
    qed
  qed
  note E = client_transaction_delivered[OF g c1 ms c2, of callback agg nrc, folded first]
  show ?thesis by (intro conjI A B C D P) (simp_all add: E)
qed

theorem fault_isolation_witness:
  "fst (RequestLog sample_lib (client_chunk 5 ''txstatus'' ''abc'') False (tbl client_open_dstate))
     = Inl ValueError \<and>
   printed (snd (cb sample_lib accept_all True None (client_chunk 5 ''txstatus'' ''abc'')
     client_open_dstate)) = [ValueError] \<and>
   delivered (dispatch_requests sample_lib accept_all True None
     (client_chunk 5 ''txstatus'' ''abc'' # later_transaction) client_open_dstate) = [1] \<and>
   started_at (heap (tbl (dispatch_requests sample_lib accept_all True None
     (client_chunk 5 ''txstatus'' ''abc'' # later_transaction) client_open_dstate)) ! 1)
     = Some ''1.0'' \<and>
   deliver_time (heap (tbl (dispatch_requests sample_lib accept_all True None
     (client_chunk 5 ''txstatus'' ''abc'' # later_transaction) client_open_dstate)) ! 1)
     = Some ''0.3'' \<and>
   one_pair_stream sample_lib 12 14 pair_stream \<and>
   length (delivered (dispatch_requests sample_lib accept_all True None
     (client_chunk 5 ''txstatus'' ''abc'' # pair_stream) client_open_dstate)) = 1 \<and>
   length (chunks (heap (tbl (dispatch_requests sample_lib accept_all True None
     (client_chunk 5 ''txstatus'' ''abc'' # later_transaction) client_open_dstate)) ! 1)) = 4 \<and>
   reject_all (snd (RequestLog sample_lib (client_chunk 5 ''reqend'' ''1001 1.0 2.0 0.1 0.2 0.3'')
     False (tbl client_open_dstate))) 0 = Inl ConsumerError \<and>
   delivered (snd (cb sample_lib reject_all True None
     (client_chunk 5 ''reqend'' ''1001 1.0 2.0 0.1 0.2 0.3'') client_open_dstate)) = [0] \<and>
   printed (snd (cb sample_lib reject_all True None
     (client_chunk 5 ''reqend'' ''1001 1.0 2.0 0.1 0.2 0.3'') client_open_dstate))
     = [ConsumerError] \<and>
   delivered (dispatch_requests sample_lib reject_all True None
     (client_chunk 5 ''reqend'' ''1001 1.0 2.0 0.1 0.2 0.3'' # later_transaction)
     client_open_dstate) = [0, 1] \<and>
   printed (snd (cb sample_lib accept_all True (Some failing_nonrequest)
     \<lparr> c_fd = 0, c_client = False, c_backend = False, c_tag = ''cli'', c_data = ''ping'' \<rparr>
     client_open_dstate)) = [ConsumerError] \<and>
   delivered (dispatch_requests sample_lib accept_all True (Some failing_nonrequest)
     (\<lparr> c_fd = 0, c_client = False, c_backend = False, c_tag = ''cli'', c_data = ''ping'' \<rparr>
        # later_transaction) client_open_dstate) = [1]"
proof -
  let ?b1 = "client_chunk 5 ''txstatus'' ''abc''"
  let ?b2 = "client_chunk 5 ''reqend'' ''1001 1.0 2.0 0.1 0.2 0.3''"
  let ?b3 = "\<lparr> c_fd = 0, c_client = False, c_backend = False, c_tag = ''cli'', c_data = ''ping'' \<rparr>"
  let ?c1 = "client_chunk 6 ''reqstart'' ''10.0.0.7 4712 1002''"
  let ?ms = "[client_chunk 6 ''rxurl'' ''/a'', client_chunk 6 ''sessionclose'' ''timeout'',
              client_chunk 6 ''txstatus'' ''200'']"
  let ?c2 = "client_chunk 6 ''reqend'' ''1002 1.0 2.0 0.1 0.2 0.3''"
  have lt: "later_transaction = ?c1 # ?ms @ [?c2]" by (simp add: later_transaction_def)
  have g1: "(6::int) \<noteq> 0" by simp
  have s1: "c_fd ?c1 = 6" "c_client ?c1" "c_tag ?c1 = ''reqstart''"
    "split CHR '' '' (c_data ?c1) = [''10.0.0.7'', ''4712'', ''1002'']" by code_simp+
  have m1: "\<forall>m \<in> set ?ms. inner_fragment 6 m" by code_simp
  have e1: "c_fd ?c2 = 6" "c_client ?c2" "c_tag ?c2 = ''reqend''" "reqend_ok sample_lib (c_data ?c2)"
    "split CHR '' '' (c_data ?c2) = [''1002'', ''1.0'', ''2.0'', ''0.1'', ''0.2'', ''0.3'']"
    by code_simp+
  have fl: "Option.bind (py_float sample_lib ''1.0'') (fromtimestamp sample_lib) = Some ''1.0''"
    "py_float sample_lib ''0.3'' = Some ''0.3''" by code_simp+
  have fi: "filter (\<lambda>m. c_tag m \<notin> ignored_tags) ?ms
              = [client_chunk 6 ''rxurl'' ''/a'', client_chunk 6 ''txstatus'' ''200'']"
    by code_simp
  have d0: "delivered client_open_dstate = []" "printed client_open_dstate = []" by code_simp+
  have a1: "lines (tbl (snd (cb sample_lib accept_all True None ?b1 client_open_dstate))) 6 = None"
    by code_simp
  have a2: "c_fd ?b1 \<noteq> 0" "c_tag ?b1 \<notin> ignored_tags"
    "fst (RequestLog sample_lib ?b1 False (tbl client_open_dstate)) = Inl ValueError" by code_simp+
  have a3: "length (heap (tbl (snd (cb sample_lib accept_all True None ?b1 client_open_dstate)))) = 1"
    "delivered (snd (cb sample_lib accept_all True None ?b1 client_open_dstate)) = []"
    by code_simp+
  note F1 = fault_isolation[OF g1 a1 s1 m1 e1, where e = ValueError, unfolded a3 fl fi, folded lt]
  have P1: "printed (snd (cb sample_lib accept_all True None ?b1 client_open_dstate)) = [ValueError]"
    using F1[THEN conjunct2, THEN conjunct1] a2 d0 by simp
  have D1: "delivered (dispatch_requests sample_lib accept_all True None
     (?b1 # later_transaction) client_open_dstate) = [1]"
    "started_at (heap (tbl (dispatch_requests sample_lib accept_all True None
     (?b1 # later_transaction) client_open_dstate)) ! 1) = Some ''1.0''"
    "deliver_time (heap (tbl (dispatch_requests sample_lib accept_all True None
     (?b1 # later_transaction) client_open_dstate)) ! 1) = Some ''0.3''"
    "length (chunks (heap (tbl (dispatch_requests sample_lib accept_all True None
     (?b1 # later_transaction) client_open_dstate)) ! 1)) = 4"
    using F1[THEN conjunct2, THEN conjunct2, THEN conjunct2, THEN conjunct2, THEN conjunct2] by simp_all
  have p1: "one_pair_stream sample_lib 12 14 pair_stream" by code_simp
  have p2: "lines (tbl (snd (cb sample_lib accept_all True None ?b1 client_open_dstate))) 12 = None"
    "lines (tbl (snd (cb sample_lib accept_all True None ?b1 client_open_dstate))) 14 = None"
    by code_simp+
  note Q1 = fault_isolation[OF g1 a1 s1 m1 e1, where fc = 12 and fb = 14 and cs = pair_stream,
      THEN conjunct2, THEN conjunct2, THEN conjunct2, THEN conjunct2, THEN conjunct1, rule_format,
      OF conjI[OF p1 conjI[OF p2(1) p2(2)]], unfolded a3]
  have L1: "length (delivered (dispatch_requests sample_lib accept_all True None
     (?b1 # pair_stream) client_open_dstate)) = 1"
    using Q1 by auto
  have b1: "lines (tbl (snd (cb sample_lib reject_all True None ?b2 client_open_dstate))) 6 = None"
    by code_simp
  have b2: "c_fd ?b2 \<noteq> 0" "c_tag ?b2 \<notin> ignored_tags"
    "fst (RequestLog sample_lib ?b2 False (tbl client_open_dstate)) = Inr (Some 0)"
    "complete (heap (snd (RequestLog sample_lib ?b2 False (tbl client_open_dstate))) ! 0)"
    "backend (heap (snd (RequestLog sample_lib ?b2 False (tbl client_open_dstate))) ! 0) = Some False"
    "client (heap (snd (RequestLog sample_lib ?b2 False (tbl client_open_dstate))) ! 0) = Some True"
    by code_simp+
  have b3: "reject_all (snd (RequestLog sample_lib ?b2 False (tbl client_open_dstate))) 0
              = Inl ConsumerError" by (simp add: reject_all_def)
  have b4: "length (heap (tbl (snd (cb sample_lib reject_all True None ?b2 client_open_dstate)))) = 1"
    "delivered (snd (cb sample_lib reject_all True None ?b2 client_open_dstate)) = [0]"
    by code_simp+
  note F2 = fault_isolation[OF g1 b1 s1 m1 e1, where e = ConsumerError and r = 0 and b = False,
      unfolded b4 fl fi, folded lt]
  have P2: "printed (snd (cb sample_lib reject_all True None ?b2 client_open_dstate))
              = [ConsumerError]"
    using F2[THEN conjunct2, THEN conjunct2, THEN conjunct1] b2 b3 d0 by simp
  have D2: "delivered (dispatch_requests sample_lib reject_all True None
     (?b2 # later_transaction) client_open_dstate) = [0, 1]"
    using F2[THEN conjunct2, THEN conjunct2, THEN conjunct2, THEN conjunct2, THEN conjunct2] by simp
  have c1: "lines (tbl (snd (cb sample_lib accept_all True (Some failing_nonrequest) ?b3
              client_open_dstate))) 6 = None"
    by code_simp
  have c2: "c_fd ?b3 = 0" "failing_nonrequest ?b3 = Inl ConsumerError"
    by (simp_all add: failing_nonrequest_def)
  have c4: "length (heap (tbl (snd (cb sample_lib accept_all True (Some failing_nonrequest) ?b3
              client_open_dstate)))) = 1"
    "delivered (snd (cb sample_lib accept_all True (Some failing_nonrequest) ?b3
              client_open_dstate)) = []"
    by code_simp+
  note F3 = fault_isolation[OF g1 c1 s1 m1 e1, where e = ConsumerError and h = failing_nonrequest,
      unfolded c4 fl fi, folded lt]
  have P3: "printed (snd (cb sample_lib accept_all True (Some failing_nonrequest) ?b3
              client_open_dstate)) = [ConsumerError]"
    using F3[THEN conjunct2, THEN conjunct2, THEN conjunct2, THEN conjunct1] c2 d0 by simp
  have D3: "delivered (dispatch_requests sample_lib accept_all True (Some failing_nonrequest)
     (?b3 # later_transaction) client_open_dstate) = [1]"
    using F3[THEN conjunct2, THEN conjunct2, THEN conjunct2, THEN conjunct2, THEN conjunct2] by simp
  show ?thesis by (intro conjI a2(3) P1 D1 p1 L1 b3 b4(2) P2 D2 P3 D3)
qed


section \<open>Aggregation policy\<close>

lemma pair_stream_eval:
  "delivered (dispatch_requests sample_lib accept_all True None pair_stream init_dstate) = [0]"
  "delivered (dispatch_requests sample_lib accept_all False None pair_stream init_dstate) = [1, 0]"
  "backend_request (heap (tbl (dispatch_requests sample_lib accept_all True None pair_stream
      init_dstate)) ! 0) = Some 1"
  "printed (dispatch_requests sample_lib accept_all True None pair_stream init_dstate) = []"
  by code_simp+

text \<open>
  Claim C4. Let the stream consist of exactly one complete client transaction on the
  descriptor \<open>fc\<close> that refers to exactly one complete backend transaction on the
  descriptor \<open>fb\<close>, and let both descriptors be unbound when the dispatcher starts. With
  \<open>aggregate = True\<close> the consumer is invoked exactly once, with the complete client log,
  whose \<open>backend_request\<close> is the complete backend log; it is not invoked with a backend
  log. With \<open>aggregate = False\<close> the consumer is invoked exactly twice, once with the
  complete client log and once with the complete backend log, in one order or the other.
\<close>

theorem aggregation_policy:
  assumes "one_pair_stream L fc fb cs"
    and "lines (tbl ds) fc = None" and "lines (tbl ds) fb = None"
  shows "(\<exists>rc rb.
            delivered (dispatch_requests L callback True nrc cs ds) = delivered ds @ [rc] \<and>
            cls (heap (tbl (dispatch_requests L callback True nrc cs ds)) ! rc)
              = ClientRequestLog \<and>
            complete (heap (tbl (dispatch_requests L callback True nrc cs ds)) ! rc) \<and>
            backend_request (heap (tbl (dispatch_requests L callback True nrc cs ds)) ! rc)
              = Some rb \<and>
            cls (heap (tbl (dispatch_requests L callback True nrc cs ds)) ! rb)
              = BackendRequestLog \<and>
            complete (heap (tbl (dispatch_requests L callback True nrc cs ds)) ! rb)) \<and>
         (\<exists>rc rb.
            (delivered (dispatch_requests L callback False nrc cs ds) = delivered ds @ [rc, rb] \<or>
             delivered (dispatch_requests L callback False nrc cs ds) = delivered ds @ [rb, rc]) \<and>
            cls (heap (tbl (dispatch_requests L callback False nrc cs ds)) ! rc)
              = ClientRequestLog \<and>
            complete (heap (tbl (dispatch_requests L callback False nrc cs ds)) ! rc) \<and>
            backend_request (heap (tbl (dispatch_requests L callback False nrc cs ds)) ! rc)
              = Some rb \<and>
            cls (heap (tbl (dispatch_requests L callback False nrc cs ds)) ! rb)
              = BackendRequestLog \<and>
            complete (heap (tbl (dispatch_requests L callback False nrc cs ds)) ! rb))"
proof -
  from assms(1) have fds: "fc \<noteq> 0" "fb \<noteq> 0" "fc \<noteq> fb"
    and run: "pair_run L fc fb (Idle, Idle, False) cs = Some (Finished, Finished, True)"
    by (simp_all add: one_pair_stream_def)
  have I: "pair_inv agg fc fb (Idle, Idle, False) 0 0 (delivered ds) ds" for agg
    using assms(2,3)
    by (simp add: pair_inv_def client_part_def backend_part_def delivered_part_def)
  have F: "\<exists>rc rb. pair_inv agg fc fb (Finished, Finished, True) rc rb (delivered ds)
             (dispatch_requests L callback agg nrc cs ds)" for agg
    by (rule pair_run_inv[OF fds I run])
  have T: ?thesis if "\<exists>rc rb. pair_inv True fc fb (Finished, Finished, True) rc rb (delivered ds)
             (dispatch_requests L callback True nrc cs ds)"
    and "\<exists>rc rb. pair_inv False fc fb (Finished, Finished, True) rc rb (delivered ds)
             (dispatch_requests L callback False nrc cs ds)"
    using that
    by (simp add: pair_inv_def client_part_def backend_part_def delivered_part_def) blast
  show ?thesis by (rule T[OF F F])
qed

theorem aggregation_policy_witness:
  "one_pair_stream sample_lib 12 14 pair_stream \<and>
   lines (tbl (init_dstate :: (string, string) dstate)) 12 = None \<and>
   lines (tbl (init_dstate :: (string, string) dstate)) 14 = None \<and>
   length (delivered (dispatch_requests sample_lib accept_all True None pair_stream
     (init_dstate :: (string, string) dstate))) = 1 \<and>
   length (delivered (dispatch_requests sample_lib accept_all False None pair_stream
     (init_dstate :: (string, string) dstate))) = 2"
proof -
  have h1: "one_pair_stream sample_lib 12 14 pair_stream" by code_simp
  have h2: "lines (tbl (init_dstate :: (string, string) dstate)) 12 = None" by code_simp
  have h3: "lines (tbl (init_dstate :: (string, string) dstate)) 14 = None" by code_simp
  have d: "delivered (init_dstate :: (string, string) dstate) = []" by code_simp
  note A = aggregation_policy[OF h1 h2 h3, of accept_all None, unfolded d]
  have l1: "length (delivered (dispatch_requests sample_lib accept_all True None pair_stream
     (init_dstate :: (string, string) dstate))) = 1"
    using A[THEN conjunct1] by auto
  have l2: "length (delivered (dispatch_requests sample_lib accept_all False None pair_stream
     (init_dstate :: (string, string) dstate))) = 2"
    using A[THEN conjunct2] by auto
  show ?thesis by (intro conjI h1 h2 h3 l1 l2)
qed

end
